theory Spec2Isabelle
  imports Main "HOL-Library.Word"
begin

section \<open>Netwatch: access provisioning and cleanup\<close>

text \<open>
  A shallow embedding of the Go sources of netwatch: the cluster access facade
  (\<^verbatim>\<open>internal/k8s\<close>), the WebSocket command handlers
  (\<^verbatim>\<open>internal/handlers/websocket_commands.go\<close>), the read model
  (\<^verbatim>\<open>internal/handlers/api_handlers.go\<close>) and the cleanup reconciler
  (\<^verbatim>\<open>internal/controller/cleanup_controller.go\<close>).

  The Kubernetes API server is the environment. It is modelled as an explicit store of
  objects (the \<open>world\<close> record) that every client call reads and updates. A call can
  fail for reasons outside the store (RBAC denial of the impersonated user, a transient
  outage): the world carries a schedule of injected failures, one entry per call, and a
  failed call leaves the store as it was. Every call is appended to a trace, and what a
  handler tells the user or the log is appended to a list of events.
\<close>

subsection \<open>Strings and the standard library\<close>

text \<open>\<^verbatim>\<open>strings.Split(s, sep)\<close> for a separator of one byte: never an empty list.\<close>

fun Split :: "string \<Rightarrow> char \<Rightarrow> string list" where
  "Split [] sep = [[]]"
| "Split (c # cs) sep =
     (if c = sep then [] # Split cs sep
      else (case Split cs sep of [] \<Rightarrow> [[c]] | p # ps \<Rightarrow> (c # p) # ps))"

text \<open>\<^verbatim>\<open>strings.HasPrefix\<close>.\<close>

definition HasPrefix :: "string \<Rightarrow> string \<Rightarrow> bool" where
  "HasPrefix s pre = (take (length pre) s = pre)"

text \<open>
  \<^verbatim>\<open>strings.Replace(s, old, new, 1)\<close> for a non-empty \<open>old\<close>: the first
  occurrence from the left is replaced, wherever it stands.
\<close>

fun Replace1 :: "string \<Rightarrow> string \<Rightarrow> string \<Rightarrow> string" where
  "Replace1 [] old new = []"
| "Replace1 (c # cs) old new =
     (if HasPrefix (c # cs) old then new @ drop (length old) (c # cs)
      else c # Replace1 cs old new)"

text \<open>\<^verbatim>\<open>s[:n]\<close>: a slice expression panics when \<open>n\<close> exceeds the length.\<close>

definition slice_to :: "nat \<Rightarrow> string \<Rightarrow> string option" where
  "slice_to n s = (if n \<le> length s then Some (take n s) else None)"

text \<open>\<^verbatim>\<open>hex.EncodeToString([]byte(s))\<close>: two lower-case digits per byte.\<close>

definition hexdigit :: "nat \<Rightarrow> char" where
  "hexdigit n = ''0123456789abcdef'' ! (n mod 16)"

definition EncodeToString :: "string \<Rightarrow> string" where
  "EncodeToString s =
     concat (map (\<lambda>c. [hexdigit (of_char c div 16), hexdigit (of_char c mod 16)]) s)"

text \<open>\<^verbatim>\<open>strconv.Itoa\<close> and the verb \<^verbatim>\<open>%d\<close> of \<^verbatim>\<open>fmt.Sprintf\<close>.\<close>

fun digits :: "nat \<Rightarrow> string" where
  "digits n =
     (if n < 10 then [char_of (48 + n)] else digits (n div 10) @ [char_of (48 + n mod 10)])"

declare digits.simps [simp del]

definition Itoa :: "int \<Rightarrow> string" where
  "Itoa i = (if i < 0 then CHR ''-'' # digits (nat (- i)) else digits (nat i))"

text \<open>\<^verbatim>\<open>strings.Join\<close>.\<close>

fun Join :: "string list \<Rightarrow> string \<Rightarrow> string" where
  "Join [] sep = []"
| "Join [s] sep = s"
| "Join (s # t # ts) sep = s @ sep @ Join (t # ts) sep"

text \<open>Lookup in a \<^verbatim>\<open>map[string]string\<close>, kept as an association list.\<close>

type_synonym strmap = "(string \<times> string) list"

subsection \<open>Errors\<close>

text \<open>
  An error of the API server is \<open>NotFound\<close>, \<open>AlreadyExists\<close>, or any other failure
  (forbidden, unavailable, conflict) with its message. Go errors wrap each other with
  \<^verbatim>\<open>fmt.Errorf("...: %w", err)\<close>; \<^verbatim>\<open>IsNotFound\<close> looks through the wrapping.
\<close>

datatype api_error = NotFound | AlreadyExists | Failure string

datatype go_error = ApiError api_error | Errorf string go_error | ErrorNew string

fun api_message :: "api_error \<Rightarrow> string" where
  "api_message NotFound = ''not found''"
| "api_message AlreadyExists = ''already exists''"
| "api_message (Failure m) = m"

fun Error :: "go_error \<Rightarrow> string" where
  "Error (ApiError e) = api_message e"
| "Error (Errorf pre e) = pre @ Error e"
| "Error (ErrorNew m) = m"

fun Cause :: "go_error \<Rightarrow> api_error option" where
  "Cause (ApiError e) = Some e"
| "Cause (Errorf pre e) = Cause e"
| "Cause (ErrorNew m) = None"

definition IsNotFound :: "go_error \<Rightarrow> bool" where
  "IsNotFound err = (Cause err = Some NotFound)"

subsection \<open>Objects of the cluster\<close>

record ObjectMeta =
  Name :: string
  Namespace :: string
  Labels :: strmap
  Annotations :: strmap
  Finalizers :: "string list"
  DeletionTimestamp :: bool
  CreationTimestamp :: int

record ServicePort =
  port_Name :: string
  port_Protocol :: string
  port_Port :: int

record Service = ObjectMeta +
  svc_Ports :: "ServicePort list"
  svc_Selector :: strmap
  svc_Type :: string
  svc_ClusterIP :: string
  svc_ClusterIPs :: "string list"

record AccessPoint =
  ServiceName :: string
  ap_Namespace :: string

record Access = ObjectMeta +
  acc_Duration :: string
  acc_ServiceSelector :: strmap
  acc_Targets :: "AccessPoint list"
  acc_Direction :: string

record ExternalAccess = ObjectMeta +
  ea_TargetCIDRs :: "string list"
  ea_Direction :: string
  ea_Duration :: string
  ea_ServiceSelector :: strmap

record AccessRequest = ObjectMeta +
  Requestor :: string
  RequestType :: string
  SourceService :: string
  TargetService :: string
  Cidr :: string
  Service :: string
  Direction :: string
  Ports :: string
  Duration :: int
  Description :: string
  Status :: string
  RequestID :: string
  SourceCloneName :: string
  TargetCloneName :: string

text \<open>The label that correlates the clones and declarations of one grant.\<close>

definition request_id_label :: string where
  "request_id_label = ''netwatch.vtk.io/request-id''"

definition has_request_id :: "string \<Rightarrow> 'a ObjectMeta_scheme \<Rightarrow> bool" where
  "has_request_id rid obj = (map_of (Labels obj) request_id_label = Some rid)"

text \<open>How many objects of a list carry the correlation id \<open>rid\<close>.\<close>

definition count_request_id :: "string \<Rightarrow> 'a ObjectMeta_scheme list \<Rightarrow> nat" where
  "count_request_id rid objs = length (filter (has_request_id rid) objs)"

subsection \<open>The store of the API server\<close>

definition is_at :: "string \<Rightarrow> string \<Rightarrow> 'a ObjectMeta_scheme \<Rightarrow> bool" where
  "is_at ns n obj = (Namespace obj = ns \<and> Name obj = n)"

definition store_get ::
  "'a ObjectMeta_scheme list \<Rightarrow> string \<Rightarrow> string \<Rightarrow> 'a ObjectMeta_scheme option" where
  "store_get objs ns n = find (is_at ns n) objs"

text \<open>Create refuses a name that is taken.\<close>

definition store_create ::
  "'a ObjectMeta_scheme list \<Rightarrow> 'a ObjectMeta_scheme \<Rightarrow> api_error + 'a ObjectMeta_scheme list" where
  "store_create objs obj =
     (case store_get objs (Namespace obj) (Name obj) of
        Some old \<Rightarrow> Inl AlreadyExists
      | None \<Rightarrow> Inr (objs @ [obj]))"

text \<open>
  Delete removes an object that has no finalizer; one that has finalizers is only marked
  (its deletion timestamp is set) and stays until the last finalizer is removed.
\<close>

definition store_delete ::
  "'a ObjectMeta_scheme list \<Rightarrow> string \<Rightarrow> string \<Rightarrow> api_error + 'a ObjectMeta_scheme list" where
  "store_delete objs ns n =
     (case store_get objs ns n of
        None \<Rightarrow> Inl NotFound
      | Some old \<Rightarrow>
          if Finalizers old = [] then Inr (filter (\<lambda>x. \<not> is_at ns n x) objs)
          else Inr (map (\<lambda>x. if is_at ns n x then x\<lparr>DeletionTimestamp := True\<rparr> else x) objs))"

text \<open>
  Update replaces the stored object; an object that is being deleted and whose last
  finalizer the update removes is gone.
\<close>

definition store_update ::
  "'a ObjectMeta_scheme list \<Rightarrow> 'a ObjectMeta_scheme \<Rightarrow> api_error + 'a ObjectMeta_scheme list" where
  "store_update objs obj =
     (case store_get objs (Namespace obj) (Name obj) of
        None \<Rightarrow> Inl NotFound
      | Some old \<Rightarrow>
          if DeletionTimestamp old \<and> Finalizers obj = []
          then Inr (filter (\<lambda>x. \<not> is_at (Namespace obj) (Name obj) x) objs)
          else Inr (map (\<lambda>x. if is_at (Namespace obj) (Name obj) x
                              then obj\<lparr>DeletionTimestamp := DeletionTimestamp old\<rparr> else x) objs))"

subsection \<open>The world: store, injected failures, trace and events\<close>

datatype kind = Services | Accesses | ExternalAccesses | AccessRequests

datatype api_call =
    GetCall kind string string
  | CreateCall kind string string
  | UpdateCall kind string string
  | DeleteCall kind string string
  | ListCall kind string string
  | NewClientCall

datatype event =
    SendError string "go_error option" string
  | LogAndBroadcast string string string string
  | LoggerError string "go_error option"
  | LoggerWarn string

record world =
  services :: "Service list"
  accesses :: "Access list"
  externalAccesses :: "ExternalAccess list"
  accessRequests :: "AccessRequest list"
  faults :: "string option list"
  calls :: "(api_call \<times> api_error option) list"
  events :: "event list"

text \<open>
  One call of a client: the next entry of the failure schedule decides whether the call
  reaches the store; the call and its outcome are recorded.
\<close>

definition invoke ::
  "api_call \<Rightarrow> (world \<Rightarrow> api_error + 'r \<times> world) \<Rightarrow> world \<Rightarrow> (api_error + 'r) \<times> world" where
  "invoke c f w =
     (case faults w of
        Some m # rest \<Rightarrow>
          (Inl (Failure m), w\<lparr>faults := rest, calls := calls w @ [(c, Some (Failure m))]\<rparr>)
      | _ \<Rightarrow>
          (let w1 = w\<lparr>faults := tl (faults w)\<rparr> in
           case f w1 of
             Inl e \<Rightarrow> (Inl e, w1\<lparr>calls := calls w1 @ [(c, Some e)]\<rparr>)
           | Inr (r, w2) \<Rightarrow> (Inr r, w2\<lparr>calls := calls w2 @ [(c, None)]\<rparr>)))"

definition emit :: "event \<Rightarrow> world \<Rightarrow> world" where
  "emit ev w = w\<lparr>events := events w @ [ev]\<rparr>"

subsection \<open>What the repository does not hold\<close>

text \<open>
  Functions of the Go standard library and of the platform are parameters:
  the hexadecimal SHA-1 digest (40 characters), \<^verbatim>\<open>strings.TrimSpace\<close>,
  \<^verbatim>\<open>strconv.Atoi\<close>, \<^verbatim>\<open>time.ParseDuration\<close> (in nanoseconds), the verdict of the
  cluster's authorization subsystem on one SubjectAccessReview (or the error of the call),
  and the order in which the goroutines of an \<^verbatim>\<open>errgroup\<close> finish (as indices into
  the list of tasks).
\<close>

record UserInfo =
  Email :: string
  Groups :: "string list"

record PermissionRequest =
  perm_Verb :: string
  perm_Group :: string
  perm_Resource :: string
  perm_Namespace :: string

record env =
  sha1_hex :: "string \<Rightarrow> string"
  TrimSpace :: "string \<Rightarrow> string"
  Atoi :: "string \<Rightarrow> int option"
  ParseDuration :: "string \<Rightarrow> int option"
  sar :: "UserInfo \<Rightarrow> string \<Rightarrow> string \<Rightarrow> string \<Rightarrow> string \<Rightarrow> string \<Rightarrow> api_error + bool"
  finish :: "PermissionRequest list \<Rightarrow> nat list"

text \<open>The conversion \<^verbatim>\<open>int32(port)\<close> wraps.\<close>

definition int32 :: "int \<Rightarrow> int" where
  "int32 i = sint (word_of_int i :: 32 word)"

subsection \<open>Permission oracle (internal/k8s/client.go)\<close>

definition CanPerformAction ::
  "env \<Rightarrow> UserInfo \<Rightarrow> string \<Rightarrow> string \<Rightarrow> string \<Rightarrow> string \<Rightarrow> string \<Rightarrow> bool \<times> go_error option" where
  "CanPerformAction E userInfo verb grp resource namespace name =
     (case sar E userInfo verb grp resource namespace name of
        Inl err \<Rightarrow> (False, Some (Errorf ''failed to create subjectaccessreview: '' (ApiError err)))
      | Inr allowed \<Rightarrow> (allowed, None))"

text \<open>The function each goroutine of \<^verbatim>\<open>CanPerformAllActions\<close> runs: nil, or its error.\<close>

definition check_perm :: "env \<Rightarrow> UserInfo \<Rightarrow> PermissionRequest \<Rightarrow> go_error option" where
  "check_perm E userInfo perm =
     (case CanPerformAction E userInfo (perm_Verb perm) (perm_Group perm) (perm_Resource perm)
             (perm_Namespace perm) [] of
        (allowed, Some err) \<Rightarrow> Some err
      | (allowed, None) \<Rightarrow>
          if \<not> allowed
          then Some (ErrorNew (''permission denied: cannot '' @ perm_Verb perm @ '' '' @
                  perm_Resource perm @ '' in namespace '' @ perm_Namespace perm))
          else None)"

text \<open>
  \<^verbatim>\<open>g.Wait()\<close> of an \<^verbatim>\<open>errgroup\<close> returns the first non-nil error in the order
  in which the goroutines returned; the argument lists their results in that order.
\<close>

fun Wait :: "go_error option list \<Rightarrow> go_error option" where
  "Wait [] = None"
| "Wait (None # rs) = Wait rs"
| "Wait (Some err # rs) = Some err"

definition CanPerformAllActions ::
  "env \<Rightarrow> UserInfo \<Rightarrow> PermissionRequest list \<Rightarrow> bool \<times> go_error option" where
  "CanPerformAllActions E userInfo perms =
     (case Wait (map (\<lambda>i. check_perm E userInfo (perms ! i)) (finish E perms)) of
        Some err \<Rightarrow>
          if HasPrefix (Error err) ''permission denied'' then (False, None)
          else (False, Some err)
      | None \<Rightarrow> (True, None))"

text \<open>Every goroutine finishes once: the completion order is a permutation of the tasks.\<close>

definition is_schedule :: "nat list \<Rightarrow> nat \<Rightarrow> bool" where
  "is_schedule order n = (distinct order \<and> set order = {..<n})"

text \<open>The verdict of the authorization subsystem on one permission request.\<close>

definition verdict :: "env \<Rightarrow> UserInfo \<Rightarrow> PermissionRequest \<Rightarrow> api_error + bool" where
  "verdict E userInfo perm =
     sar E userInfo (perm_Verb perm) (perm_Group perm) (perm_Resource perm) (perm_Namespace perm) []"

subsection \<open>Client calls\<close>

text \<open>
  The calls of a controller-runtime client (\<^verbatim>\<open>Get\<close>, \<^verbatim>\<open>Create\<close>,
  \<^verbatim>\<open>Update\<close>, \<^verbatim>\<open>Delete\<close>, \<^verbatim>\<open>List\<close>), one per kind of object. The
  application client and the impersonating client reach the same store; what the
  impersonated user may not do shows as an injected failure.
\<close>

definition as_error :: "(api_error + unit) \<times> world \<Rightarrow> go_error option \<times> world" where
  "as_error r = (case r of (Inl e, w) \<Rightarrow> (Some (ApiError e), w) | (Inr x, w) \<Rightarrow> (None, w))"

definition client_Get_Service :: "string \<Rightarrow> string \<Rightarrow> world \<Rightarrow> (api_error + Service) \<times> world" where
  "client_Get_Service ns n =
     invoke (GetCall Services ns n)
       (\<lambda>w. case store_get (services w) ns n of None \<Rightarrow> Inl NotFound | Some obj \<Rightarrow> Inr (obj, w))"

definition client_Create_Service :: "Service \<Rightarrow> world \<Rightarrow> (api_error + unit) \<times> world" where
  "client_Create_Service obj =
     invoke (CreateCall Services (Namespace obj) (Name obj))
       (\<lambda>w. case store_create (services w) obj of
               Inl e \<Rightarrow> Inl e | Inr objs \<Rightarrow> Inr ((), w\<lparr>services := objs\<rparr>))"

definition client_Delete_Service :: "string \<Rightarrow> string \<Rightarrow> world \<Rightarrow> (api_error + unit) \<times> world" where
  "client_Delete_Service ns n =
     invoke (DeleteCall Services ns n)
       (\<lambda>w. case store_delete (services w) ns n of
               Inl e \<Rightarrow> Inl e | Inr objs \<Rightarrow> Inr ((), w\<lparr>services := objs\<rparr>))"

definition client_List_Services :: "string \<Rightarrow> world \<Rightarrow> (api_error + Service list) \<times> world" where
  "client_List_Services rid =
     invoke (ListCall Services request_id_label rid)
       (\<lambda>w. Inr (filter (has_request_id rid) (services w), w))"

definition client_Get_Access :: "string \<Rightarrow> string \<Rightarrow> world \<Rightarrow> (api_error + Access) \<times> world" where
  "client_Get_Access ns n =
     invoke (GetCall Accesses ns n)
       (\<lambda>w. case store_get (accesses w) ns n of None \<Rightarrow> Inl NotFound | Some obj \<Rightarrow> Inr (obj, w))"

definition client_Create_Access :: "Access \<Rightarrow> world \<Rightarrow> (api_error + unit) \<times> world" where
  "client_Create_Access obj =
     invoke (CreateCall Accesses (Namespace obj) (Name obj))
       (\<lambda>w. case store_create (accesses w) obj of
               Inl e \<Rightarrow> Inl e | Inr objs \<Rightarrow> Inr ((), w\<lparr>accesses := objs\<rparr>))"

definition client_Update_Access :: "Access \<Rightarrow> world \<Rightarrow> (api_error + unit) \<times> world" where
  "client_Update_Access obj =
     invoke (UpdateCall Accesses (Namespace obj) (Name obj))
       (\<lambda>w. case store_update (accesses w) obj of
               Inl e \<Rightarrow> Inl e | Inr objs \<Rightarrow> Inr ((), w\<lparr>accesses := objs\<rparr>))"

definition client_Delete_Access :: "string \<Rightarrow> string \<Rightarrow> world \<Rightarrow> (api_error + unit) \<times> world" where
  "client_Delete_Access ns n =
     invoke (DeleteCall Accesses ns n)
       (\<lambda>w. case store_delete (accesses w) ns n of
               Inl e \<Rightarrow> Inl e | Inr objs \<Rightarrow> Inr ((), w\<lparr>accesses := objs\<rparr>))"

definition client_Create_ExternalAccess :: "ExternalAccess \<Rightarrow> world \<Rightarrow> (api_error + unit) \<times> world" where
  "client_Create_ExternalAccess obj =
     invoke (CreateCall ExternalAccesses (Namespace obj) (Name obj))
       (\<lambda>w. case store_create (externalAccesses w) obj of
               Inl e \<Rightarrow> Inl e | Inr objs \<Rightarrow> Inr ((), w\<lparr>externalAccesses := objs\<rparr>))"

definition client_Update_ExternalAccess :: "ExternalAccess \<Rightarrow> world \<Rightarrow> (api_error + unit) \<times> world" where
  "client_Update_ExternalAccess obj =
     invoke (UpdateCall ExternalAccesses (Namespace obj) (Name obj))
       (\<lambda>w. case store_update (externalAccesses w) obj of
               Inl e \<Rightarrow> Inl e | Inr objs \<Rightarrow> Inr ((), w\<lparr>externalAccesses := objs\<rparr>))"

definition client_Delete_ExternalAccess :: "string \<Rightarrow> string \<Rightarrow> world \<Rightarrow> (api_error + unit) \<times> world" where
  "client_Delete_ExternalAccess ns n =
     invoke (DeleteCall ExternalAccesses ns n)
       (\<lambda>w. case store_delete (externalAccesses w) ns n of
               Inl e \<Rightarrow> Inl e | Inr objs \<Rightarrow> Inr ((), w\<lparr>externalAccesses := objs\<rparr>))"

text \<open>Access requests are cluster-scoped: their namespace is empty.\<close>

definition client_Get_AccessRequest :: "string \<Rightarrow> world \<Rightarrow> (api_error + AccessRequest) \<times> world" where
  "client_Get_AccessRequest n =
     invoke (GetCall AccessRequests [] n)
       (\<lambda>w. case store_get (accessRequests w) [] n of
               None \<Rightarrow> Inl NotFound | Some obj \<Rightarrow> Inr (obj, w))"

definition client_Create_AccessRequest :: "AccessRequest \<Rightarrow> world \<Rightarrow> (api_error + unit) \<times> world" where
  "client_Create_AccessRequest obj =
     invoke (CreateCall AccessRequests (Namespace obj) (Name obj))
       (\<lambda>w. case store_create (accessRequests w) obj of
               Inl e \<Rightarrow> Inl e | Inr objs \<Rightarrow> Inr ((), w\<lparr>accessRequests := objs\<rparr>))"

definition client_Update_AccessRequest :: "AccessRequest \<Rightarrow> world \<Rightarrow> (api_error + unit) \<times> world" where
  "client_Update_AccessRequest obj =
     invoke (UpdateCall AccessRequests (Namespace obj) (Name obj))
       (\<lambda>w. case store_update (accessRequests w) obj of
               Inl e \<Rightarrow> Inl e | Inr objs \<Rightarrow> Inr ((), w\<lparr>accessRequests := objs\<rparr>))"

definition client_Delete_AccessRequest :: "string \<Rightarrow> string \<Rightarrow> world \<Rightarrow> (api_error + unit) \<times> world" where
  "client_Delete_AccessRequest ns n =
     invoke (DeleteCall AccessRequests ns n)
       (\<lambda>w. case store_delete (accessRequests w) ns n of
               Inl e \<Rightarrow> Inl e | Inr objs \<Rightarrow> Inr ((), w\<lparr>accessRequests := objs\<rparr>))"

subsection \<open>Cluster access facade (internal/k8s)\<close>

text \<open>
  \<^verbatim>\<open>GetImpersonatingKubeClient\<close> verifies the token with the identity provider and
  builds a client: a call that can fail and touches no object.
\<close>

definition GetImpersonatingKubeClient :: "string \<Rightarrow> world \<Rightarrow> go_error option \<times> world" where
  "GetImpersonatingKubeClient idTokenString w = as_error (invoke NewClientCall (\<lambda>w. Inr ((), w)) w)"

definition CloneService ::
  "string \<Rightarrow> string \<Rightarrow> string \<Rightarrow> strmap \<Rightarrow> ServicePort list \<Rightarrow> world \<Rightarrow> (go_error + Service) \<times> world" where
  "CloneService originalNamespace originalName newName uniqueLabel overridePorts w =
     (case client_Get_Service originalNamespace originalName w of
        (Inl err, w1) \<Rightarrow>
          (Inl (Errorf (''could not get original service '' @ originalNamespace @ ''/'' @
                  originalName @ '': '') (ApiError err)), w1)
      | (Inr originalService, w1) \<Rightarrow>
          (let portsToUse = (if length overridePorts > 0 then overridePorts
                             else svc_Ports originalService);
               portStrings = map (\<lambda>p. Itoa (port_Port p)) portsToUse;
               portsAnnotationValue = Join portStrings '', '';
               cloned = \<lparr>Name = newName, Namespace = Namespace originalService,
                   Labels = uniqueLabel,
                   Annotations =
                     [(''netwatch.vtk.io/cloned-from'', originalNamespace @ ''/'' @ originalName),
                      (''netwatch.vtk.io/ports'', portsAnnotationValue)],
                   Finalizers = [], DeletionTimestamp = False, CreationTimestamp = 0,
                   svc_Ports = portsToUse, svc_Selector = svc_Selector originalService,
                   svc_Type = svc_Type originalService, svc_ClusterIP = [],
                   svc_ClusterIPs = []\<rparr>;
               clonedService = (if svc_Type cloned = ''ClusterIP''
                                then cloned\<lparr>svc_ClusterIP := [], svc_ClusterIPs := []\<rparr>
                                else cloned)
           in case client_Create_Service clonedService w1 of
                (Inl err, w2) \<Rightarrow>
                  (Inl (Errorf (''could not create service clone '' @ Namespace clonedService @
                          ''/'' @ Name clonedService @ '': '') (ApiError err)), w2)
              | (Inr x, w2) \<Rightarrow> (Inr clonedService, w2)))"

definition DeleteService :: "string \<Rightarrow> string \<Rightarrow> world \<Rightarrow> go_error option \<times> world" where
  "DeleteService namespace name w = as_error (client_Delete_Service namespace name w)"

definition CreateAccess :: "Access \<Rightarrow> world \<Rightarrow> go_error option \<times> world" where
  "CreateAccess access w = as_error (client_Create_Access access w)"

definition DeleteAccess :: "string \<Rightarrow> string \<Rightarrow> world \<Rightarrow> go_error option \<times> world" where
  "DeleteAccess namespace name w = as_error (client_Delete_Access namespace name w)"

definition CreateExternalAccess :: "ExternalAccess \<Rightarrow> world \<Rightarrow> go_error option \<times> world" where
  "CreateExternalAccess access w = as_error (client_Create_ExternalAccess access w)"

definition CreateAccessRequestAsApp :: "AccessRequest \<Rightarrow> world \<Rightarrow> go_error option \<times> world" where
  "CreateAccessRequestAsApp req w = as_error (client_Create_AccessRequest req w)"

definition GetAccessRequestAsApp :: "string \<Rightarrow> world \<Rightarrow> (go_error + AccessRequest) \<times> world" where
  "GetAccessRequestAsApp name w =
     (case client_Get_AccessRequest name w of
        (Inl e, w1) \<Rightarrow> (Inl (ApiError e), w1)
      | (Inr request, w1) \<Rightarrow> (Inr request, w1))"

definition DeleteAccessRequestAsApp :: "string \<Rightarrow> world \<Rightarrow> go_error option \<times> world" where
  "DeleteAccessRequestAsApp name w = as_error (client_Delete_AccessRequest [] name w)"

subsection \<open>Command processor (internal/handlers/websocket_commands.go)\<close>

record webSocketCommandProcessor =
  idToken :: string
  userInfo :: UserInfo
  sanitizedUsername :: string

record webSocketPayload =
  pl_Command :: string
  pl_RequestID :: string
  pl_SourceService :: string
  pl_TargetService :: string
  pl_Direction :: string
  pl_Ports :: string
  pl_Cidr :: string
  pl_Service :: string
  pl_Duration :: int
  pl_Name :: string
  pl_Namespace :: string
  pl_Description :: string

text \<open>
  The two closures of the processor reach the user; the logger reaches the log. Each is
  an event of the run (informational log lines are left out).
\<close>

definition sendError :: "string \<Rightarrow> go_error option \<Rightarrow> string \<Rightarrow> world \<Rightarrow> world" where
  "sendError msg err logType = emit (SendError msg err logType)"

definition logAndBroadcast :: "string \<Rightarrow> string \<Rightarrow> string \<Rightarrow> string \<Rightarrow> world \<Rightarrow> world" where
  "logAndBroadcast payload className logType type = emit (LogAndBroadcast payload className logType type)"

text \<open>
  The idiom of every compensating delete: the error of the delete is logged unless it is
  nil or NotFound, and is never returned.
\<close>

definition cleanup :: "(world \<Rightarrow> go_error option \<times> world) \<Rightarrow> string \<Rightarrow> world \<Rightarrow> world" where
  "cleanup del msg w =
     (case del w of
        (Some cleanupErr, w1) \<Rightarrow>
          if \<not> IsNotFound cleanupErr then emit (LoggerError msg (Some cleanupErr)) w1 else w1
      | (None, w1) \<Rightarrow> w1)"

definition shortHash :: "env \<Rightarrow> string \<Rightarrow> string" where
  "shortHash E s = take 12 (sha1_hex E s)"

text \<open>The loop of \<^verbatim>\<open>getOverridePorts\<close> over the comma-separated pieces.\<close>

fun parse_ports :: "env \<Rightarrow> string list \<Rightarrow> go_error + ServicePort list" where
  "parse_ports E [] = Inr []"
| "parse_ports E (piece # rest) =
     (let pStr = TrimSpace E piece in
      if pStr = [] then parse_ports E rest
      else (case Atoi E pStr of
              None \<Rightarrow> Inl (ErrorNew ([CHR 0x27] @ pStr @ [CHR 0x27] @ '' is not a valid port number''))
            | Some port \<Rightarrow>
                (case parse_ports E rest of
                   Inl err \<Rightarrow> Inl err
                 | Inr ports \<Rightarrow>
                     Inr (\<lparr>port_Name = ''port-'' @ Itoa port, port_Protocol = ''TCP'',
                           port_Port = int32 port\<rparr> # ports))))"

definition getOverridePorts :: "env \<Rightarrow> string \<Rightarrow> go_error + ServicePort list" where
  "getOverridePorts E ports = (if ports \<noteq> [] then parse_ports E (Split ports CHR '','') else Inr [])"

definition new_Access ::
  "string \<Rightarrow> string \<Rightarrow> strmap \<Rightarrow> string \<Rightarrow> strmap \<Rightarrow> AccessPoint list \<Rightarrow> string \<Rightarrow> Access" where
  "new_Access name namespace labels duration selector targets direction =
     \<lparr>Name = name, Namespace = namespace, Labels = labels, Annotations = [], Finalizers = [],
      DeletionTimestamp = False, CreationTimestamp = 0,
      acc_Duration = duration, acc_ServiceSelector = selector, acc_Targets = targets,
      acc_Direction = direction\<rparr>"

definition commonAccessLabels :: "webSocketCommandProcessor \<Rightarrow> string \<Rightarrow> strmap" where
  "commonAccessLabels p rid =
     [(''app.kubernetes.io/managed-by'', ''netwatch''),
      (''netwatch.vtk.io/user'', sanitizedUsername p),
      (request_id_label, rid)]"

text \<open>The direction of the two declarations of a full grant (the \<^verbatim>\<open>switch\<close>).\<close>

definition full_directions :: "string \<Rightarrow> string \<times> string" where
  "full_directions direction =
     (if direction = ''ingress'' then (''ingress'', ''egress'')
      else if direction = ''egress'' then (''egress'', ''ingress'')
      else (''all'', ''all''))"

subsection \<open>Full direct creation\<close>

text \<open>
  \<open>cloneID\<close> is the string of the UUID that \<^verbatim>\<open>uuid.New()\<close> returns. A handler
  returns the world it leaves, or \<open>None\<close> when it panics (a slice or an index out of
  range).
\<close>

definition createClusterAccess ::
  "env \<Rightarrow> webSocketCommandProcessor \<Rightarrow> webSocketPayload \<Rightarrow> string \<Rightarrow> world \<Rightarrow> world option" where
  "createClusterAccess E p payload cloneID w =
     (case getOverridePorts E (pl_Ports payload) of
        Inl err \<Rightarrow> Some (sendError ''Invalid port override'' (Some err) ''Service'' w)
      | Inr overridePorts \<Rightarrow>
     (let sourceParts = Split (pl_SourceService payload) CHR ''/'';
          targetParts = Split (pl_TargetService payload) CHR ''/''
      in
      if length sourceParts \<noteq> 2 \<or> length targetParts \<noteq> 2
      then Some (sendError ''Invalid service format''
                  (Some (ErrorNew (''expected '' @ [CHR 0x27] @ ''namespace/name'' @ [CHR 0x27])))
                  ''Service'' w)
      else
     (let sourceNs = sourceParts ! 0; sourceName = sourceParts ! 1;
          targetNs = targetParts ! 0; targetName = targetParts ! 1
      in
      case slice_to 8 (EncodeToString cloneID) of
        None \<Rightarrow> None
      | Some randSuffix \<Rightarrow>
     (let sourceCloneName = ''nc-'' @ shortHash E sourceName @ ''-'' @ randSuffix;
          targetCloneName = ''nc-'' @ shortHash E targetName @ ''-'' @ randSuffix;
          commonRequestLabel = [(request_id_label, cloneID)]
      in
      case CloneService sourceNs sourceName sourceCloneName commonRequestLabel overridePorts w of
        (Inl err, w1) \<Rightarrow>
          Some (sendError ''Could not clone source service (check your permissions)''
                  (Some err) ''Service'' w1)
      | (Inr sourceClone, w1) \<Rightarrow>
     (case CloneService targetNs targetName targetCloneName commonRequestLabel overridePorts w1 of
        (Inl err, w2) \<Rightarrow>
          Some (cleanup (DeleteService (Namespace sourceClone) (Name sourceClone))
                  ''Failed to cleanup partial service clone on approval''
               (sendError ''Could not clone target service (check your permissions)''
                  (Some err) ''Service'' w2))
      | (Inr targetClone, w2) \<Rightarrow>
     (let durationStr = (if pl_Duration payload > 0 then Itoa (pl_Duration payload) @ ''s'' else []);
          labels = commonAccessLabels p cloneID;
          sourceAccess = new_Access (''access-'' @ sourceCloneName) sourceNs labels durationStr
             commonRequestLabel
             [\<lparr>ServiceName = Name targetClone, ap_Namespace = Namespace targetClone\<rparr>]
             (fst (full_directions (pl_Direction payload)));
          targetAccess = new_Access (''access-'' @ targetCloneName) targetNs labels durationStr
             commonRequestLabel
             [\<lparr>ServiceName = Name sourceClone, ap_Namespace = Namespace sourceClone\<rparr>]
             (snd (full_directions (pl_Direction payload)))
      in
      case CreateAccess sourceAccess w2 of
        (Some err, w3) \<Rightarrow>
          Some (cleanup (DeleteService (Namespace targetClone) (Name targetClone))
                  ''Failed to cleanup partial service clone on approval''
               (cleanup (DeleteService (Namespace sourceClone) (Name sourceClone))
                  ''Failed to cleanup partial service clone on approval''
               (sendError ''Could not create source Access policy (check your permissions)''
                  (Some err) ''Service'' w3)))
      | (None, w3) \<Rightarrow>
     (case CreateAccess targetAccess w3 of
        (Some err, w4) \<Rightarrow>
          Some (cleanup (DeleteAccess (Namespace sourceAccess) (Name sourceAccess))
                  ''Failed to cleanup source access object''
               (cleanup (DeleteService (Namespace targetClone) (Name targetClone))
                  ''Failed to cleanup target service clone''
               (cleanup (DeleteService (Namespace sourceClone) (Name sourceClone))
                  ''Failed to cleanup source service clone''
               (sendError ''Could not create target Access policy (check your permissions)''
                  (Some err) ''Service'' w4))))
      | (None, w4) \<Rightarrow>
     (let msg = (if pl_Duration payload > 0
                 then ''SUCCESS: Temporary access policies created for '' @ durationStr @ ''.''
                 else ''SUCCESS: Infinite access policies created.'')
      in Some (logAndBroadcast ''--- Request complete ---'' ''log-success'' ''Service'' ''applyComplete''
              (logAndBroadcast msg ''log-success'' ''Service'' ''applyResult'' w4))))))))))"

text \<open>
  The handler of the command \<^verbatim>\<open>requestClusterAccess\<close>. After the permission check it
  calls \<open>createClusterAccess\<close> and then runs the same steps once more in its own body,
  with a second UUID and clone names made of the service names themselves.
\<close>

definition handleRequestClusterAccess ::
  "env \<Rightarrow> webSocketCommandProcessor \<Rightarrow> webSocketPayload \<Rightarrow> string \<Rightarrow> string \<Rightarrow> world \<Rightarrow> world option" where
  "handleRequestClusterAccess E p payload cloneID1 cloneID w =
     (let sourceParts = Split (pl_SourceService payload) CHR ''/'';
          targetParts = Split (pl_TargetService payload) CHR ''/''
      in
      if length sourceParts \<noteq> 2 \<or> length targetParts \<noteq> 2
      then Some (sendError ''Invalid service format''
                  (Some (ErrorNew (''expected '' @ [CHR 0x27] @ ''namespace/name'' @ [CHR 0x27])))
                  ''Service'' w)
      else
     (let sourceNs = sourceParts ! 0; targetNs = targetParts ! 0;
          requiredPerms =
            [\<lparr>perm_Verb = ''create'', perm_Group = [], perm_Resource = ''services'', perm_Namespace = sourceNs\<rparr>,
             \<lparr>perm_Verb = ''create'', perm_Group = [], perm_Resource = ''services'', perm_Namespace = targetNs\<rparr>,
             \<lparr>perm_Verb = ''create'', perm_Group = ''maxtac.vtk.io'', perm_Resource = ''accesses'', perm_Namespace = sourceNs\<rparr>,
             \<lparr>perm_Verb = ''create'', perm_Group = ''maxtac.vtk.io'', perm_Resource = ''accesses'', perm_Namespace = targetNs\<rparr>]
      in
      case CanPerformAllActions E (userInfo p) requiredPerms of
        (canCreate, Some err) \<Rightarrow>
          Some (sendError ''Could not verify permissions for creating access'' (Some err) ''Service'' w)
      | (canCreate, None) \<Rightarrow>
      if \<not> canCreate
      then Some (sendError
             (''Permission denied. You lack the necessary permissions to create this access directly. Please use '' @
               [CHR 0x27] @ ''Submit for Review'' @ [CHR 0x27] @ '' instead.'')
             None ''Service'' w)
      else
     (case GetImpersonatingKubeClient (idToken p) w of
        (Some err, w0) \<Rightarrow>
          Some (sendError ''Could not create user-impersonating client'' (Some err) ''Service'' w0)
      | (None, w0) \<Rightarrow>
     (case createClusterAccess E p payload cloneID1 w0 of
        None \<Rightarrow> None
      | Some wa \<Rightarrow>
     (case getOverridePorts E (pl_Ports payload) of
        Inl err \<Rightarrow> Some (sendError ''Invalid port override'' (Some err) ''Service'' wa)
      | Inr overridePorts \<Rightarrow>
     (let sourceName = sourceParts ! 1; targetName = targetParts ! 1
      in
      case slice_to 8 (EncodeToString cloneID) of
        None \<Rightarrow> None
      | Some randSuffix \<Rightarrow>
     (let sourceCloneName = ''netwatch-clone-'' @ sourceName @ ''-'' @ randSuffix;
          targetCloneName = ''netwatch-clone-'' @ targetName @ ''-'' @ randSuffix;
          commonRequestLabel = [(request_id_label, cloneID)]
      in
      case CloneService sourceNs sourceName sourceCloneName commonRequestLabel overridePorts wa of
        (Inl err, w1) \<Rightarrow>
          Some (sendError ''Could not clone source service (check your permissions)''
                  (Some err) ''Service'' w1)
      | (Inr sourceClone, w1) \<Rightarrow>
     (case CloneService targetNs targetName targetCloneName commonRequestLabel overridePorts w1 of
        (Inl err, w2) \<Rightarrow>
          Some (cleanup (DeleteService (Namespace sourceClone) (Name sourceClone))
                  ''Failed to cleanup source service clone after target clone failed''
               (sendError ''Could not clone target service (check your permissions)''
                  (Some err) ''Service'' w2))
      | (Inr targetClone, w2) \<Rightarrow>
     (let durationStr = (if pl_Duration payload > 0 then Itoa (pl_Duration payload) @ ''s'' else []);
          labels = commonAccessLabels p cloneID;
          sourceAccess = new_Access (''access-'' @ sourceCloneName) sourceNs labels durationStr
             commonRequestLabel
             [\<lparr>ServiceName = Name targetClone, ap_Namespace = Namespace targetClone\<rparr>]
             (fst (full_directions (pl_Direction payload)));
          targetAccess = new_Access (''access-'' @ targetCloneName) targetNs labels durationStr
             commonRequestLabel
             [\<lparr>ServiceName = Name sourceClone, ap_Namespace = Namespace sourceClone\<rparr>]
             (snd (full_directions (pl_Direction payload)))
      in
      case CreateAccess sourceAccess w2 of
        (Some err, w3) \<Rightarrow>
          Some (cleanup (DeleteService (Namespace targetClone) (Name targetClone))
                  ''Failed to cleanup target service clone''
               (cleanup (DeleteService (Namespace sourceClone) (Name sourceClone))
                  ''Failed to cleanup source service clone''
               (sendError ''Could not create source Access policy (check your permissions)''
                  (Some err) ''Service'' w3)))
      | (None, w3) \<Rightarrow>
     (case CreateAccess targetAccess w3 of
        (Some err, w4) \<Rightarrow>
          Some (cleanup (DeleteAccess (Namespace sourceAccess) (Name sourceAccess))
                  ''Failed to cleanup source access object''
               (cleanup (DeleteService (Namespace targetClone) (Name targetClone))
                  ''Failed to cleanup target service clone''
               (cleanup (DeleteService (Namespace sourceClone) (Name sourceClone))
                  ''Failed to cleanup source service clone''
               (sendError ''Could not create target Access policy (check your permissions)''
                  (Some err) ''Service'' w4))))
      | (None, w4) \<Rightarrow>
     (let msg = (if pl_Duration payload > 0
                 then ''SUCCESS: Temporary access policies created for '' @ durationStr @ ''.''
                 else ''SUCCESS: Infinite access policies created.'')
      in Some (logAndBroadcast ''--- Request complete ---'' ''log-success'' ''Service'' ''applyComplete''
              (logAndBroadcast msg ''log-success'' ''Service'' ''applyResult'' w4)))))))))))))"

subsection \<open>Partial access creation\<close>

definition createPartialAccess ::
  "env \<Rightarrow> webSocketCommandProcessor \<Rightarrow> string \<Rightarrow> string \<Rightarrow> string \<Rightarrow> string \<Rightarrow> string \<Rightarrow>
   webSocketPayload \<Rightarrow> bool \<Rightarrow> world \<Rightarrow> ((go_error + string) \<times> world) option" where
  "createPartialAccess E p localNs localName remoteNs remoteName reqID payload isSource w =
     (case getOverridePorts E (pl_Ports payload) of
        Inl err \<Rightarrow> Some (Inl err, w)
      | Inr overridePorts \<Rightarrow>
     (case slice_to 8 (EncodeToString reqID) of
        None \<Rightarrow> None
      | Some randSuffix \<Rightarrow>
     (let localCloneName = ''nc-'' @ localName @ ''-'' @ randSuffix;
          commonRequestLabel = [(request_id_label, reqID)]
      in
      case CloneService localNs localName localCloneName commonRequestLabel overridePorts w of
        (Inl err, w1) \<Rightarrow> Some (Inl (Errorf ''could not clone local service: '' err), w1)
      | (Inr clone, w1) \<Rightarrow>
     (let durationStr = Itoa (pl_Duration payload) @ ''s'';
          access = new_Access (''access-'' @ localCloneName) localNs (commonAccessLabels p reqID)
             durationStr commonRequestLabel
             [\<lparr>ServiceName = ''netwatch-clone-'' @ remoteName @ ''-'' @ randSuffix,
               ap_Namespace = remoteNs\<rparr>]
             (if (pl_Direction payload = ''egress'' \<and> isSource) \<or>
                 (pl_Direction payload = ''ingress'' \<and> \<not> isSource) then ''egress''
              else if (pl_Direction payload = ''ingress'' \<and> isSource) \<or>
                      (pl_Direction payload = ''egress'' \<and> \<not> isSource) then ''ingress''
              else ''all'')
      in
      case CreateAccess access w1 of
        (Some err, w2) \<Rightarrow>
          Some (Inl (Errorf ''could not create partial access policy: '' err),
                cleanup (DeleteService localNs localCloneName)
                  ''Failed to cleanup partial service clone'' w2)
      | (None, w2) \<Rightarrow> Some (Inr localCloneName, w2)))))"

subsection \<open>Submission for review\<close>

definition handleSubmitAccessRequest ::
  "env \<Rightarrow> webSocketCommandProcessor \<Rightarrow> webSocketPayload \<Rightarrow> string \<Rightarrow> world \<Rightarrow> world option" where
  "handleSubmitAccessRequest E p payload requestID w =
     (case GetImpersonatingKubeClient (idToken p) w of
        (Some err, w0) \<Rightarrow>
          Some (sendError ''Could not create user-impersonating client'' (Some err) ''Request'' w0)
      | (None, w0) \<Rightarrow>
     (case slice_to 8 requestID of
        None \<Rightarrow> None
      | Some id8 \<Rightarrow>
     (let requestCR =
            \<lparr>Name = ''ar-'' @ sanitizedUsername p @ ''-'' @ id8, Namespace = [], Labels = [],
             Annotations = [], Finalizers = [], DeletionTimestamp = False, CreationTimestamp = 0,
             Requestor = Email (userInfo p), RequestType = [],
             SourceService = pl_SourceService payload, TargetService = pl_TargetService payload,
             Cidr = pl_Cidr payload, Service = pl_Service payload,
             Direction = pl_Direction payload, Ports = pl_Ports payload,
             Duration = pl_Duration payload, Description = pl_Description payload,
             Status = [], RequestID = requestID, SourceCloneName = [], TargetCloneName = []\<rparr>;
          submit = (\<lambda>cr w1.
            case CreateAccessRequestAsApp cr w1 of
              (Some err, w2) \<Rightarrow>
                Some (sendError ''Failed to submit AccessRequest'' (Some err) ''Request'' w2)
            | (None, w2) \<Rightarrow>
                Some (logAndBroadcast ''SUCCESS: Your access request has been submitted for review.''
                        ''log-success'' ''Request'' ''applyResult'' w2))
      in
      if pl_TargetService payload \<noteq> []
      then
     (let sourceParts = Split (pl_SourceService payload) CHR ''/'';
          targetParts = Split (pl_TargetService payload) CHR ''/''
      in
      if length sourceParts \<noteq> 2 \<or> length targetParts \<noteq> 2
      then Some (sendError ''Invalid service format'' None ''Request'' w0)
      else
     (let sourceNs = sourceParts ! 0; sourceName = sourceParts ! 1;
          targetNs = targetParts ! 0; targetName = targetParts ! 1;
          permsSource =
            [\<lparr>perm_Verb = ''create'', perm_Group = [], perm_Resource = ''services'', perm_Namespace = sourceNs\<rparr>,
             \<lparr>perm_Verb = ''create'', perm_Group = ''maxtac.vtk.io'', perm_Resource = ''accesses'', perm_Namespace = sourceNs\<rparr>];
          permsTarget =
            [\<lparr>perm_Verb = ''create'', perm_Group = [], perm_Resource = ''services'', perm_Namespace = targetNs\<rparr>,
             \<lparr>perm_Verb = ''create'', perm_Group = ''maxtac.vtk.io'', perm_Resource = ''accesses'', perm_Namespace = targetNs\<rparr>];
          canSource = fst (CanPerformAllActions E (userInfo p) permsSource);
          canTarget = fst (CanPerformAllActions E (userInfo p) permsTarget)
      in
      if canSource \<and> canTarget
      then submit (requestCR\<lparr>RequestType := ''Service'', Status := ''PendingFull''\<rparr>) w0
      else if canSource
      then
       (case createPartialAccess E p sourceNs sourceName targetNs targetName requestID payload True w0 of
          None \<Rightarrow> None
        | Some (Inl err, w1) \<Rightarrow>
            Some (sendError ''Failed to create the source-side of the access policy''
                    (Some err) ''Request'' w1)
        | Some (Inr cloneName, w1) \<Rightarrow>
            submit (requestCR\<lparr>RequestType := ''Service'', Status := ''PendingTarget'',
                              SourceCloneName := cloneName\<rparr>) w1)
      else if canTarget
      then
       (case createPartialAccess E p targetNs targetName sourceNs sourceName requestID payload False w0 of
          None \<Rightarrow> None
        | Some (Inl err, w1) \<Rightarrow>
            Some (sendError ''Failed to create the target-side of the access policy''
                    (Some err) ''Request'' w1)
        | Some (Inr cloneName, w1) \<Rightarrow>
            submit (requestCR\<lparr>RequestType := ''Service'', Status := ''PendingSource'',
                              TargetCloneName := cloneName\<rparr>) w1)
      else submit (requestCR\<lparr>RequestType := ''Service'', Status := ''PendingFull''\<rparr>) w0))
      else submit (requestCR\<lparr>RequestType := ''External'', Status := ''PendingFull''\<rparr>) w0)))"

subsection \<open>Approval\<close>

definition approveFullRequest ::
  "env \<Rightarrow> webSocketCommandProcessor \<Rightarrow> AccessRequest \<Rightarrow> world \<Rightarrow> (go_error option \<times> world) option" where
  "approveFullRequest E p request w =
     (if RequestType request = ''Service'' then
       (case (Split (SourceService request) CHR ''/'', Split (TargetService request) CHR ''/'') of
          (sourceNs # sourceName # srest, targetNs # targetName # trest) \<Rightarrow>
     (let cloneID = RequestID request in
      case slice_to 8 (EncodeToString cloneID) of
        None \<Rightarrow> None
      | Some randSuffix \<Rightarrow>
     (let sourceCloneName = ''nc-'' @ shortHash E sourceName @ ''-'' @ randSuffix;
          targetCloneName = ''nc-'' @ shortHash E targetName @ ''-'' @ randSuffix;
          commonRequestLabel = [(request_id_label, cloneID)]
      in
      case getOverridePorts E (Ports request) of
        Inl err \<Rightarrow> Some (Some err, w)
      | Inr overridePorts \<Rightarrow>
     (case CloneService sourceNs sourceName sourceCloneName commonRequestLabel overridePorts w of
        (Inl err, w1) \<Rightarrow> Some (Some (Errorf ''could not clone source service: '' err), w1)
      | (Inr sourceClone, w1) \<Rightarrow>
     (case CloneService targetNs targetName targetCloneName commonRequestLabel overridePorts w1 of
        (Inl err, w2) \<Rightarrow>
          Some (Some (Errorf ''could not clone target service: '' err),
                cleanup (DeleteService (Namespace sourceClone) (Name sourceClone))
                  ''Failed to cleanup source service clone'' w2)
      | (Inr targetClone, w2) \<Rightarrow>
     (let durationStr = (if Duration request > 0 then Itoa (Duration request) @ ''s'' else []);
          labels = commonAccessLabels p cloneID;
          sourceAccess = new_Access (''access-'' @ sourceCloneName) sourceNs labels durationStr
             commonRequestLabel
             [\<lparr>ServiceName = Name targetClone, ap_Namespace = Namespace targetClone\<rparr>]
             (fst (full_directions (Direction request)));
          targetAccess = new_Access (''access-'' @ targetCloneName) targetNs labels durationStr
             commonRequestLabel
             [\<lparr>ServiceName = Name sourceClone, ap_Namespace = Namespace sourceClone\<rparr>]
             (snd (full_directions (Direction request)))
      in
      case CreateAccess sourceAccess w2 of
        (Some err, w3) \<Rightarrow>
          Some (Some (Errorf ''could not create source Access policy: '' err),
                cleanup (DeleteService (Namespace targetClone) (Name targetClone))
                  ''Failed to cleanup target service clone''
               (cleanup (DeleteService (Namespace sourceClone) (Name sourceClone))
                  ''Failed to cleanup source service clone'' w3))
      | (None, w3) \<Rightarrow>
     (case CreateAccess targetAccess w3 of
        (Some err, w4) \<Rightarrow>
          Some (Some (Errorf ''could not create target Access policy: '' err),
                cleanup (DeleteAccess (Namespace sourceAccess) (Name sourceAccess))
                  ''Failed to cleanup source access object''
               (cleanup (DeleteService (Namespace targetClone) (Name targetClone))
                  ''Failed to cleanup target service clone''
               (cleanup (DeleteService (Namespace sourceClone) (Name sourceClone))
                  ''Failed to cleanup source service clone'' w4)))
      | (None, w4) \<Rightarrow> Some (None, w4)))))))
        | _ \<Rightarrow> None)
      else if RequestType request = ''External'' then
       (case Split (Service request) CHR ''/'' of
          serviceNs # serviceName # rest \<Rightarrow>
     (let cloneID = RequestID request in
      case slice_to 8 (EncodeToString cloneID) of
        None \<Rightarrow> None
      | Some randSuffix \<Rightarrow>
     (let cloneName = ''nc-'' @ shortHash E serviceName @ ''-'' @ randSuffix;
          cloneLabel = [(request_id_label, cloneID)]
      in
      case getOverridePorts E (Ports request) of
        Inl err \<Rightarrow> Some (Some err, w)
      | Inr overridePorts \<Rightarrow>
     (case CloneService serviceNs serviceName cloneName cloneLabel overridePorts w of
        (Inl err, w1) \<Rightarrow> Some (Some (Errorf ''could not clone service: '' err), w1)
      | (Inr clone, w1) \<Rightarrow>
     (let durationStr = (if Duration request > 0 then Itoa (Duration request) @ ''s'' else []);
          ea = \<lparr>Name = ''ea-'' @ cloneName, Namespace = serviceNs,
                Labels = commonAccessLabels p cloneID, Annotations = [], Finalizers = [],
                DeletionTimestamp = False, CreationTimestamp = 0,
                ea_TargetCIDRs = [Cidr request], ea_Direction = Direction request,
                ea_Duration = durationStr, ea_ServiceSelector = cloneLabel\<rparr>
      in
      case CreateExternalAccess ea w1 of
        (Some err, w2) \<Rightarrow>
          Some (Some (Errorf ''could not create ExternalAccess policy: '' err),
                cleanup (DeleteService serviceNs cloneName)
                  ''Failed to cleanup service clone after ExternalAccess failed'' w2)
      | (None, w2) \<Rightarrow> Some (None, w2)))))
        | _ \<Rightarrow> None)
      else Some (None, w))"

definition approvePartialRequest ::
  "env \<Rightarrow> webSocketCommandProcessor \<Rightarrow> AccessRequest \<Rightarrow> bool \<Rightarrow> world \<Rightarrow>
   (go_error option \<times> world) option" where
  "approvePartialRequest E p request approvingSourceSide w =
     (let sourceParts = Split (SourceService request) CHR ''/'';
          targetParts = Split (TargetService request) CHR ''/'';
          localParts = (if approvingSourceSide then sourceParts else targetParts);
          remoteParts = (if approvingSourceSide then targetParts else sourceParts);
          existingCloneName = (if approvingSourceSide then TargetCloneName request
                               else SourceCloneName request)
      in
      case localParts of
        localNs # localName # rest \<Rightarrow>
     (let remoteNs = remoteParts ! 0 in
      case getOverridePorts E (Ports request) of
        Inl err \<Rightarrow> Some (Some err, w)
      | Inr overridePorts \<Rightarrow>
     (case slice_to 8 (EncodeToString (RequestID request)) of
        None \<Rightarrow> None
      | Some randSuffix \<Rightarrow>
     (let localCloneName = ''nc-'' @ localName @ ''-'' @ randSuffix;
          commonRequestLabel = [(request_id_label, RequestID request)]
      in
      case CloneService localNs localName localCloneName commonRequestLabel overridePorts w of
        (Inl err, w1) \<Rightarrow> Some (Some (Errorf ''could not clone missing service: '' err), w1)
      | (Inr clone, w1) \<Rightarrow>
     (let durationStr = Itoa (Duration request) @ ''s'';
          isSource = (Status request = ''PendingSource'');
          access = new_Access (''access-'' @ localCloneName) localNs
             (commonAccessLabels p (RequestID request)) durationStr commonRequestLabel
             [\<lparr>ServiceName = existingCloneName, ap_Namespace = remoteNs\<rparr>]
             (if (Direction request = ''egress'' \<and> isSource) \<or>
                 (Direction request = ''ingress'' \<and> \<not> isSource) then ''egress''
              else if (Direction request = ''ingress'' \<and> isSource) \<or>
                      (Direction request = ''egress'' \<and> \<not> isSource) then ''ingress''
              else ''all'')
      in
      case CreateAccess access w1 of
        (Some err, w2) \<Rightarrow>
          Some (Some (Errorf ''could not create missing access policy: '' err),
                cleanup (DeleteService localNs localCloneName)
                  ''Failed to cleanup partial service clone on approval'' w2)
      | (None, w2) \<Rightarrow> Some (None, w2)))))
      | _ \<Rightarrow> None)"

definition handleApproveAccessRequest ::
  "env \<Rightarrow> webSocketCommandProcessor \<Rightarrow> webSocketPayload \<Rightarrow> world \<Rightarrow> world option" where
  "handleApproveAccessRequest E p payload w =
     (case GetAccessRequestAsApp (pl_RequestID payload) w of
        (Inl err, w0) \<Rightarrow>
          Some (sendError ''Could not find pending request to approve'' (Some err) ''Request'' w0)
      | (Inr request, w0) \<Rightarrow>
     (case GetImpersonatingKubeClient (idToken p) w0 of
        (Some err, w1) \<Rightarrow>
          Some (sendError (''Could not create approver'' @ [CHR 0x27] @ ''s impersonating client'')
                  (Some err) ''Request'' w1)
      | (None, w1) \<Rightarrow>
     (let finish_approval = (\<lambda>w2.
            let w3 = (case DeleteAccessRequestAsApp (pl_RequestID payload) w2 of
                        (Some err, w') \<Rightarrow>
                          emit (LoggerError ''Failed to delete approved AccessRequest CR'' (Some err)) w'
                      | (None, w') \<Rightarrow> w') in
            logAndBroadcast ''--- Request complete ---'' ''log-success'' (RequestType request)
              ''applyComplete''
           (logAndBroadcast (''SUCCESS: Request from '' @ Requestor request @ '' approved by '' @
                Email (userInfo p) @ ''.'') ''log-success'' (RequestType request) ''applyResult'' w3))
      in
      if Status request = ''PendingFull'' then
        (case approveFullRequest E p request w1 of
           None \<Rightarrow> None
         | Some (Some err, w2) \<Rightarrow>
             Some (sendError ''Failed to approve full request'' (Some err) ''Request'' w2)
         | Some (None, w2) \<Rightarrow> Some (finish_approval w2))
      else if Status request = ''PendingTarget'' then
        (case approvePartialRequest E p request False w1 of
           None \<Rightarrow> None
         | Some (Some err, w2) \<Rightarrow>
             Some (sendError ''Failed to approve target-side of the request'' (Some err) ''Request'' w2)
         | Some (None, w2) \<Rightarrow> Some (finish_approval w2))
      else if Status request = ''PendingSource'' then
        (case approvePartialRequest E p request True w1 of
           None \<Rightarrow> None
         | Some (Some err, w2) \<Rightarrow>
             Some (sendError ''Failed to approve source-side of the request'' (Some err) ''Request'' w2)
         | Some (None, w2) \<Rightarrow> Some (finish_approval w2))
      else Some (sendError ''Request is in an unknown or invalid state''
                   (Some (ErrorNew (''status: '' @ Status request))) ''Request'' w1))))"

subsection \<open>Deny and abort\<close>

definition handleDenyAccessRequest ::
  "env \<Rightarrow> webSocketCommandProcessor \<Rightarrow> webSocketPayload \<Rightarrow> world \<Rightarrow> world" where
  "handleDenyAccessRequest E p payload w =
     (case GetAccessRequestAsApp (pl_RequestID payload) w of
        (Inl err, w0) \<Rightarrow>
          sendError ''Could not find pending request to deny/abort'' (Some err) ''Request'' w0
      | (Inr request, w0) \<Rightarrow>
     (let isOwner = (Email (userInfo p) = Requestor request);
          proceed = (\<lambda>logMessage.
     (case GetImpersonatingKubeClient (idToken p) w0 of
        (Some err, w1) \<Rightarrow>
          sendError ''Could not create impersonating client for cleanup'' (Some err) ''Request'' w1
      | (None, w1) \<Rightarrow>
     (let w2 =
            (if Status request = ''PendingTarget'' \<or> Status request = ''PendingSource''
             then
              (let cloneNameToDelete = (if Status request = ''PendingTarget''
                                        then SourceCloneName request else TargetCloneName request);
                   namespaceToDelete = (if Status request = ''PendingTarget''
                                        then Split (SourceService request) CHR ''/'' ! 0
                                        else Split (TargetService request) CHR ''/'' ! 0);
                   accessNameToDelete = ''access-'' @ cloneNameToDelete
               in
               case DeleteAccess namespaceToDelete accessNameToDelete w1 of
                 (Some err, w') \<Rightarrow>
                   if \<not> IsNotFound err
                   then sendError
                          ''Failed to clean up orphaned Access object. Manual cleanup may be required.''
                          (Some err) ''Request'' w'
                   else w'
               | (None, w') \<Rightarrow> w')
             else w1)
      in
      case DeleteAccessRequestAsApp (pl_RequestID payload) w2 of
        (Some err, w3) \<Rightarrow>
          sendError ''Failed to delete the AccessRequest resource'' (Some err) ''Request'' w3
      | (None, w3) \<Rightarrow> logAndBroadcast logMessage ''log-warning'' ''Request'' ''applyResult'' w3)))
      in
      if isOwner
      then proceed (''Request from '' @ Requestor request @ '' was aborted by the owner.'')
      else
       (case CanPerformAction E (userInfo p) ''delete'' ''netwatch.vtk.io'' ''accessrequests'' []
               (Name request) of
          (canDeny, Some err) \<Rightarrow>
            sendError ''Could not verify permissions for denying the request'' (Some err) ''Request'' w0
        | (canDeny, None) \<Rightarrow>
            if \<not> canDeny
            then sendError
                   ''Permission denied. You are not the request owner and lack permissions to deny this request.''
                   None ''Request'' w0
            else proceed (''Request from '' @ Requestor request @ '' denied by '' @
                    Email (userInfo p) @ ''.''))))"

subsection \<open>Cleanup reconciler (internal/controller/cleanup_controller.go)\<close>

definition accessFinalizerName :: string where
  "accessFinalizerName = ''netwatch.vtk.io/access-cleanup-finalizer''"

definition accessRequestFinalizerName :: string where
  "accessRequestFinalizerName = ''netwatch.vtk.io/request-cleanup-finalizer''"

text \<open>The helpers of \<^verbatim>\<open>controllerutil\<close>.\<close>

definition ContainsFinalizer :: "'a ObjectMeta_scheme \<Rightarrow> string \<Rightarrow> bool" where
  "ContainsFinalizer obj f = (f \<in> set (Finalizers obj))"

definition AddFinalizer :: "'a ObjectMeta_scheme \<Rightarrow> string \<Rightarrow> 'a ObjectMeta_scheme" where
  "AddFinalizer obj f = (if f \<in> set (Finalizers obj) then obj
                         else obj\<lparr>Finalizers := Finalizers obj @ [f]\<rparr>)"

definition RemoveFinalizer :: "'a ObjectMeta_scheme \<Rightarrow> string \<Rightarrow> 'a ObjectMeta_scheme" where
  "RemoveFinalizer obj f = obj\<lparr>Finalizers := filter (\<lambda>x. x \<noteq> f) (Finalizers obj)\<rparr>"

definition cleanupPartialAccess :: "AccessRequest \<Rightarrow> world \<Rightarrow> go_error option \<times> world" where
  "cleanupPartialAccess request w =
     (if Status request \<noteq> ''PendingTarget'' \<and> Status request \<noteq> ''PendingSource'' then (None, w)
      else
     (let cloneName = (if Status request = ''PendingTarget'' then SourceCloneName request
                       else TargetCloneName request);
          namespace = (if Status request = ''PendingTarget''
                       then Split (SourceService request) CHR ''/'' ! 0
                       else Split (TargetService request) CHR ''/'' ! 0)
      in
      if cloneName = [] \<or> namespace = []
      then (None, emit (LoggerWarn
              ''Partial AccessRequest is missing clone name or namespace, cannot clean up.'') w)
      else
     (let accessNameToDelete = ''access-'' @ cloneName in
      case client_Delete_Access namespace accessNameToDelete w of
        (Inl err, w1) \<Rightarrow>
          if \<not> IsNotFound (ApiError err)
          then (Some (Errorf ''failed to delete partial access object: '' (ApiError err)), w1)
          else (None, w1)
      | (Inr x, w1) \<Rightarrow> (None, w1))))"

definition reconcileAccessRequest :: "AccessRequest \<Rightarrow> world \<Rightarrow> go_error option \<times> world" where
  "reconcileAccessRequest request w =
     (let orphan_check = (\<lambda>request w.
     (if Status request \<noteq> ''PendingTarget'' \<and> Status request \<noteq> ''PendingSource'' then (None, w)
      else
     (let cloneName = (if Status request = ''PendingTarget'' then SourceCloneName request
                       else TargetCloneName request);
          namespace = (if Status request = ''PendingTarget''
                       then Split (SourceService request) CHR ''/'' ! 0
                       else Split (TargetService request) CHR ''/'' ! 0);
          accessName = ''access-'' @ cloneName
      in
      case client_Get_Access namespace accessName w of
        (Inl err, w1) \<Rightarrow>
          if IsNotFound (ApiError err)
          then
            (case client_Delete_AccessRequest (Namespace request) (Name request) w1 of
               (Inl err2, w2) \<Rightarrow>
                 (Some (ApiError err2),
                  emit (LoggerError ''Failed to delete orphaned AccessRequest'' (Some (ApiError err2))) w2)
             | (Inr x, w2) \<Rightarrow> (None, w2))
          else (Some (ApiError err),
                emit (LoggerError ''Failed to check for orphaned access request'' (Some (ApiError err))) w1)
      | (Inr existingAccess, w1) \<Rightarrow> (None, w1))))
      in
      if \<not> DeletionTimestamp request
      then
        (if \<not> ContainsFinalizer request accessRequestFinalizerName
         then
           (case client_Update_AccessRequest (AddFinalizer request accessRequestFinalizerName) w of
              (Inl err, w1) \<Rightarrow> (Some (ApiError err), w1)
            | (Inr x, w1) \<Rightarrow> orphan_check (AddFinalizer request accessRequestFinalizerName) w1)
         else orphan_check request w)
      else
        (if ContainsFinalizer request accessRequestFinalizerName
         then
           (case cleanupPartialAccess request w of
              (Some err, w1) \<Rightarrow>
                (Some err,
                 emit (LoggerError ''Failed during partial access cleanup, will retry'' (Some err)) w1)
            | (None, w1) \<Rightarrow>
                (case client_Update_AccessRequest
                        (RemoveFinalizer request accessRequestFinalizerName) w1 of
                   (Inl err, w2) \<Rightarrow> (Some (ApiError err), w2)
                 | (Inr x, w2) \<Rightarrow> (None, w2)))
         else (None, w)))"

text \<open>The loop of \<^verbatim>\<open>deleteClonedServices\<close> over the listed clones.\<close>

fun delete_clones :: "Service list \<Rightarrow> world \<Rightarrow> world" where
  "delete_clones [] w = w"
| "delete_clones (service # rest) w =
     delete_clones rest
       (case client_Delete_Service (Namespace service) (Name service) w of
          (Inl err, w1) \<Rightarrow>
            if \<not> IsNotFound (ApiError err)
            then emit (LoggerError ''failed to delete service clone'' (Some (ApiError err))) w1
            else w1
        | (Inr x, w1) \<Rightarrow> w1)"

definition deleteClonedServices :: "string \<Rightarrow> world \<Rightarrow> go_error option \<times> world" where
  "deleteClonedServices reqID w =
     (case client_List_Services reqID w of
        (Inl err, w1) \<Rightarrow>
          (Some (Errorf ''failed to list service clones for cleanup: '' (ApiError err)), w1)
      | (Inr serviceClones, w1) \<Rightarrow> (None, delete_clones serviceClones w1))"

text \<open>
  \<^verbatim>\<open>reconcileAccessFinalizer\<close> takes a \<^verbatim>\<open>client.Object\<close>: an Access or an
  ExternalAccess. It reads and writes the metadata only.
\<close>

datatype client_Object = AccessObject Access | ExternalAccessObject ExternalAccess

fun GetLabels :: "client_Object \<Rightarrow> strmap" where
  "GetLabels (AccessObject a) = Labels a"
| "GetLabels (ExternalAccessObject a) = Labels a"

fun GetFinalizers :: "client_Object \<Rightarrow> string list" where
  "GetFinalizers (AccessObject a) = Finalizers a"
| "GetFinalizers (ExternalAccessObject a) = Finalizers a"

fun GetDeletionTimestamp :: "client_Object \<Rightarrow> bool" where
  "GetDeletionTimestamp (AccessObject a) = DeletionTimestamp a"
| "GetDeletionTimestamp (ExternalAccessObject a) = DeletionTimestamp a"

fun SetFinalizers :: "client_Object \<Rightarrow> string list \<Rightarrow> client_Object" where
  "SetFinalizers (AccessObject a) fs = AccessObject (a\<lparr>Finalizers := fs\<rparr>)"
| "SetFinalizers (ExternalAccessObject a) fs = ExternalAccessObject (a\<lparr>Finalizers := fs\<rparr>)"

fun client_Update :: "client_Object \<Rightarrow> world \<Rightarrow> (api_error + unit) \<times> world" where
  "client_Update (AccessObject a) w = client_Update_Access a w"
| "client_Update (ExternalAccessObject a) w = client_Update_ExternalAccess a w"

definition reconcileAccessFinalizer :: "client_Object \<Rightarrow> world \<Rightarrow> go_error option \<times> world" where
  "reconcileAccessFinalizer obj w =
     (if \<not> GetDeletionTimestamp obj
      then
        (if accessFinalizerName \<notin> set (GetFinalizers obj)
         then
           (case client_Update (SetFinalizers obj (GetFinalizers obj @ [accessFinalizerName])) w of
              (Inl err, w1) \<Rightarrow>
                (Some (ApiError err), emit (LoggerError ''failed to add finalizer'' (Some (ApiError err))) w1)
            | (Inr x, w1) \<Rightarrow> (None, w1))
         else (None, w))
      else if accessFinalizerName \<in> set (GetFinalizers obj)
      then
     (let remove_finalizer = (\<lambda>w1.
            case client_Update
                   (SetFinalizers obj (filter (\<lambda>x. x \<noteq> accessFinalizerName) (GetFinalizers obj))) w1 of
              (Inl err, w2) \<Rightarrow>
                if IsNotFound (ApiError err) then (None, w2)
                else (Some (ApiError err),
                      emit (LoggerError ''Failed to remove finalizer, will retry.'' (Some (ApiError err))) w2)
            | (Inr x, w2) \<Rightarrow> (None, w2))
      in
      case map_of (GetLabels obj) request_id_label of
        None \<Rightarrow>
          remove_finalizer
            (emit (LoggerWarn ''Resource is missing request-id label, cannot perform cleanup.'') w)
      | Some reqID \<Rightarrow>
          (case deleteClonedServices reqID w of
             (Some err, w1) \<Rightarrow>
               (Some err, emit (LoggerError ''cleanup failed during service deletion'' (Some err)) w1)
           | (None, w1) \<Rightarrow> remove_finalizer w1))
      else (None, w))"

subsection \<open>Read model (internal/handlers/api_handlers.go)\<close>

record ActiveAccessInfo =
  info_Type :: string
  info_Name :: string
  info_Namespace :: string
  info_Source :: string
  info_Target :: string
  info_ExpiresAt :: int
  info_Direction :: string
  info_Ports :: string
  info_Status :: string

text \<open>Reading a key of a \<^verbatim>\<open>map[string]string\<close>: the empty string when it is missing.\<close>

definition at_key :: "strmap \<Rightarrow> string \<Rightarrow> string" where
  "at_key m k = (case map_of m k of None \<Rightarrow> [] | Some v \<Rightarrow> v)"

text \<open>The loop that groups the services by their correlation id.\<close>

fun group_clones :: "Service list \<Rightarrow> (string \<rightharpoonup> Service list) \<Rightarrow> (string \<rightharpoonup> Service list)" where
  "group_clones [] clonesByReqID = clonesByReqID"
| "group_clones (svc # rest) clonesByReqID =
     group_clones rest
       (case map_of (Labels svc) request_id_label of
          Some reqID \<Rightarrow>
            clonesByReqID(reqID \<mapsto> (case clonesByReqID reqID of None \<Rightarrow> [] | Some cs \<Rightarrow> cs) @ [svc])
        | None \<Rightarrow> clonesByReqID)"

text \<open>
  The expiry shown for a declaration: its creation time (in seconds) plus its duration,
  or \<open>-1\<close> when it has none or the duration does not parse.
\<close>

definition expires_at :: "env \<Rightarrow> string \<Rightarrow> int \<Rightarrow> int" where
  "expires_at E duration created =
     (if duration \<noteq> []
      then (case ParseDuration E duration of
              Some d \<Rightarrow> (created * 1000000000 + d) div 1000000000
            | None \<Rightarrow> - 1)
      else - 1)"

text \<open>
  The loop over the Access declarations. Its state is the map \<^verbatim>\<open>processedAccesses\<close>
  (keyed by correlation id) and the world that collects the warnings; \<open>None\<close> is a panic
  (\<^verbatim>\<open>Targets[0]\<close> of a declaration without targets, or the slice of a correlation
  id shorter than four bytes).
\<close>

fun process_accesses ::
  "env \<Rightarrow> (string \<rightharpoonup> Service list) \<Rightarrow> Access list \<Rightarrow> (string \<rightharpoonup> ActiveAccessInfo) \<Rightarrow> world \<Rightarrow>
   ((string \<rightharpoonup> ActiveAccessInfo) \<times> world) option" where
  "process_accesses E clonesByReqID [] processedAccesses w = Some (processedAccesses, w)"
| "process_accesses E clonesByReqID (access # rest) processedAccesses w =
     (case map_of (Labels access) request_id_label of
        None \<Rightarrow> process_accesses E clonesByReqID rest processedAccesses w
      | Some reqID \<Rightarrow>
     (let clones = (case clonesByReqID reqID of None \<Rightarrow> [] | Some cs \<Rightarrow> cs) in
      if clonesByReqID reqID = None \<or> length clones = 0
      then process_accesses E clonesByReqID rest processedAccesses
             (emit (LoggerWarn
                ''Found Access object with no corresponding Service clones, skipping display.'') w)
      else
     (let info = \<lparr>info_Type = ''Service'', info_Name = Name access,
                  info_Namespace = Namespace access, info_Source = [], info_Target = [],
                  info_ExpiresAt = expires_at E (acc_Duration access) (CreationTimestamp access),
                  info_Direction = acc_Direction access, info_Ports = [], info_Status = []\<rparr>
      in
      if length clones = 2
      then
       (case acc_Targets access of
          [] \<Rightarrow> None
        | target # others \<Rightarrow>
           (let clone1 = clones ! 0; clone2 = clones ! 1;
                info2 =
                  (if ServiceName target = Name clone1 \<and> ap_Namespace target = Namespace clone1
                   then info\<lparr>info_Status := ''Active'',
                          info_Target := at_key (Annotations clone1) ''netwatch.vtk.io/cloned-from'',
                          info_Source := at_key (Annotations clone2) ''netwatch.vtk.io/cloned-from'',
                          info_Ports := at_key (Annotations clone2) ''netwatch.vtk.io/ports''\<rparr>
                   else if ServiceName target = Name clone2 \<and> ap_Namespace target = Namespace clone2
                   then info\<lparr>info_Status := ''Active'',
                          info_Target := at_key (Annotations clone2) ''netwatch.vtk.io/cloned-from'',
                          info_Source := at_key (Annotations clone1) ''netwatch.vtk.io/cloned-from'',
                          info_Ports := at_key (Annotations clone1) ''netwatch.vtk.io/ports''\<rparr>
                   else info\<lparr>info_Status := ''Active''\<rparr>)
            in process_accesses E clonesByReqID rest (processedAccesses(reqID \<mapsto> info2)) w))
      else if length clones = 1
      then
       (case acc_Targets access of
          [] \<Rightarrow> None
        | target # others \<Rightarrow>
           (case slice_to 8 (EncodeToString reqID) of
              None \<Rightarrow> None
            | Some suffix \<Rightarrow>
               (let clone = clones ! 0;
                    targetSvcString = ap_Namespace target @ ''/'' @
                      Replace1 (Replace1 (ServiceName target) ''netwatch-clone-'' [])
                        (''-'' @ suffix) [];
                    info1 = info\<lparr>info_Status := ''Pending'',
                          info_Source := at_key (Annotations clone) ''netwatch.vtk.io/cloned-from'',
                          info_Target := targetSvcString @ '' (Pending Approval)'',
                          info_Ports := at_key (Annotations clone) ''netwatch.vtk.io/ports''\<rparr>
                in process_accesses E clonesByReqID rest (processedAccesses(reqID \<mapsto> info1)) w)))
      else process_accesses E clonesByReqID rest processedAccesses
             (emit (LoggerWarn
                ''Found Access object with an inconsistent number of clones, skipping display.'') w))))"

definition managed_by_netwatch :: "'a ObjectMeta_scheme \<Rightarrow> bool" where
  "managed_by_netwatch obj = (map_of (Labels obj) ''app.kubernetes.io/managed-by'' = Some ''netwatch'')"

definition ListAllServices :: "world \<Rightarrow> (api_error + Service list) \<times> world" where
  "ListAllServices = invoke (ListCall Services [] []) (\<lambda>w. Inr (services w, w))"

definition ListNetwatchAccesses :: "world \<Rightarrow> (api_error + Access list) \<times> world" where
  "ListNetwatchAccesses =
     invoke (ListCall Accesses ''app.kubernetes.io/managed-by'' ''netwatch'')
       (\<lambda>w. Inr (filter managed_by_netwatch (accesses w), w))"

definition ListNetwatchExternalAccesses :: "world \<Rightarrow> (api_error + ExternalAccess list) \<times> world" where
  "ListNetwatchExternalAccesses =
     invoke (ListCall ExternalAccesses ''app.kubernetes.io/managed-by'' ''netwatch'')
       (\<lambda>w. Inr (filter managed_by_netwatch (externalAccesses w), w))"

definition external_info :: "env \<Rightarrow> (string \<rightharpoonup> Service list) \<Rightarrow> ExternalAccess \<Rightarrow> ActiveAccessInfo" where
  "external_info E clonesByReqID access =
     (let single = (case map_of (Labels access) request_id_label of
                      None \<Rightarrow> None
                    | Some reqID \<Rightarrow>
                        (case clonesByReqID reqID of
                           Some [clone] \<Rightarrow> Some clone
                         | _ \<Rightarrow> None))
      in \<lparr>info_Type = ''External'', info_Name = Name access, info_Namespace = Namespace access,
          info_Source = Join (ea_TargetCIDRs access) '', '',
          info_Target = (case single of
                           None \<Rightarrow> Namespace access @ ''/* (label)''
                         | Some clone \<Rightarrow> at_key (Annotations clone) ''netwatch.vtk.io/cloned-from''),
          info_ExpiresAt = expires_at E (ea_Duration access) (CreationTimestamp access),
          info_Direction = ea_Direction access,
          info_Ports = (case single of
                          None \<Rightarrow> ''All''
                        | Some clone \<Rightarrow> at_key (Annotations clone) ''netwatch.vtk.io/ports''),
          info_Status = ''Active''\<rparr>)"

text \<open>
  \<^verbatim>\<open>GetActiveAccesses\<close> up to the response: the rows of the service-to-service
  declarations as the map they are collected in, and the rows of the external
  declarations. (The response appends the rows of the map in the order Go iterates it and
  sorts all rows by expiry.)
\<close>

definition GetActiveAccesses ::
  "env \<Rightarrow> world \<Rightarrow> ((string \<rightharpoonup> ActiveAccessInfo) \<times> ActiveAccessInfo list \<times> world) option" where
  "GetActiveAccesses E w =
     (case ListAllServices w of
        (Inl err, w1) \<Rightarrow>
          Some (Map.empty, [],
                emit (LoggerError ''Failed to list services for active access list''
                        (Some (ApiError err))) w1)
      | (Inr allServices, w1) \<Rightarrow>
     (let clonesByReqID = group_clones allServices Map.empty;
          listed =
            (case ListNetwatchAccesses w1 of
               (Inl err, w2) \<Rightarrow>
                 Some (Map.empty,
                       emit (LoggerError ''Failed to list active service accesses''
                               (Some (ApiError err))) w2)
             | (Inr accessList, w2) \<Rightarrow> process_accesses E clonesByReqID accessList Map.empty w2)
      in
      case listed of
        None \<Rightarrow> None
      | Some (processedAccesses, w3) \<Rightarrow>
          (case ListNetwatchExternalAccesses w3 of
             (Inl err, w4) \<Rightarrow>
               Some (processedAccesses, [],
                     emit (LoggerError ''Failed to list active external accesses''
                             (Some (ApiError err))) w4)
           | (Inr extList, w4) \<Rightarrow>
               Some (processedAccesses, map (external_info E clonesByReqID) extList, w4))))"

subsection \<open>Reading a run\<close>

text \<open>The entry of the failure schedule that the next call meets.\<close>

definition head_fault :: "string option list \<Rightarrow> string option" where
  "head_fault fs = (case fs of Some m # rest \<Rightarrow> Some m | _ \<Rightarrow> None)"

text \<open>What a run added to the events and to the trace of calls.\<close>

definition new_events :: "world \<Rightarrow> world \<Rightarrow> event list" where
  "new_events w w' = drop (length (events w)) (events w')"

definition new_calls :: "world \<Rightarrow> world \<Rightarrow> (api_call \<times> api_error option) list" where
  "new_calls w w' = drop (length (calls w)) (calls w')"

text \<open>The first call of a trace that failed.\<close>

definition first_failure :: "(api_call \<times> api_error option) list \<Rightarrow> (api_call \<times> api_error) option" where
  "first_failure cs =
     (case find (\<lambda>c. snd c \<noteq> None) cs of
        Some (c, Some e) \<Rightarrow> Some (c, e)
      | _ \<Rightarrow> None)"

definition is_logger_error :: "event \<Rightarrow> bool" where
  "is_logger_error ev = (case ev of LoggerError m e \<Rightarrow> True | _ \<Rightarrow> False)"

definition logged_errors :: "world \<Rightarrow> world \<Rightarrow> event list" where
  "logged_errors w w' = filter is_logger_error (new_events w w')"

text \<open>The calls of a trace that follow its first failed call.\<close>

definition after_first_failure :: "(api_call \<times> api_error option) list \<Rightarrow> api_call list" where
  "after_first_failure cs = map fst (tl (dropWhile (\<lambda>c. snd c = None) cs))"

text \<open>An object is absent from a store when nothing is stored under its name.\<close>

definition absent :: "string \<Rightarrow> string \<Rightarrow> 'a ObjectMeta_scheme list \<Rightarrow> bool" where
  "absent ns n objs = (\<forall>obj\<in>set objs. \<not> is_at ns n obj)"

text \<open>The store after a delete that went through, or that found nothing.\<close>

definition without :: "string \<Rightarrow> string \<Rightarrow> 'a ObjectMeta_scheme list \<Rightarrow> 'a ObjectMeta_scheme list" where
  "without ns n objs = (case store_delete objs ns n of Inl e \<Rightarrow> objs | Inr objs' \<Rightarrow> objs')"

text \<open>A compensating delete fails when it returns an error other than NotFound.\<close>

definition fails :: "(world \<Rightarrow> go_error option \<times> world) \<Rightarrow> world \<Rightarrow> bool" where
  "fails del w = (case fst (del w) of Some e \<Rightarrow> \<not> IsNotFound e | None \<Rightarrow> False)"

text \<open>
  The steps that the three paths of a full grant share (\<open>createClusterAccess\<close>, the body of
  \<open>handleRequestClusterAccess\<close>, the service branch of \<open>approveFullRequest\<close>), with the
  names, the declarations and the messages as parameters: clone the source, clone the
  target, declare the source side, declare the target side, each failure followed by its
  compensating deletes. The result names the step that failed, with its error.
\<close>

definition grant_steps ::
  "string \<Rightarrow> string \<Rightarrow> string \<Rightarrow> string \<Rightarrow> string \<Rightarrow> string \<Rightarrow> strmap \<Rightarrow> ServicePort list \<Rightarrow>
   (Service \<Rightarrow> Access) \<Rightarrow> (Service \<Rightarrow> Access) \<Rightarrow> (nat \<Rightarrow> go_error \<Rightarrow> world \<Rightarrow> world) \<Rightarrow>
   (nat \<Rightarrow> string) \<Rightarrow> world \<Rightarrow> (nat \<times> go_error) option \<times> world" where
  "grant_steps sourceNs sourceName sourceCloneName targetNs targetName targetCloneName label ports
     mkSource mkTarget told k w =
     (case CloneService sourceNs sourceName sourceCloneName label ports w of
        (Inl err, w1) \<Rightarrow> (Some (1, err), told 1 err w1)
      | (Inr sourceClone, w1) \<Rightarrow>
     (case CloneService targetNs targetName targetCloneName label ports w1 of
        (Inl err, w2) \<Rightarrow>
          (Some (2, err),
           cleanup (DeleteService (Namespace sourceClone) (Name sourceClone)) (k 1) (told 2 err w2))
      | (Inr targetClone, w2) \<Rightarrow>
     (case CreateAccess (mkSource targetClone) w2 of
        (Some err, w3) \<Rightarrow>
          (Some (3, err),
           cleanup (DeleteService (Namespace targetClone) (Name targetClone)) (k 3)
          (cleanup (DeleteService (Namespace sourceClone) (Name sourceClone)) (k 2) (told 3 err w3)))
      | (None, w3) \<Rightarrow>
     (case CreateAccess (mkTarget sourceClone) w3 of
        (Some err, w4) \<Rightarrow>
          (Some (4, err),
           cleanup (DeleteAccess (Namespace (mkSource targetClone)) (Name (mkSource targetClone))) (k 6)
          (cleanup (DeleteService (Namespace targetClone) (Name targetClone)) (k 5)
          (cleanup (DeleteService (Namespace sourceClone) (Name sourceClone)) (k 4) (told 4 err w4))))
      | (None, w4) \<Rightarrow> (None, w4)))))"

text \<open>
  The steps that \<open>createPartialAccess\<close> and \<open>approvePartialRequest\<close> share: clone the local
  service, declare the local side, delete the clone when the declaration fails.
\<close>

definition partial_steps ::
  "string \<Rightarrow> string \<Rightarrow> string \<Rightarrow> strmap \<Rightarrow> ServicePort list \<Rightarrow> Access \<Rightarrow> string \<Rightarrow> world \<Rightarrow>
   (nat \<times> go_error) option \<times> world" where
  "partial_steps localNs localName localCloneName label ports access k w =
     (case CloneService localNs localName localCloneName label ports w of
        (Inl err, w1) \<Rightarrow> (Some (1, err), w1)
      | (Inr clone, w1) \<Rightarrow>
     (case CreateAccess access w1 of
        (Some err, w2) \<Rightarrow> (Some (2, err), cleanup (DeleteService localNs localCloneName) k w2)
      | (None, w2) \<Rightarrow> (None, w2)))"

text \<open>A stretch of the trace in which every call succeeded, or only the last one failed.\<close>

definition all_ok :: "(api_call \<times> api_error option) list \<Rightarrow> bool" where
  "all_ok cs = list_all (\<lambda>c. snd c = None) cs"

definition run_ok :: "world \<Rightarrow> world \<Rightarrow> bool" where
  "run_ok w w1 = (\<exists>cs. calls w1 = calls w @ cs \<and> all_ok cs)"

definition run_failed :: "world \<Rightarrow> world \<Rightarrow> api_call \<Rightarrow> api_error \<Rightarrow> bool" where
  "run_failed w w1 c e = (\<exists>cs. calls w1 = calls w @ cs @ [(c, Some e)] \<and> all_ok cs)"

definition same_others :: "world \<Rightarrow> world \<Rightarrow> bool" where
  "same_others w w1 = (externalAccesses w1 = externalAccesses w \<and> accessRequests w1 = accessRequests w)"

text \<open>The names a handler derives from its input, as the theorems refer to them.\<close>

definition service_ns :: "string \<Rightarrow> string" where
  "service_ns s = Split s CHR ''/'' ! 0"

definition service_name :: "string \<Rightarrow> string" where
  "service_name s = Split s CHR ''/'' ! 1"

definition clone_name :: "env \<Rightarrow> string \<Rightarrow> string \<Rightarrow> string" where
  "clone_name E name cloneID = ''nc-'' @ shortHash E name @ ''-'' @ take 8 (EncodeToString cloneID)"

definition duration_string :: "int \<Rightarrow> string" where
  "duration_string d = (if d > 0 then Itoa d @ ''s'' else [])"

definition full_access ::
  "webSocketCommandProcessor \<Rightarrow> string \<Rightarrow> string \<Rightarrow> string \<Rightarrow> int \<Rightarrow> string \<Rightarrow> Service \<Rightarrow> Access" where
  "full_access p cloneID localCloneName localNs duration direction remoteClone =
     new_Access (''access-'' @ localCloneName) localNs (commonAccessLabels p cloneID)
       (duration_string duration) [(request_id_label, cloneID)]
       [\<lparr>ServiceName = Name remoteClone, ap_Namespace = Namespace remoteClone\<rparr>] direction"

text \<open>The messages of \<open>createClusterAccess\<close>, by the step that failed and by the delete that failed.\<close>

definition direct_message :: "nat \<Rightarrow> string" where
  "direct_message i =
     (if i = 1 then ''Could not clone source service (check your permissions)''
      else if i = 2 then ''Could not clone target service (check your permissions)''
      else if i = 3 then ''Could not create source Access policy (check your permissions)''
      else ''Could not create target Access policy (check your permissions)'')"

definition direct_cleanup_message :: "nat \<Rightarrow> string" where
  "direct_cleanup_message j =
     (if j \<le> 3 then ''Failed to cleanup partial service clone on approval''
      else if j = 4 then ''Failed to cleanup source service clone''
      else if j = 5 then ''Failed to cleanup target service clone''
      else ''Failed to cleanup source access object'')"

definition failed_review :: "api_error \<Rightarrow> go_error" where
  "failed_review e = Errorf ''failed to create subjectaccessreview: '' (ApiError e)"

subsection \<open>A small cluster\<close>

text \<open>
  An environment whose authorization subsystem decides by namespace; the digest is a
  stand-in of the right length, and the goroutines finish in the order they were started.
\<close>

definition example_env :: "(string \<Rightarrow> api_error + bool) \<Rightarrow> env" where
  "example_env rbac =
     \<lparr>sha1_hex = (\<lambda>s. take 40 (EncodeToString s @ replicate 40 CHR ''0'')),
      TrimSpace = (\<lambda>s. s), Atoi = (\<lambda>s. None), ParseDuration = (\<lambda>s. None),
      sar = (\<lambda>u verb grp resource ns name. rbac ns),
      finish = (\<lambda>perms. [0..<length perms])\<rparr>"

definition allow_all :: "string \<Rightarrow> api_error + bool" where
  "allow_all ns = Inr True"

definition allow_only :: "string \<Rightarrow> string \<Rightarrow> api_error + bool" where
  "allow_only allowed ns = Inr (ns = allowed)"

text \<open>The authorization subsystem is unreachable for one namespace and denies the others.\<close>

definition unavailable_for :: "string \<Rightarrow> string \<Rightarrow> api_error + bool" where
  "unavailable_for broken ns = (if ns = broken then Inl (Failure ''unavailable'') else Inr False)"

definition example_service :: "string \<Rightarrow> string \<Rightarrow> Service" where
  "example_service ns n =
     \<lparr>Name = n, Namespace = ns, Labels = [], Annotations = [], Finalizers = [],
      DeletionTimestamp = False, CreationTimestamp = 0, svc_Ports = [],
      svc_Selector = [(''app'', n)], svc_Type = ''ClusterIP'', svc_ClusterIP = ''10.0.0.1'',
      svc_ClusterIPs = []\<rparr>"

text \<open>Two services in two namespaces, and the failures that the coming calls meet.\<close>

definition example_world :: "string option list \<Rightarrow> world" where
  "example_world fs =
     \<lparr>services = [example_service ''team-a'' ''svc1'', example_service ''team-b'' ''svc2''],
      accesses = [], externalAccesses = [], accessRequests = [], faults = fs, calls = [],
      events = []\<rparr>"

definition alice :: webSocketCommandProcessor where
  "alice = \<lparr>idToken = ''token-of-alice'',
            userInfo = \<lparr>Email = ''alice@example.com'', Groups = []\<rparr>,
            sanitizedUsername = ''alice-example-com''\<rparr>"

definition bob :: webSocketCommandProcessor where
  "bob = \<lparr>idToken = ''token-of-bob'',
          userInfo = \<lparr>Email = ''bob@example.com'', Groups = []\<rparr>,
          sanitizedUsername = ''bob-example-com''\<rparr>"

definition example_payload :: "string \<Rightarrow> webSocketPayload" where
  "example_payload direction =
     \<lparr>pl_Command = [], pl_RequestID = [], pl_SourceService = ''team-a/svc1'',
      pl_TargetService = ''team-b/svc2'', pl_Direction = direction, pl_Ports = [], pl_Cidr = [],
      pl_Service = [], pl_Duration = 600, pl_Name = [], pl_Namespace = [],
      pl_Description = []\<rparr>"

definition create_services_in :: "string \<Rightarrow> PermissionRequest" where
  "create_services_in ns =
     \<lparr>perm_Verb = ''create'', perm_Group = [], perm_Resource = ''services'', perm_Namespace = ns\<rparr>"

text \<open>The Access that a partial request expects, as the orphan check derives it.\<close>

definition is_partial :: "AccessRequest \<Rightarrow> bool" where
  "is_partial request = (Status request = ''PendingTarget'' \<or> Status request = ''PendingSource'')"

definition expected_namespace :: "AccessRequest \<Rightarrow> string" where
  "expected_namespace request =
     (if Status request = ''PendingTarget'' then Split (SourceService request) CHR ''/'' ! 0
      else Split (TargetService request) CHR ''/'' ! 0)"

definition expected_access :: "AccessRequest \<Rightarrow> string" where
  "expected_access request =
     ''access-'' @ (if Status request = ''PendingTarget'' then SourceCloneName request
                    else TargetCloneName request)"

text \<open>The calls of the orphan check in a trace: a Get of an Access, a Delete of a request.\<close>

fun is_orphan_check_call :: "api_call \<Rightarrow> bool" where
  "is_orphan_check_call (GetCall k ns n) = (k = Accesses)"
| "is_orphan_check_call (DeleteCall k ns n) = (k = AccessRequests)"
| "is_orphan_check_call c = False"

definition orphan_check_calls :: "world \<Rightarrow> world \<Rightarrow> (api_call \<times> api_error option) list" where
  "orphan_check_calls w w' = filter (\<lambda>c. is_orphan_check_call (fst c)) (new_calls w w')"

text \<open>The first step of a pass over a live request: the finalizer is there, or is added.\<close>

definition ensure_finalizer :: "AccessRequest \<Rightarrow> world \<Rightarrow> (api_error + unit) \<times> world" where
  "ensure_finalizer request w =
     (if ContainsFinalizer request accessRequestFinalizerName then (Inr (), w)
      else client_Update_AccessRequest (AddFinalizer request accessRequestFinalizerName) w)"

text \<open>What the Get of the expected Access returns in a world.\<close>

definition expected_lookup :: "AccessRequest \<Rightarrow> world \<Rightarrow> api_error option" where
  "expected_lookup request w =
     (case head_fault (faults w) of
        Some m \<Rightarrow> Some (Failure m)
      | None \<Rightarrow>
          if absent (expected_namespace request) (expected_access request) (accesses w)
          then Some NotFound else None)"

text \<open>The orphan check of \<open>reconcileAccessRequest\<close>, by itself.\<close>

definition orphan_check :: "AccessRequest \<Rightarrow> world \<Rightarrow> go_error option \<times> world" where
  "orphan_check request w =
     (if \<not> is_partial request then (None, w)
      else
      case client_Get_Access (expected_namespace request) (expected_access request) w of
        (Inl err, w1) \<Rightarrow>
          if IsNotFound (ApiError err)
          then
            (case client_Delete_AccessRequest (Namespace request) (Name request) w1 of
               (Inl err2, w2) \<Rightarrow>
                 (Some (ApiError err2),
                  emit (LoggerError ''Failed to delete orphaned AccessRequest'' (Some (ApiError err2))) w2)
             | (Inr x, w2) \<Rightarrow> (None, w2))
          else (Some (ApiError err),
                emit (LoggerError ''Failed to check for orphaned access request'' (Some (ApiError err))) w1)
      | (Inr existingAccess, w1) \<Rightarrow> (None, w1))"

text \<open>
  A request that was submitted with the source side in place, and a cluster from which the
  source-side Access has been deleted out-of-band.
\<close>

definition pending_request :: "string list \<Rightarrow> AccessRequest" where
  "pending_request fs =
     \<lparr>Name = ''ar-alice-example-com-1111-aaa'', Namespace = [], Labels = [], Annotations = [],
      Finalizers = fs, DeletionTimestamp = False, CreationTimestamp = 0,
      Requestor = ''alice@example.com'', RequestType = ''Service'',
      SourceService = ''team-a/svc1'', TargetService = ''team-b/svc2'', Cidr = [], Service = [],
      Direction = ''ingress'', Ports = [], Duration = 600, Description = [],
      Status = ''PendingTarget'', RequestID = ''1111-aaaa'',
      SourceCloneName = ''nc-svc1-31313131'', TargetCloneName = []\<rparr>"

definition orphan_world :: "string option list \<Rightarrow> world" where
  "orphan_world fs =
     \<lparr>services = [example_service ''team-a'' ''svc1'', example_service ''team-b'' ''svc2''],
      accesses = [], externalAccesses = [], accessRequests = [pending_request []], faults = fs,
      calls = [], events = []\<rparr>"

text \<open>
  The clone names, and the messages of the compensating deletes, of the steps that
  \<open>handleRequestClusterAccess\<close> runs in its own body.
\<close>

definition own_clone_name :: "string \<Rightarrow> string \<Rightarrow> string" where
  "own_clone_name name cloneID = ''netwatch-clone-'' @ name @ ''-'' @ take 8 (EncodeToString cloneID)"

definition own_cleanup_message :: "nat \<Rightarrow> string" where
  "own_cleanup_message j =
     (if j = 1 then ''Failed to cleanup source service clone after target clone failed''
      else if j = 2 \<or> j = 4 then ''Failed to cleanup source service clone''
      else if j = 3 \<or> j = 5 then ''Failed to cleanup target service clone''
      else ''Failed to cleanup source access object'')"

text \<open>The errors that \<open>approveFullRequest\<close> returns, by the step that failed, and its log messages.\<close>

definition approve_message :: "nat \<Rightarrow> string" where
  "approve_message i =
     (if i = 1 then ''could not clone source service: ''
      else if i = 2 then ''could not clone target service: ''
      else if i = 3 then ''could not create source Access policy: ''
      else ''could not create target Access policy: '')"

definition approve_cleanup_message :: "nat \<Rightarrow> string" where
  "approve_cleanup_message j =
     (if j = 1 \<or> j = 2 \<or> j = 4 then ''Failed to cleanup source service clone''
      else if j = 3 \<or> j = 5 then ''Failed to cleanup target service clone''
      else ''Failed to cleanup source access object'')"

text \<open>
  What a run of the steps of a full grant, from \<open>v\<close> to \<open>v'\<close>, that failed at step \<open>i\<close>
  (2: the target clone, 3: the source-side Access, 4: the target-side Access) with the
  error \<open>err\<close> did about it: the error comes from the first call that failed; the calls
  after that one are the compensating deletes of what the run had created, in order; the
  run's events are its report, then the errors that it logged for deletes that failed; it
  touched no other kind of object; and when no delete failed, the services and the
  Accesses are as the run found them, so that the count of the objects that carry its
  correlation id is as before the run.
\<close>

definition compensated ::
  "string \<Rightarrow> string \<Rightarrow> string \<Rightarrow> string \<Rightarrow> string \<Rightarrow> world \<Rightarrow> world \<Rightarrow> nat \<Rightarrow> go_error \<Rightarrow>
   event list \<Rightarrow> bool" where
  "compensated sourceNs sourceCloneName targetNs targetCloneName cloneID v v' i err report =
     (let logs = drop (length report) (new_events v v') in
      first_failure (new_calls v v') \<noteq> None \<and>
      map_option snd (first_failure (new_calls v v')) = Cause err \<and>
      after_first_failure (new_calls v v') =
        take (i - 1) [DeleteCall Services sourceNs sourceCloneName,
                      DeleteCall Services targetNs targetCloneName,
                      DeleteCall Accesses sourceNs (''access-'' @ sourceCloneName)] \<and>
      take (length report) (new_events v v') = report \<and>
      list_all is_logger_error logs \<and>
      externalAccesses v' = externalAccesses v \<and> accessRequests v' = accessRequests v \<and>
      (logs = [] \<longrightarrow>
         services v' = services v \<and> accesses v' = accesses v \<and>
         count_request_id cloneID (services v') = count_request_id cloneID (services v) \<and>
         count_request_id cloneID (accesses v') = count_request_id cloneID (accesses v)))"

text \<open>
  The steps of a direct grant once the ports and the two names are read, as
  \<open>createClusterAccess\<close> runs them and as \<open>handleRequestClusterAccess\<close> runs them again
  in its own body; the two differ in the names of the clones and in the log messages.
\<close>

definition direct_run ::
  "env \<Rightarrow> webSocketCommandProcessor \<Rightarrow> webSocketPayload \<Rightarrow> string \<Rightarrow> (string \<Rightarrow> string \<Rightarrow> string) \<Rightarrow>
   (nat \<Rightarrow> string) \<Rightarrow> ServicePort list \<Rightarrow> world \<Rightarrow> world option" where
  "direct_run E p payload cloneID cname k overridePorts w =
     (case slice_to 8 (EncodeToString cloneID) of
        None \<Rightarrow> None
      | Some randSuffix \<Rightarrow>
          (case grant_steps
                  (service_ns (pl_SourceService payload))
                  (service_name (pl_SourceService payload))
                  (cname (service_name (pl_SourceService payload)) cloneID)
                  (service_ns (pl_TargetService payload))
                  (service_name (pl_TargetService payload))
                  (cname (service_name (pl_TargetService payload)) cloneID)
                  [(request_id_label, cloneID)] overridePorts
                  (full_access p cloneID
                     (cname (service_name (pl_SourceService payload)) cloneID)
                     (service_ns (pl_SourceService payload)) (pl_Duration payload)
                     (fst (full_directions (pl_Direction payload))))
                  (full_access p cloneID
                     (cname (service_name (pl_TargetService payload)) cloneID)
                     (service_ns (pl_TargetService payload)) (pl_Duration payload)
                     (snd (full_directions (pl_Direction payload))))
                  (\<lambda>i err. sendError (direct_message i) (Some err) ''Service'')
                  k w of
             (Some failure, w') \<Rightarrow> Some w'
           | (None, w4) \<Rightarrow>
               Some (logAndBroadcast ''--- Request complete ---'' ''log-success'' ''Service'' ''applyComplete''
                    (logAndBroadcast
                       (if pl_Duration payload > 0
                        then ''SUCCESS: Temporary access policies created for '' @
                             duration_string (pl_Duration payload) @ ''.''
                        else ''SUCCESS: Infinite access policies created.'')
                       ''log-success'' ''Service'' ''applyResult'' w4))))"

text \<open>The body of \<open>handleRequestClusterAccess\<close> after \<open>createClusterAccess\<close> has returned.\<close>

definition own_run ::
  "env \<Rightarrow> webSocketCommandProcessor \<Rightarrow> webSocketPayload \<Rightarrow> string \<Rightarrow> world \<Rightarrow> world option" where
  "own_run E p payload cloneID wa =
     (case getOverridePorts E (pl_Ports payload) of
        Inl err \<Rightarrow> Some (sendError ''Invalid port override'' (Some err) ''Service'' wa)
      | Inr overridePorts \<Rightarrow>
          direct_run E p payload cloneID own_clone_name own_cleanup_message overridePorts wa)"

text \<open>
  A run of \<open>handleRequestClusterAccess\<close> in which the creation of the target clone is
  refused in the run of \<open>createClusterAccess\<close>, and the creation of the source-side Access
  is refused in what the handler's own body does next; every compensating delete goes
  through. The worlds of the run: after the client was built, after \<open>createClusterAccess\<close>
  returned, and at the end.
\<close>

definition twice_refused :: world where
  "twice_refused =
     example_world [None, None, None, None, Some ''forbidden'', None,
                    None, None, None, None, Some ''quota'']"

definition twice_refused_client :: world where
  "twice_refused_client = snd (GetImpersonatingKubeClient (idToken alice) twice_refused)"

definition twice_refused_helper :: world where
  "twice_refused_helper =
     the (createClusterAccess (example_env allow_all) alice (example_payload ''ingress'') ''1111-aaaa''
            twice_refused_client)"

definition twice_refused_end :: world where
  "twice_refused_end =
     the (handleRequestClusterAccess (example_env allow_all) alice (example_payload ''ingress'')
            ''1111-aaaa'' ''2222-bbbb'' twice_refused)"

text \<open>
  A run of \<open>handleRequestClusterAccess\<close> in which the creation of the target clone is
  refused and the delete that should undo the source clone is refused as well (the
  handler's own body then fails at its first step).
\<close>

definition rollback_refused :: world where
  "rollback_refused =
     the (handleRequestClusterAccess (example_env allow_all) alice (example_payload ''ingress'')
            ''1111-aaaa'' ''2222-bbbb''
            (example_world [None, None, None, None, Some ''forbidden'', Some ''unavailable'',
                            Some ''forbidden'']))"

definition delete_call :: "Service \<Rightarrow> api_call" where
  "delete_call s = DeleteCall Services (Namespace s) (Name s)"

fun update_call :: "client_Object \<Rightarrow> api_call" where
  "update_call (AccessObject a) = UpdateCall Accesses (Namespace a) (Name a)"
| "update_call (ExternalAccessObject a) = UpdateCall ExternalAccesses (Namespace a) (Name a)"

text \<open>The finalizers of the stored copy of an object, if it is stored.\<close>

fun stored_finalizers :: "client_Object \<Rightarrow> world \<Rightarrow> string list option" where
  "stored_finalizers (AccessObject a) w =
     map_option Finalizers (store_get (accesses w) (Namespace a) (Name a))"
| "stored_finalizers (ExternalAccessObject a) w =
     map_option Finalizers (store_get (externalAccesses w) (Namespace a) (Name a))"

text \<open>Whether the stored copy of an object is marked for deletion.\<close>

fun stored_deleting :: "client_Object \<Rightarrow> world \<Rightarrow> bool" where
  "stored_deleting (AccessObject a) w =
     (case store_get (accesses w) (Namespace a) (Name a) of
        None \<Rightarrow> False | Some old \<Rightarrow> DeletionTimestamp old)"
| "stored_deleting (ExternalAccessObject a) w =
     (case store_get (externalAccesses w) (Namespace a) (Name a) of
        None \<Rightarrow> False | Some old \<Rightarrow> DeletionTimestamp old)"

definition example_clone :: "string \<Rightarrow> string \<Rightarrow> string \<Rightarrow> Service" where
  "example_clone ns n rid = (example_service ns n)\<lparr>Labels := [(request_id_label, rid)]\<rparr>"

text \<open>Declarations that are being deleted and still carry the cleanup finalizer.\<close>

definition expiring_access :: Access where
  "expiring_access =
     \<lparr>Name = ''access-nc-svc1-31313131'', Namespace = ''team-a'',
      Labels = [(''app.kubernetes.io/managed-by'', ''netwatch''), (request_id_label, ''1111-aaaa'')],
      Annotations = [], Finalizers = [accessFinalizerName], DeletionTimestamp = True,
      CreationTimestamp = 0, acc_Duration = ''600s'',
      acc_ServiceSelector = [(request_id_label, ''1111-aaaa'')],
      acc_Targets = [\<lparr>ServiceName = ''nc-svc2-31313131'', ap_Namespace = ''team-b''\<rparr>],
      acc_Direction = ''ingress''\<rparr>"

definition expiring_external :: ExternalAccess where
  "expiring_external =
     \<lparr>Name = ''ea-nc-svc1-32323232'', Namespace = ''team-a'',
      Labels = [(''app.kubernetes.io/managed-by'', ''netwatch''), (request_id_label, ''2222-bbbb'')],
      Annotations = [], Finalizers = [accessFinalizerName, ''example.org/keep''],
      DeletionTimestamp = True, CreationTimestamp = 0,
      ea_TargetCIDRs = [''10.1.0.0/16''], ea_Direction = ''egress'', ea_Duration = ''600s'',
      ea_ServiceSelector = [(request_id_label, ''2222-bbbb'')]\<rparr>"

definition cleanup_world :: "string option list \<Rightarrow> world" where
  "cleanup_world fs =
     \<lparr>services = [example_service ''team-a'' ''svc1'',
                  example_clone ''team-a'' ''nc-svc1-31313131'' ''1111-aaaa'',
                  example_clone ''team-b'' ''nc-svc2-31313131'' ''1111-aaaa'',
                  example_clone ''team-a'' ''nc-svc1-32323232'' ''2222-bbbb''],
      accesses = [expiring_access], externalAccesses = [expiring_external], accessRequests = [],
      faults = fs, calls = [], events = []\<rparr>"

text \<open>
  The world that \<open>handleRequestClusterAccess\<close> leaves when alice, allowed on both sides,
  asks for access from team-a/svc1 to team-b/svc2 and no call fails.
\<close>

definition granted_twice :: world where
  "granted_twice =
     the (handleRequestClusterAccess (example_env allow_all) alice (example_payload ''ingress'')
            ''1111-aaaa'' ''2222-bbbb'' (example_world []))"

text \<open>
  Alice, allowed in team-a only, submits a request from team-a/svc1 to team-b/svc2 for
  review; bob, who may approve, approves it. No call fails. The worlds after the
  submission and after the approval.
\<close>

definition submitted :: world where
  "submitted =
     the (handleSubmitAccessRequest (example_env (allow_only ''team-a'')) alice
            (example_payload ''ingress'') ''1111-aaaa'' (example_world []))"

definition approved :: world where
  "approved =
     the (handleApproveAccessRequest (example_env allow_all) bob
            \<lparr>pl_Command = [], pl_RequestID = ''ar-alice-example-com-1111-aaa'',
             pl_SourceService = [], pl_TargetService = [], pl_Direction = [], pl_Ports = [],
             pl_Cidr = [], pl_Service = [], pl_Duration = 0, pl_Name = [], pl_Namespace = [],
             pl_Description = []\<rparr>
            submitted)"

text \<open>
  The cluster after alice, allowed in team-a only, submitted her request: the source clone,
  the source-side Access and the request in status PendingTarget.
\<close>

definition pending_access :: Access where
  "pending_access =
     new_Access ''access-nc-svc1-31313131'' ''team-a'' (commonAccessLabels alice ''1111-aaaa'') ''600s''
       [(request_id_label, ''1111-aaaa'')]
       [\<lparr>ServiceName = ''netwatch-clone-svc2-31313131'', ap_Namespace = ''team-b''\<rparr>] ''ingress''"

definition pending_world :: "string option list \<Rightarrow> world" where
  "pending_world fs =
     \<lparr>services = [example_service ''team-a'' ''svc1'', example_service ''team-b'' ''svc2'',
                  example_clone ''team-a'' ''nc-svc1-31313131'' ''1111-aaaa''],
      accesses = [pending_access], externalAccesses = [], accessRequests = [pending_request []],
      faults = fs, calls = [], events = []\<rparr>"

definition review_payload :: webSocketPayload where
  "review_payload =
     \<lparr>pl_Command = [], pl_RequestID = ''ar-alice-example-com-1111-aaa'', pl_SourceService = [],
      pl_TargetService = [], pl_Direction = [], pl_Ports = [], pl_Cidr = [], pl_Service = [],
      pl_Duration = 0, pl_Name = [], pl_Namespace = [], pl_Description = []\<rparr>"

text \<open>
  The direction of a single-sided declaration as the specification gives it, from the
  direction that was requested and the side that is local.
\<close>

definition side_direction :: "string \<Rightarrow> bool \<Rightarrow> string" where
  "side_direction requested isSource =
     (if requested = ''egress'' then (if isSource then ''egress'' else ''ingress'')
      else if requested = ''ingress'' then (if isSource then ''ingress'' else ''egress'')
      else ''all'')"

text \<open>
  The source side of a request for ingress is put in place, and the target side is added
  when the request is approved.
\<close>

definition source_side_created :: world where
  "source_side_created =
     snd (the (createPartialAccess (example_env allow_all) alice ''team-a'' ''svc1'' ''team-b'' ''svc2''
                 ''1111-aaaa'' (example_payload ''ingress'') True (example_world [])))"

definition target_side_approved :: world where
  "target_side_approved =
     snd (the (approvePartialRequest (example_env allow_all) bob (pending_request []) False
                 (pending_world [])))"







section \<open>Properties\<close>

subsection \<open>Support: traces, stores, single calls\<close>

subsection \<open>Lists, traces, stores\<close>

lemma find_append': "find P (xs @ ys) = (case find P xs of None \<Rightarrow> find P ys | Some x \<Rightarrow> Some x)"
  by (induction xs) auto

lemma first_failure_simps [simp]:
  "first_failure [] = None"
  "first_failure ((c, None) # cs) = first_failure cs"
  "first_failure ((c, Some e) # cs) = Some (c, e)"
  by (simp_all add: first_failure_def)

lemma first_failure_all_ok: "all_ok cs \<Longrightarrow> first_failure (cs @ rest) = first_failure rest"
  by (induction cs) (auto simp: all_ok_def)

lemma after_first_failure_all_ok:
  "all_ok cs \<Longrightarrow> after_first_failure (cs @ (c, Some e) # rest) = map fst rest"
  by (induction cs) (auto simp: all_ok_def after_first_failure_def)

lemma all_ok_simps [simp]:
  "all_ok []"
  "all_ok ((c, r) # cs) = (r = None \<and> all_ok cs)"
  "all_ok (cs @ cs') = (all_ok cs \<and> all_ok cs')"
  by (auto simp: all_ok_def)

lemma run_ok_refl [simp]: "run_ok w w"
  by (simp add: run_ok_def)

lemma run_ok_trans: "run_ok w w1 \<Longrightarrow> run_ok w1 w2 \<Longrightarrow> run_ok w w2"
  by (auto simp: run_ok_def)

lemma run_failed_after: "run_ok w w1 \<Longrightarrow> run_failed w1 w2 c e \<Longrightarrow> run_failed w w2 c e"
  by (auto simp: run_ok_def run_failed_def)

lemma run_failed_read:
  assumes "run_failed w w2 c e" and "calls w' = calls w2 @ rest"
  shows "first_failure (new_calls w w') = Some (c, e)"
    and "after_first_failure (new_calls w w') = map fst rest"
proof -
  from assms obtain cs where cs: "calls w2 = calls w @ cs @ [(c, Some e)]" "all_ok cs"
    by (auto simp: run_failed_def)
  with assms(2) have n: "new_calls w w' = cs @ (c, Some e) # rest"
    by (simp add: new_calls_def)
  show "first_failure (new_calls w w') = Some (c, e)"
    unfolding n using cs(2) by (simp add: first_failure_all_ok)
  show "after_first_failure (new_calls w w') = map fst rest"
    unfolding n using cs(2) by (rule after_first_failure_all_ok)
qed

lemma absent_simps [simp]:
  "absent ns n []"
  "absent ns n (obj # objs) = ((Namespace obj = ns \<longrightarrow> Name obj \<noteq> n) \<and> absent ns n objs)"
  "absent ns n (xs @ ys) = (absent ns n xs \<and> absent ns n ys)"
  by (auto simp: absent_def is_at_def)

lemma store_get_None: "(store_get objs ns n = None) = absent ns n objs"
  by (auto simp: store_get_def find_None_iff absent_def)

lemma store_get_Some_at: "store_get objs ns n = Some obj \<Longrightarrow> Namespace obj = ns \<and> Name obj = n"
  by (auto simp: store_get_def find_Some_iff is_at_def)

lemma store_get_here:
  "absent ns n objs \<Longrightarrow> Namespace c = ns \<Longrightarrow> Name c = n \<Longrightarrow> store_get (objs @ c # rest) ns n = Some c"
  by (induction objs) (auto simp: store_get_def is_at_def)

lemma filter_absent:
  "absent ns n objs \<Longrightarrow> filter (\<lambda>x. \<not> is_at ns n x) objs = objs"
  by (auto simp: absent_def filter_id_conv)

lemma without_absent [simp]: "absent ns n objs \<Longrightarrow> without ns n objs = objs"
  by (simp add: without_def store_delete_def store_get_None [symmetric])

lemma without_here [simp]:
  "absent ns n objs \<Longrightarrow> Namespace c = ns \<Longrightarrow> Name c = n \<Longrightarrow> Finalizers c = [] \<Longrightarrow>
   absent ns n rest \<Longrightarrow> without ns n (objs @ c # rest) = objs @ rest"
  by (simp add: without_def store_delete_def store_get_here filter_absent is_at_def [of ns n c])

subsection \<open>One client call\<close>

lemma invoke_head:
  "invoke c f w =
     (case head_fault (faults w) of
        Some m \<Rightarrow> (Inl (Failure m), w\<lparr>faults := tl (faults w), calls := calls w @ [(c, Some (Failure m))]\<rparr>)
      | None \<Rightarrow>
          (case f (w\<lparr>faults := tl (faults w)\<rparr>) of
             Inl e \<Rightarrow> (Inl e, w\<lparr>faults := tl (faults w), calls := calls w @ [(c, Some e)]\<rparr>)
           | Inr (r, w2) \<Rightarrow> (Inr r, w2\<lparr>calls := calls w2 @ [(c, None)]\<rparr>)))"
  by (auto simp: invoke_def head_fault_def Let_def split: list.splits option.splits sum.splits)

lemma IsNotFound_ApiError [simp]: "IsNotFound (ApiError e) = (e = NotFound)"
  by (simp add: IsNotFound_def)

lemma CloneService_fail:
  "CloneService ns n nn l ps w = (Inl err, w1) \<Longrightarrow>
     services w1 = services w \<and> accesses w1 = accesses w \<and> same_others w w1 \<and>
     events w1 = events w \<and> (\<exists>c e. run_failed w w1 c e \<and> Cause err = Some e)"
  by (auto simp: CloneService_def client_Get_Service_def client_Create_Service_def invoke_head
        store_create_def Let_def run_failed_def same_others_def
      split: option.splits sum.splits prod.splits if_splits
      intro: exI [of _ "[]"] exI [of _ "[(c, None)]" for c])

lemma CloneService_ok:
  "CloneService ns n nn l ps w = (Inr c, w1) \<Longrightarrow>
     services w1 = services w @ [c] \<and> absent ns nn (services w) \<and>
     Name c = nn \<and> Namespace c = ns \<and> Labels c = l \<and> Finalizers c = [] \<and>
     accesses w1 = accesses w \<and> same_others w w1 \<and>
     events w1 = events w \<and> run_ok w w1"
  by (auto simp: CloneService_def client_Get_Service_def client_Create_Service_def invoke_head
        store_create_def Let_def run_ok_def same_others_def store_get_None
      split: option.splits sum.splits prod.splits if_splits dest: store_get_Some_at)

lemma CreateAccess_fail:
  "CreateAccess a w = (Some err, w1) \<Longrightarrow>
     services w1 = services w \<and> accesses w1 = accesses w \<and> same_others w w1 \<and>
     events w1 = events w \<and> (\<exists>c e. run_failed w w1 c e \<and> Cause err = Some e)"
  by (auto simp: CreateAccess_def as_error_def client_Create_Access_def invoke_head
        store_create_def run_failed_def same_others_def
      split: option.splits sum.splits prod.splits)

lemma CreateAccess_ok:
  "CreateAccess a w = (None, w1) \<Longrightarrow>
     services w1 = services w \<and> accesses w1 = accesses w @ [a] \<and>
     absent (Namespace a) (Name a) (accesses w) \<and> same_others w w1 \<and>
     events w1 = events w \<and> run_ok w w1"
  by (auto simp: CreateAccess_def as_error_def client_Create_Access_def invoke_head
        store_create_def run_ok_def same_others_def store_get_None
      split: option.splits sum.splits prod.splits)

lemma cleanup_fields [simp]:
  "services (cleanup del msg w) = services (snd (del w))"
  "accesses (cleanup del msg w) = accesses (snd (del w))"
  "externalAccesses (cleanup del msg w) = externalAccesses (snd (del w))"
  "accessRequests (cleanup del msg w) = accessRequests (snd (del w))"
  "calls (cleanup del msg w) = calls (snd (del w))"
  "events (cleanup del msg w) =
     events (snd (del w)) @ (if fails del w then [LoggerError msg (fst (del w))] else [])"
  by (auto simp: cleanup_def emit_def fails_def split: prod.splits option.splits)

lemma DeleteService_fields [simp]:
  "accesses (snd (DeleteService ns n w)) = accesses w"
  "externalAccesses (snd (DeleteService ns n w)) = externalAccesses w"
  "accessRequests (snd (DeleteService ns n w)) = accessRequests w"
  "events (snd (DeleteService ns n w)) = events w"
  "calls (snd (DeleteService ns n w)) =
     calls w @ [(DeleteCall Services ns n,
                 case fst (DeleteService ns n w) of None \<Rightarrow> None | Some e \<Rightarrow> Cause e)]"
  "services (snd (DeleteService ns n w)) =
     (if fails (DeleteService ns n) w then services w else without ns n (services w))"
  by (auto simp: DeleteService_def as_error_def client_Delete_Service_def invoke_head
        fails_def without_def
      split: option.splits sum.splits prod.splits if_splits)

lemma DeleteAccess_fields [simp]:
  "services (snd (DeleteAccess ns n w)) = services w"
  "externalAccesses (snd (DeleteAccess ns n w)) = externalAccesses w"
  "accessRequests (snd (DeleteAccess ns n w)) = accessRequests w"
  "events (snd (DeleteAccess ns n w)) = events w"
  "calls (snd (DeleteAccess ns n w)) =
     calls w @ [(DeleteCall Accesses ns n,
                 case fst (DeleteAccess ns n w) of None \<Rightarrow> None | Some e \<Rightarrow> Cause e)]"
  "accesses (snd (DeleteAccess ns n w)) =
     (if fails (DeleteAccess ns n) w then accesses w else without ns n (accesses w))"
  by (auto simp: DeleteAccess_def as_error_def client_Delete_Access_def invoke_head
        fails_def without_def
      split: option.splits sum.splits prod.splits if_splits)

lemma logs_Nil [simp]:
  "((if b then [x] else []) = []) = (\<not> b)"
  by simp

lemma without_two:
  assumes "absent sNs sCN objs" "absent tNs tCN objs" "sNs = tNs \<longrightarrow> sCN \<noteq> tCN"
    "Namespace c1 = sNs" "Name c1 = sCN" "Finalizers c1 = []"
    "Namespace c2 = tNs" "Name c2 = tCN" "Finalizers c2 = []"
  shows "without tNs tCN (without sNs sCN (objs @ [c1, c2])) = objs"
proof -
  from assms have "absent sNs sCN [c2]" by auto
  with assms have "without sNs sCN (objs @ c1 # [c2]) = objs @ [c2]"
    by (intro without_here) auto
  moreover from assms have "without tNs tCN (objs @ c2 # []) = objs @ []"
    by (intro without_here) auto
  ultimately show ?thesis by simp
qed

lemma grant_steps_failed:
  assumes told: "\<And>j e v. services (told j e v) = services v \<and> accesses (told j e v) = accesses v \<and>
                   externalAccesses (told j e v) = externalAccesses v \<and>
                   accessRequests (told j e v) = accessRequests v \<and>
                   calls (told j e v) = calls v \<and> events (told j e v) = events v @ tev j e"
      and mk: "\<And>c. Finalizers (mkSource c) = [] \<and> Namespace (mkSource c) = aNs \<and> Name (mkSource c) = aName"
      and run: "grant_steps sNs sName sCN tNs tName tCN label ports mkSource mkTarget told k w =
                  (Some (i, err), w')"
  shows "same_others w w' \<and> 1 \<le> i \<and> i \<le> 4 \<and>
    (\<exists>c e. first_failure (new_calls w w') = Some (c, e) \<and> Cause err = Some e) \<and>
    after_first_failure (new_calls w w') =
      (if i = 1 then []
       else if i = 2 then [DeleteCall Services sNs sCN]
       else if i = 3 then [DeleteCall Services sNs sCN, DeleteCall Services tNs tCN]
       else [DeleteCall Services sNs sCN, DeleteCall Services tNs tCN, DeleteCall Accesses aNs aName]) \<and>
    (\<exists>logs. events w' = events w @ tev i err @ logs \<and> list_all is_logger_error logs \<and>
       (logs = [] \<longrightarrow> services w' = services w \<and> accesses w' = accesses w))"
proof (cases "CloneService sNs sName sCN label ports w")
  case (Pair r1 w1)
  show ?thesis
  proof (cases r1)
    case (Inl e1)
    with Pair run have res: "i = 1" "err = e1" "w' = told 1 e1 w1"
      by (auto simp: grant_steps_def)
    from CloneService_fail [OF Pair [unfolded Inl]] obtain c e where
      f: "services w1 = services w" "accesses w1 = accesses w" "same_others w w1"
         "events w1 = events w" "run_failed w w1 c e" "Cause e1 = Some e"
      by (elim conjE exE)
    have cw: "calls w' = calls w1 @ []" using told res by simp
    from run_failed_read [OF f(5) cw] f told res show ?thesis
      by (simp add: same_others_def)
  next
    case (Inr c1)
    note s1 = CloneService_ok [OF Pair [unfolded Inr]]
    show ?thesis
    proof (cases "CloneService tNs tName tCN label ports w1")
      case P2: (Pair r2 w2)
      show ?thesis
      proof (cases r2)
        case (Inl e2)
        with Pair Inr P2 run have res: "i = 2" "err = e2"
          "w' = cleanup (DeleteService (Namespace c1) (Name c1)) (k 1) (told 2 e2 w2)"
          by (auto simp: grant_steps_def)
        from CloneService_fail [OF P2 [unfolded Inl]] obtain c e where
          f: "services w2 = services w1" "accesses w2 = accesses w1" "same_others w1 w2"
             "events w2 = events w1" "run_failed w1 w2 c e" "Cause e2 = Some e"
          by (elim conjE exE)
        from s1 have ok1: "run_ok w w1" by simp
        have rf: "run_failed w w2 c e" by (rule run_failed_after [OF ok1 f(5)])
        have cw: "calls w' = calls w2 @ [(DeleteCall Services sNs sCN,
                   case fst (DeleteService sNs sCN (told 2 e2 w2)) of None \<Rightarrow> None | Some e \<Rightarrow> Cause e)]"
          using told res s1 by simp
        from run_failed_read [OF rf cw] f s1 told res show ?thesis
          by (simp add: same_others_def is_logger_error_def)
      next
        case I2: (Inr c2)
        note s2 = CloneService_ok [OF P2 [unfolded I2]]
        show ?thesis
        proof (cases "CreateAccess (mkSource c2) w2")
          case P3: (Pair r3 w3)
          show ?thesis
          proof (cases r3)
            case (Some e3)
            with Pair Inr P2 I2 P3 run have res: "i = 3" "err = e3"
              "w' = cleanup (DeleteService (Namespace c2) (Name c2)) (k 3)
                     (cleanup (DeleteService (Namespace c1) (Name c1)) (k 2) (told 3 e3 w3))"
              by (auto simp: grant_steps_def)
            from CreateAccess_fail [OF P3 [unfolded Some]] obtain c e where
              f: "services w3 = services w2" "accesses w3 = accesses w2" "same_others w2 w3"
                 "events w3 = events w2" "run_failed w2 w3 c e" "Cause e3 = Some e"
              by (elim conjE exE)
            from s1 have ok1: "run_ok w w1" by simp
            from s2 have ok2: "run_ok w1 w2" by simp
            have rf: "run_failed w w3 c e"
              by (rule run_failed_after [OF run_ok_trans [OF ok1 ok2] f(5)])
            have "\<exists>rest. calls w' = calls w3 @ rest \<and>
                    map fst rest = [DeleteCall Services sNs sCN, DeleteCall Services tNs tCN]"
              using told res s1 s2 by simp
            then obtain rest where cw: "calls w' = calls w3 @ rest"
              and rest: "map fst rest = [DeleteCall Services sNs sCN, DeleteCall Services tNs tCN]"
              by (elim conjE exE)
            from s1 s2 have two: "without tNs tCN (without sNs sCN (services w @ [c1, c2])) = services w"
              by (intro without_two) auto
            from run_failed_read [OF rf cw] rest f s1 s2 told res two show ?thesis
              by (simp add: same_others_def is_logger_error_def)
          next
            case None
            note s3 = CreateAccess_ok [OF P3 [unfolded None]]
            show ?thesis
            proof (cases "CreateAccess (mkTarget c1) w3")
              case P4: (Pair r4 w4)
              show ?thesis
              proof (cases r4)
                case (Some e4)
                with Pair Inr P2 I2 P3 None P4 run have res: "i = 4" "err = e4"
                  "w' = cleanup (DeleteAccess (Namespace (mkSource c2)) (Name (mkSource c2))) (k 6)
                         (cleanup (DeleteService (Namespace c2) (Name c2)) (k 5)
                         (cleanup (DeleteService (Namespace c1) (Name c1)) (k 4) (told 4 e4 w4)))"
                  by (auto simp: grant_steps_def)
                from CreateAccess_fail [OF P4 [unfolded Some]] obtain c e where
                  f: "services w4 = services w3" "accesses w4 = accesses w3" "same_others w3 w4"
                     "events w4 = events w3" "run_failed w3 w4 c e" "Cause e4 = Some e"
                  by (elim conjE exE)
                from s1 have ok1: "run_ok w w1" by simp
                from s2 have ok2: "run_ok w1 w2" by simp
                from s3 have ok3: "run_ok w2 w3" by simp
                have rf: "run_failed w w4 c e"
                  by (rule run_failed_after [OF run_ok_trans [OF run_ok_trans [OF ok1 ok2] ok3] f(5)])
                have "\<exists>rest. calls w' = calls w4 @ rest \<and>
                        map fst rest = [DeleteCall Services sNs sCN, DeleteCall Services tNs tCN,
                                        DeleteCall Accesses aNs aName]"
                  using told res s1 s2 mk by simp
                then obtain rest where cw: "calls w' = calls w4 @ rest"
                  and rest: "map fst rest = [DeleteCall Services sNs sCN, DeleteCall Services tNs tCN,
                                        DeleteCall Accesses aNs aName]"
                  by (elim conjE exE)
                from s1 s2 have two: "without tNs tCN (without sNs sCN (services w @ [c1, c2])) = services w"
                  by (intro without_two) auto
                from run_failed_read [OF rf cw] rest f s1 s2 s3 told res mk two show ?thesis
                  by (simp add: same_others_def is_logger_error_def)
              next
                case None
                with Pair Inr P2 I2 P3 \<open>r3 = None\<close> P4 run show ?thesis
                  by (simp add: grant_steps_def)
              qed
            qed
          qed
        qed
      qed
    qed
  qed
qed

lemma grant_steps_ok:
  assumes run: "grant_steps sNs sName sCN tNs tName tCN label ports mkSource mkTarget told k w = (None, w')"
  shows "\<exists>c1 c2. services w' = services w @ [c1, c2] \<and>
           accesses w' = accesses w @ [mkSource c2, mkTarget c1] \<and>
           Name c1 = sCN \<and> Namespace c1 = sNs \<and> Labels c1 = label \<and>
           Name c2 = tCN \<and> Namespace c2 = tNs \<and> Labels c2 = label \<and>
           events w' = events w \<and> same_others w w' \<and> run_ok w w'"
proof (cases "CloneService sNs sName sCN label ports w")
  case (Pair r1 w1)
  show ?thesis
  proof (cases r1)
    case (Inl e1)
    with Pair run show ?thesis by (simp add: grant_steps_def)
  next
    case (Inr c1)
    note s1 = CloneService_ok [OF Pair [unfolded Inr]]
    show ?thesis
    proof (cases "CloneService tNs tName tCN label ports w1")
      case P2: (Pair r2 w2)
      show ?thesis
      proof (cases r2)
        case (Inl e2)
        with Pair Inr P2 run show ?thesis by (simp add: grant_steps_def)
      next
        case I2: (Inr c2)
        note s2 = CloneService_ok [OF P2 [unfolded I2]]
        show ?thesis
        proof (cases "CreateAccess (mkSource c2) w2")
          case P3: (Pair r3 w3)
          show ?thesis
          proof (cases r3)
            case (Some e3)
            with Pair Inr P2 I2 P3 run show ?thesis by (simp add: grant_steps_def)
          next
            case None
            note s3 = CreateAccess_ok [OF P3 [unfolded None]]
            show ?thesis
            proof (cases "CreateAccess (mkTarget c1) w3")
              case P4: (Pair r4 w4)
              show ?thesis
              proof (cases r4)
                case (Some e4)
                with Pair Inr P2 I2 P3 None P4 run show ?thesis by (simp add: grant_steps_def)
              next
                case N4: None
                note s4 = CreateAccess_ok [OF P4 [unfolded N4]]
                from Pair Inr P2 I2 P3 None P4 N4 run have w': "w' = w4"
                  by (simp add: grant_steps_def)
                from s1 have ok1: "run_ok w w1" by simp
                from s2 have ok2: "run_ok w1 w2" by simp
                from s3 have ok3: "run_ok w2 w3" by simp
                from s4 have ok4: "run_ok w3 w4" by simp
                have ok: "run_ok w w4"
                  by (rule run_ok_trans [OF run_ok_trans [OF run_ok_trans [OF ok1 ok2] ok3] ok4])
                from s1 s2 s3 s4 ok show ?thesis
                  unfolding w' by (intro exI [of _ c1] exI [of _ c2]) (simp add: same_others_def)
              qed
            qed
          qed
        qed
      qed
    qed
  qed
qed

lemma createClusterAccess_steps:
  "createClusterAccess E p payload cloneID w =
     (case getOverridePorts E (pl_Ports payload) of
        Inl err \<Rightarrow> Some (sendError ''Invalid port override'' (Some err) ''Service'' w)
      | Inr overridePorts \<Rightarrow>
      if length (Split (pl_SourceService payload) CHR ''/'') \<noteq> 2 \<or>
         length (Split (pl_TargetService payload) CHR ''/'') \<noteq> 2
      then Some (sendError ''Invalid service format''
                  (Some (ErrorNew (''expected '' @ [CHR 0x27] @ ''namespace/name'' @ [CHR 0x27])))
                  ''Service'' w)
      else
      (case slice_to 8 (EncodeToString cloneID) of
         None \<Rightarrow> None
       | Some randSuffix \<Rightarrow>
          (case grant_steps
                  (Split (pl_SourceService payload) CHR ''/'' ! 0)
                  (Split (pl_SourceService payload) CHR ''/'' ! 1)
                  (clone_name E (Split (pl_SourceService payload) CHR ''/'' ! 1) cloneID)
                  (Split (pl_TargetService payload) CHR ''/'' ! 0)
                  (Split (pl_TargetService payload) CHR ''/'' ! 1)
                  (clone_name E (Split (pl_TargetService payload) CHR ''/'' ! 1) cloneID)
                  [(request_id_label, cloneID)] overridePorts
                  (full_access p cloneID
                     (clone_name E (Split (pl_SourceService payload) CHR ''/'' ! 1) cloneID)
                     (Split (pl_SourceService payload) CHR ''/'' ! 0) (pl_Duration payload)
                     (fst (full_directions (pl_Direction payload))))
                  (full_access p cloneID
                     (clone_name E (Split (pl_TargetService payload) CHR ''/'' ! 1) cloneID)
                     (Split (pl_TargetService payload) CHR ''/'' ! 0) (pl_Duration payload)
                     (snd (full_directions (pl_Direction payload))))
                  (\<lambda>i err. sendError (direct_message i) (Some err) ''Service'')
                  direct_cleanup_message w of
             (Some failure, w') \<Rightarrow> Some w'
           | (None, w4) \<Rightarrow>
               Some (logAndBroadcast ''--- Request complete ---'' ''log-success'' ''Service'' ''applyComplete''
                    (logAndBroadcast
                       (if pl_Duration payload > 0
                        then ''SUCCESS: Temporary access policies created for '' @
                             duration_string (pl_Duration payload) @ ''.''
                        else ''SUCCESS: Infinite access policies created.'')
                       ''log-success'' ''Service'' ''applyResult'' w4)))))"
  by (simp add: createClusterAccess_def grant_steps_def Let_def clone_name_def slice_to_def
        full_access_def duration_string_def direct_message_def direct_cleanup_message_def
      split: sum.splits prod.splits option.splits)

lemma sendError_fields [simp]:
  "services (sendError m e t w) = services w"
  "accesses (sendError m e t w) = accesses w"
  "externalAccesses (sendError m e t w) = externalAccesses w"
  "accessRequests (sendError m e t w) = accessRequests w"
  "calls (sendError m e t w) = calls w"
  "faults (sendError m e t w) = faults w"
  "events (sendError m e t w) = events w @ [SendError m e t]"
  by (simp_all add: sendError_def emit_def)

lemma logAndBroadcast_fields [simp]:
  "services (logAndBroadcast a b c d w) = services w"
  "accesses (logAndBroadcast a b c d w) = accesses w"
  "externalAccesses (logAndBroadcast a b c d w) = externalAccesses w"
  "accessRequests (logAndBroadcast a b c d w) = accessRequests w"
  "calls (logAndBroadcast a b c d w) = calls w"
  "faults (logAndBroadcast a b c d w) = faults w"
  "events (logAndBroadcast a b c d w) = events w @ [LogAndBroadcast a b c d]"
  by (simp_all add: logAndBroadcast_def emit_def)

lemma new_events_append [simp]: "events w' = events w @ evs \<Longrightarrow> new_events w w' = evs"
  by (simp add: new_events_def)

lemma SendError_in_logs: "list_all is_logger_error logs \<Longrightarrow> SendError m e t \<notin> set logs"
  by (auto simp: list_all_iff is_logger_error_def)

subsection \<open>Permission checks\<close>

lemma check_perm_cases:
  "check_perm E u p = (case verdict E u p of
      Inl e \<Rightarrow> Some (failed_review e)
    | Inr allowed \<Rightarrow> if allowed then None else
        Some (ErrorNew (''permission denied: cannot '' @ perm_Verb p @ '' '' @
                  perm_Resource p @ '' in namespace '' @ perm_Namespace p)))"
  by (simp add: check_perm_def CanPerformAction_def verdict_def failed_review_def split: sum.splits)

lemma Wait_first:
  "Wait (map (\<lambda>i. check_perm E u (perms ! i)) order) =
     (case find (\<lambda>i. verdict E u (perms ! i) \<noteq> Inr True) order of
        None \<Rightarrow> None
      | Some i \<Rightarrow> check_perm E u (perms ! i))"
proof (induction order)
  case Nil
  show ?case by simp
next
  case (Cons i order)
  show ?case
  proof (cases "verdict E u (perms ! i)")
    case (Inl e)
    then show ?thesis by (simp add: check_perm_cases)
  next
    case (Inr allowed)
    then show ?thesis using Cons.IH by (cases allowed) (simp_all add: check_perm_cases)
  qed
qed

lemma CanPerformAllActions_first:
  "CanPerformAllActions E u perms =
     (case find (\<lambda>i. verdict E u (perms ! i) \<noteq> Inr True) (finish E perms) of
        None \<Rightarrow> (True, None)
      | Some i \<Rightarrow>
          (case verdict E u (perms ! i) of
             Inr allowed \<Rightarrow> (False, None)
           | Inl e \<Rightarrow> (False, Some (failed_review e))))"
proof (cases "find (\<lambda>i. verdict E u (perms ! i) \<noteq> Inr True) (finish E perms)")
  case None
  then show ?thesis by (simp add: CanPerformAllActions_def Wait_first)
next
  case (Some i)
  then have ne: "verdict E u (perms ! i) \<noteq> Inr True"
    by (auto simp: find_Some_iff)
  show ?thesis
  proof (cases "verdict E u (perms ! i)")
    case (Inl e)
    with Some show ?thesis
      unfolding CanPerformAllActions_def Wait_first
      by (simp add: check_perm_cases HasPrefix_def failed_review_def)
  next
    case (Inr allowed)
    with ne have "\<not> allowed" by auto
    with Some Inr show ?thesis
      unfolding CanPerformAllActions_def Wait_first
      by (simp add: check_perm_cases HasPrefix_def)
  qed
qed

lemma schedule_all:
  assumes "is_schedule order (length perms)"
  shows "(\<forall>i\<in>set order. P (perms ! i)) \<longleftrightarrow> (\<forall>p\<in>set perms. P p)"
proof
  assume h: "\<forall>i\<in>set order. P (perms ! i)"
  show "\<forall>p\<in>set perms. P p"
  proof
    fix p assume "p \<in> set perms"
    then obtain i where "i < length perms" "perms ! i = p" by (auto simp: in_set_conv_nth)
    with assms h show "P p" by (auto simp: is_schedule_def)
  qed
next
  assume h: "\<forall>p\<in>set perms. P p"
  show "\<forall>i\<in>set order. P (perms ! i)"
  proof
    fix i assume "i \<in> set order"
    with assms have "i < length perms" by (auto simp: is_schedule_def)
    then have "perms ! i \<in> set perms" by simp
    with h show "P (perms ! i)" by blast
  qed
qed

text \<open>
  C7 (amended). For every list of permission checks whose concurrent evaluations all
  finish, \<open>CanPerformAllActions\<close> answers true exactly when every check is allowed; it
  answers (false, nil) when some check is denied and no evaluation failed; an error it
  returns is the error of a check whose evaluation failed; and in general the answer is
  that of the first check, in the order of completion, that is not allowed: (false, nil) if
  that check was denied, its error if its evaluation failed.
\<close>

theorem CanPerformAllActions_verdicts:
  assumes sched: "is_schedule (finish E perms) (length perms)"
  shows "(fst (CanPerformAllActions E u perms) \<longleftrightarrow> (\<forall>p\<in>set perms. verdict E u p = Inr True))
    \<and> ((\<exists>p\<in>set perms. verdict E u p = Inr False) \<and> (\<forall>p\<in>set perms. \<forall>e. verdict E u p \<noteq> Inl e)
         \<longrightarrow> CanPerformAllActions E u perms = (False, None))
    \<and> (\<forall>err. snd (CanPerformAllActions E u perms) = Some err
         \<longrightarrow> (\<exists>p\<in>set perms. \<exists>e. verdict E u p = Inl e \<and> err = failed_review e))
    \<and> CanPerformAllActions E u perms =
        (case find (\<lambda>i. verdict E u (perms ! i) \<noteq> Inr True) (finish E perms) of
           None \<Rightarrow> (True, None)
         | Some i \<Rightarrow>
            (case verdict E u (perms ! i) of
               Inr allowed \<Rightarrow> (False, None)
             | Inl e \<Rightarrow> (False, Some (failed_review e))))"
proof -
  let ?bad = "\<lambda>i. verdict E u (perms ! i) \<noteq> Inr True"
  note first = CanPerformAllActions_first [of E u perms]
  have none_iff: "find ?bad (finish E perms) = None \<longleftrightarrow> (\<forall>p\<in>set perms. verdict E u p = Inr True)"
    using schedule_all [OF sched, of "\<lambda>p. verdict E u p = Inr True"]
    by (auto simp: find_None_iff)
  have a: "fst (CanPerformAllActions E u perms) \<longleftrightarrow> (\<forall>p\<in>set perms. verdict E u p = Inr True)"
    unfolding none_iff [symmetric] first
    by (auto split: option.splits sum.splits)
  have b: "CanPerformAllActions E u perms = (False, None)"
    if den: "\<exists>p\<in>set perms. verdict E u p = Inr False"
    and nofail: "\<forall>p\<in>set perms. \<forall>e. verdict E u p \<noteq> Inl e"
  proof (cases "find ?bad (finish E perms)")
    case None
    with none_iff den show ?thesis by auto
  next
    case (Some i)
    then have "i \<in> set (finish E perms)" by (auto simp: find_Some_iff)
    with sched have "perms ! i \<in> set perms" by (auto simp: is_schedule_def)
    with nofail have "\<forall>e. verdict E u (perms ! i) \<noteq> Inl e" by blast
    with Some show ?thesis unfolding first by (auto split: sum.splits)
  qed
  have c: "\<exists>p\<in>set perms. \<exists>e. verdict E u p = Inl e \<and> err = failed_review e"
    if "snd (CanPerformAllActions E u perms) = Some err" for err
  proof (cases "find ?bad (finish E perms)")
    case None
    with that show ?thesis unfolding first by simp
  next
    case (Some i)
    then have "i \<in> set (finish E perms)" by (auto simp: find_Some_iff)
    with sched have "perms ! i \<in> set perms" by (auto simp: is_schedule_def)
    with Some that show ?thesis unfolding first by (auto split: sum.splits)
  qed
  from a b c first show ?thesis by blast
qed

theorem CanPerformAllActions_verdicts_witness:
  "is_schedule (finish (example_env (allow_only ''team-a'')) [create_services_in ''team-a'', create_services_in ''team-b''])
      (length [create_services_in ''team-a'', create_services_in ''team-b''])
   \<and> verdict (example_env (allow_only ''team-a'')) (userInfo alice) (create_services_in ''team-a'') = Inr True
   \<and> verdict (example_env (allow_only ''team-a'')) (userInfo alice) (create_services_in ''team-b'') = Inr False
   \<and> CanPerformAllActions (example_env (allow_only ''team-a'')) (userInfo alice)
         [create_services_in ''team-a'', create_services_in ''team-b''] = (False, None)"
proof -
  let ?E = "example_env (allow_only ''team-a'')"
  let ?perms = "[create_services_in ''team-a'', create_services_in ''team-b'']"
  have s: "is_schedule (finish ?E ?perms) (length ?perms)"
    by (simp add: is_schedule_def example_env_def atLeast0LessThan [symmetric] del: upt_Suc)
  have a: "verdict ?E (userInfo alice) (create_services_in ''team-a'') = Inr True"
    by (simp add: verdict_def example_env_def allow_only_def create_services_in_def)
  have b: "verdict ?E (userInfo alice) (create_services_in ''team-b'') = Inr False"
    by (simp add: verdict_def example_env_def allow_only_def create_services_in_def)
  from CanPerformAllActions_verdicts [OF s, of "userInfo alice"] a b
  have "CanPerformAllActions ?E (userInfo alice) ?perms = (False, None)"
    by simp
  with s a b show ?thesis by simp
qed

text \<open>
  The sentence of C7 as it stands fails when one evaluation fails before a denied check
  completes: the call returns the error, not (false, nil), although a check is denied.
\<close>

theorem CanPerformAllActions_denied_and_failed:
  "is_schedule (finish (example_env (unavailable_for ''team-a'')) [create_services_in ''team-a'', create_services_in ''team-b''])
      (length [create_services_in ''team-a'', create_services_in ''team-b''])
   \<and> verdict (example_env (unavailable_for ''team-a'')) (userInfo alice) (create_services_in ''team-b'') = Inr False
   \<and> CanPerformAllActions (example_env (unavailable_for ''team-a'')) (userInfo alice)
         [create_services_in ''team-a'', create_services_in ''team-b'']
       = (False, Some (Errorf ''failed to create subjectaccessreview: '' (ApiError (Failure ''unavailable''))))"
proof (intro conjI)
  show "is_schedule (finish (example_env (unavailable_for ''team-a'')) [create_services_in ''team-a'', create_services_in ''team-b''])
      (length [create_services_in ''team-a'', create_services_in ''team-b''])"
    by (simp add: is_schedule_def example_env_def atLeast0LessThan [symmetric] del: upt_Suc)
  show "verdict (example_env (unavailable_for ''team-a'')) (userInfo alice) (create_services_in ''team-b'') = Inr False"
    by (simp add: verdict_def example_env_def unavailable_for_def create_services_in_def)
  show "CanPerformAllActions (example_env (unavailable_for ''team-a'')) (userInfo alice)
         [create_services_in ''team-a'', create_services_in ''team-b'']
       = (False, Some (Errorf ''failed to create subjectaccessreview: '' (ApiError (Failure ''unavailable''))))"
    by (simp add: example_env_def unavailable_for_def create_services_in_def
          CanPerformAllActions_def check_perm_def CanPerformAction_def HasPrefix_def upt_rec)
qed

subsection \<open>Rollback of a full grant\<close>

lemma createClusterAccess_run:
  "createClusterAccess E p payload cloneID w =
     (case getOverridePorts E (pl_Ports payload) of
        Inl err \<Rightarrow> Some (sendError ''Invalid port override'' (Some err) ''Service'' w)
      | Inr overridePorts \<Rightarrow>
      if length (Split (pl_SourceService payload) CHR ''/'') \<noteq> 2 \<or>
         length (Split (pl_TargetService payload) CHR ''/'') \<noteq> 2
      then Some (sendError ''Invalid service format''
                  (Some (ErrorNew (''expected '' @ [CHR 0x27] @ ''namespace/name'' @ [CHR 0x27])))
                  ''Service'' w)
      else direct_run E p payload cloneID (clone_name E) direct_cleanup_message overridePorts w)"
  unfolding createClusterAccess_steps direct_run_def service_ns_def service_name_def
  by (rule refl)

lemma handleRequestClusterAccess_runs:
  "handleRequestClusterAccess E p payload cloneID1 cloneID w =
     (if length (Split (pl_SourceService payload) CHR ''/'') \<noteq> 2 \<or>
         length (Split (pl_TargetService payload) CHR ''/'') \<noteq> 2
      then Some (sendError ''Invalid service format''
                  (Some (ErrorNew (''expected '' @ [CHR 0x27] @ ''namespace/name'' @ [CHR 0x27])))
                  ''Service'' w)
      else
      case CanPerformAllActions E (userInfo p)
             [\<lparr>perm_Verb = ''create'', perm_Group = [], perm_Resource = ''services'',
               perm_Namespace = service_ns (pl_SourceService payload)\<rparr>,
              \<lparr>perm_Verb = ''create'', perm_Group = [], perm_Resource = ''services'',
               perm_Namespace = service_ns (pl_TargetService payload)\<rparr>,
              \<lparr>perm_Verb = ''create'', perm_Group = ''maxtac.vtk.io'', perm_Resource = ''accesses'',
               perm_Namespace = service_ns (pl_SourceService payload)\<rparr>,
              \<lparr>perm_Verb = ''create'', perm_Group = ''maxtac.vtk.io'', perm_Resource = ''accesses'',
               perm_Namespace = service_ns (pl_TargetService payload)\<rparr>] of
        (canCreate, Some err) \<Rightarrow>
          Some (sendError ''Could not verify permissions for creating access'' (Some err) ''Service'' w)
      | (canCreate, None) \<Rightarrow>
      if \<not> canCreate
      then Some (sendError
             (''Permission denied. You lack the necessary permissions to create this access directly. Please use '' @
               [CHR 0x27] @ ''Submit for Review'' @ [CHR 0x27] @ '' instead.'')
             None ''Service'' w)
      else
     (case GetImpersonatingKubeClient (idToken p) w of
        (Some err, w0) \<Rightarrow>
          Some (sendError ''Could not create user-impersonating client'' (Some err) ''Service'' w0)
      | (None, w0) \<Rightarrow>
     (case createClusterAccess E p payload cloneID1 w0 of
        None \<Rightarrow> None
      | Some wa \<Rightarrow> own_run E p payload cloneID wa)))"
  by (simp add: handleRequestClusterAccess_def own_run_def direct_run_def grant_steps_def Let_def
        own_clone_name_def slice_to_def full_access_def duration_string_def direct_message_def
        own_cleanup_message_def service_ns_def service_name_def
      split: sum.splits prod.splits option.splits)

lemma direct_message_inj:
  "2 \<le> i \<Longrightarrow> i \<le> 4 \<Longrightarrow> 1 \<le> j \<Longrightarrow> j \<le> 4 \<Longrightarrow> direct_message i = direct_message j \<Longrightarrow> i = j"
  by (auto simp: direct_message_def split: if_splits)

lemma approve_message_inj:
  "2 \<le> i \<Longrightarrow> i \<le> 4 \<Longrightarrow> 1 \<le> j \<Longrightarrow> j \<le> 4 \<Longrightarrow> approve_message i = approve_message j \<Longrightarrow> i = j"
  by (auto simp: approve_message_def split: if_splits)

lemma grant_steps_compensated:
  assumes told: "\<And>j e v. services (told j e v) = services v \<and> accesses (told j e v) = accesses v \<and>
                   externalAccesses (told j e v) = externalAccesses v \<and>
                   accessRequests (told j e v) = accessRequests v \<and>
                   calls (told j e v) = calls v \<and> events (told j e v) = events v @ tev j e"
      and mk: "\<And>c. Finalizers (mkSource c) = [] \<and> Namespace (mkSource c) = sNs \<and>
                    Name (mkSource c) = ''access-'' @ sCN"
      and run: "grant_steps sNs sName sCN tNs tName tCN label ports mkSource mkTarget told k w =
                  (Some (i, err), w')"
      and late: "2 \<le> i"
  shows "compensated sNs sCN tNs tCN cloneID w w' i err (tev i err)"
proof -
  note g = grant_steps_failed [OF told mk run]
  from g obtain logs where logs:
    "events w' = events w @ tev i err @ logs" "list_all is_logger_error logs"
    "logs = [] \<longrightarrow> services w' = services w \<and> accesses w' = accesses w"
    by auto
  from logs(1) have ne: "new_events w w' = tev i err @ logs" by (simp add: new_events_def)
  from g obtain c a where ff: "first_failure (new_calls w w') = Some (c, a)" "Cause err = Some a"
    by auto
  from g late have i: "i = 2 \<or> i = 3 \<or> i = 4" by auto
  from g have aff: "after_first_failure (new_calls w w') =
      (if i = 1 then []
       else if i = 2 then [DeleteCall Services sNs sCN]
       else if i = 3 then [DeleteCall Services sNs sCN, DeleteCall Services tNs tCN]
       else [DeleteCall Services sNs sCN, DeleteCall Services tNs tCN,
             DeleteCall Accesses sNs (''access-'' @ sCN)])"
    by simp
  from g have so: "same_others w w'" by simp
  from i aff have aff': "after_first_failure (new_calls w w') =
      take (i - 1) [DeleteCall Services sNs sCN, DeleteCall Services tNs tCN,
                    DeleteCall Accesses sNs (''access-'' @ sCN)]"
    by auto
  show ?thesis
    unfolding compensated_def Let_def ne
    using ff aff' logs(2,3) so by (auto simp: same_others_def)
qed

lemma grant_steps_events:
  assumes told: "\<And>j e v. services (told j e v) = services v \<and> accesses (told j e v) = accesses v \<and>
                   externalAccesses (told j e v) = externalAccesses v \<and>
                   accessRequests (told j e v) = accessRequests v \<and>
                   calls (told j e v) = calls v \<and> events (told j e v) = events v @ tev j e"
      and mk: "\<And>c. Finalizers (mkSource c) = [] \<and> Namespace (mkSource c) = sNs \<and>
                    Name (mkSource c) = ''access-'' @ sCN"
      and run: "grant_steps sNs sName sCN tNs tName tCN label ports mkSource mkTarget told k w = (r, w')"
  shows "case r of
           None \<Rightarrow> events w' = events w
         | Some (i, err) \<Rightarrow> 1 \<le> i \<and> i \<le> 4 \<and>
             (\<exists>logs. events w' = events w @ tev i err @ logs \<and> list_all is_logger_error logs)"
proof (cases r)
  case None
  from grant_steps_ok [OF run [unfolded None]] show ?thesis using None by auto
next
  case (Some f)
  obtain i err where f: "f = (i, err)" by (cases f)
  from grant_steps_failed [OF told mk run [unfolded Some f]] show ?thesis
    unfolding Some f by auto
qed

lemma told_direct:
  "services (sendError (direct_message j) (Some e) ''Service'' v) = services v \<and>
   accesses (sendError (direct_message j) (Some e) ''Service'' v) = accesses v \<and>
   externalAccesses (sendError (direct_message j) (Some e) ''Service'' v) = externalAccesses v \<and>
   accessRequests (sendError (direct_message j) (Some e) ''Service'' v) = accessRequests v \<and>
   calls (sendError (direct_message j) (Some e) ''Service'' v) = calls v \<and>
   events (sendError (direct_message j) (Some e) ''Service'' v) =
     events v @ [SendError (direct_message j) (Some e) ''Service'']"
  by simp

lemma mk_full_access:
  "Finalizers (full_access p cloneID cn ns d dir c) = [] \<and>
   Namespace (full_access p cloneID cn ns d dir c) = ns \<and>
   Name (full_access p cloneID cn ns d dir c) = ''access-'' @ cn"
  by (simp add: full_access_def new_Access_def)

text \<open>The events of one run of the direct steps: a report and logged errors, or the two successes.\<close>

lemma direct_run_events:
  assumes run: "direct_run E p payload cloneID cname k ports v = Some v'"
  shows "(\<exists>j e logs. 1 \<le> j \<and> j \<le> 4 \<and>
            events v' = events v @ SendError (direct_message j) (Some e) ''Service'' # logs \<and>
            list_all is_logger_error logs \<and>
            grant_steps
                  (service_ns (pl_SourceService payload))
                  (service_name (pl_SourceService payload))
                  (cname (service_name (pl_SourceService payload)) cloneID)
                  (service_ns (pl_TargetService payload))
                  (service_name (pl_TargetService payload))
                  (cname (service_name (pl_TargetService payload)) cloneID)
                  [(request_id_label, cloneID)] ports
                  (full_access p cloneID
                     (cname (service_name (pl_SourceService payload)) cloneID)
                     (service_ns (pl_SourceService payload)) (pl_Duration payload)
                     (fst (full_directions (pl_Direction payload))))
                  (full_access p cloneID
                     (cname (service_name (pl_TargetService payload)) cloneID)
                     (service_ns (pl_TargetService payload)) (pl_Duration payload)
                     (snd (full_directions (pl_Direction payload))))
                  (\<lambda>i err. sendError (direct_message i) (Some err) ''Service'')
                  k v = (Some (j, e), v'))
         \<or> (\<exists>m. events v' = events v @
               [LogAndBroadcast m ''log-success'' ''Service'' ''applyResult'',
                LogAndBroadcast ''--- Request complete ---'' ''log-success'' ''Service'' ''applyComplete''])"
proof -
  let ?steps = "grant_steps
                  (service_ns (pl_SourceService payload))
                  (service_name (pl_SourceService payload))
                  (cname (service_name (pl_SourceService payload)) cloneID)
                  (service_ns (pl_TargetService payload))
                  (service_name (pl_TargetService payload))
                  (cname (service_name (pl_TargetService payload)) cloneID)
                  [(request_id_label, cloneID)] ports
                  (full_access p cloneID
                     (cname (service_name (pl_SourceService payload)) cloneID)
                     (service_ns (pl_SourceService payload)) (pl_Duration payload)
                     (fst (full_directions (pl_Direction payload))))
                  (full_access p cloneID
                     (cname (service_name (pl_TargetService payload)) cloneID)
                     (service_ns (pl_TargetService payload)) (pl_Duration payload)
                     (snd (full_directions (pl_Direction payload))))
                  (\<lambda>i err. sendError (direct_message i) (Some err) ''Service'')
                  k v"
  obtain r w1 where steps: "?steps = (r, w1)" by (cases ?steps)
  note ev = grant_steps_events [where tev = "\<lambda>j e. [SendError (direct_message j) (Some e) ''Service'']",
      OF told_direct mk_full_access steps]
  show ?thesis
  proof (cases r)
    case None
    with ev have e1: "events w1 = events v" by simp
    from run steps None obtain m where "events v' = events w1 @
        [LogAndBroadcast m ''log-success'' ''Service'' ''applyResult'',
         LogAndBroadcast ''--- Request complete ---'' ''log-success'' ''Service'' ''applyComplete'']"
      by (auto simp: direct_run_def split: option.splits)
    with e1 show ?thesis by auto
  next
    case (Some f)
    obtain j e where f: "f = (j, e)" by (cases f)
    from run steps Some have eq: "w1 = v'" by (auto simp: direct_run_def split: option.splits)
    from ev Some f eq obtain logs where
      "1 \<le> j" "j \<le> 4" "events v' = events v @ [SendError (direct_message j) (Some e) ''Service''] @ logs"
      "list_all is_logger_error logs"
      by auto
    with steps Some f eq show ?thesis by auto
  qed
qed

lemma direct_run_compensated:
  assumes run: "direct_run E p payload cloneID cname k ports v = Some v'"
      and sent: "SendError (direct_message i) (Some err) ''Service'' \<in> set (new_events v v')"
      and late: "2 \<le> i" "i \<le> 4"
  shows "compensated (service_ns (pl_SourceService payload))
           (cname (service_name (pl_SourceService payload)) cloneID)
           (service_ns (pl_TargetService payload))
           (cname (service_name (pl_TargetService payload)) cloneID)
           cloneID v v' i err [SendError (direct_message i) (Some err) ''Service'']"
proof -
  from direct_run_events [OF run] show ?thesis
  proof (elim disjE exE conjE)
    fix m assume "events v' = events v @
               [LogAndBroadcast m ''log-success'' ''Service'' ''applyResult'',
                LogAndBroadcast ''--- Request complete ---'' ''log-success'' ''Service'' ''applyComplete'']"
    with sent show ?thesis by simp
  next
    fix j e logs
    assume j: "1 \<le> j" "j \<le> 4"
      and ne: "events v' = events v @ SendError (direct_message j) (Some e) ''Service'' # logs"
      and logs: "list_all is_logger_error logs"
      and steps: "grant_steps
                  (service_ns (pl_SourceService payload))
                  (service_name (pl_SourceService payload))
                  (cname (service_name (pl_SourceService payload)) cloneID)
                  (service_ns (pl_TargetService payload))
                  (service_name (pl_TargetService payload))
                  (cname (service_name (pl_TargetService payload)) cloneID)
                  [(request_id_label, cloneID)] ports
                  (full_access p cloneID
                     (cname (service_name (pl_SourceService payload)) cloneID)
                     (service_ns (pl_SourceService payload)) (pl_Duration payload)
                     (fst (full_directions (pl_Direction payload))))
                  (full_access p cloneID
                     (cname (service_name (pl_TargetService payload)) cloneID)
                     (service_ns (pl_TargetService payload)) (pl_Duration payload)
                     (snd (full_directions (pl_Direction payload))))
                  (\<lambda>i err. sendError (direct_message i) (Some err) ''Service'')
                  k v = (Some (j, e), v')"
    from sent ne SendError_in_logs [OF logs]
    have "direct_message i = direct_message j" "err = e" by auto
    with late j have ij: "i = j" "err = e" by (auto dest: direct_message_inj)
    from grant_steps_compensated [where tev = "\<lambda>j e. [SendError (direct_message j) (Some e) ''Service'']",
        OF told_direct mk_full_access steps [folded ij]] late
    show ?thesis by simp
  qed
qed

lemma getOverridePorts_events:
  "run = (case getOverridePorts E ports of
            Inl err \<Rightarrow> Some (sendError ''Invalid port override'' (Some err) ''Service'' v)
          | Inr overridePorts \<Rightarrow> rest overridePorts) \<Longrightarrow> run = Some v' \<Longrightarrow>
   (\<exists>e. events v' = events v @ [SendError ''Invalid port override'' e ''Service'']) \<or>
   (\<exists>overridePorts. rest overridePorts = Some v')"
  by (auto split: sum.splits)

lemma direct_run_extends:
  "direct_run E p payload cloneID cname k ports v = Some v' \<Longrightarrow> \<exists>evs. events v' = events v @ evs"
  by (drule direct_run_events) auto

lemma own_run_extends:
  "own_run E p payload cloneID v = Some v' \<Longrightarrow> \<exists>evs. events v' = events v @ evs"
  by (auto simp: own_run_def split: sum.splits dest: direct_run_extends)

lemma createClusterAccess_extends:
  "createClusterAccess E p payload cloneID v = Some v' \<Longrightarrow> \<exists>evs. events v' = events v @ evs"
  by (auto simp: createClusterAccess_run split: sum.splits if_splits dest: direct_run_extends)

lemma own_run_compensated:
  assumes run: "own_run E p payload cloneID v = Some v'"
      and sent: "SendError (direct_message i) (Some err) ''Service'' \<in> set (new_events v v')"
      and late: "2 \<le> i" "i \<le> 4"
  shows "compensated (service_ns (pl_SourceService payload))
           (own_clone_name (service_name (pl_SourceService payload)) cloneID)
           (service_ns (pl_TargetService payload))
           (own_clone_name (service_name (pl_TargetService payload)) cloneID)
           cloneID v v' i err [SendError (direct_message i) (Some err) ''Service'']"
proof (cases "getOverridePorts E (pl_Ports payload)")
  case (Inl perr)
  with run have "new_events v v' = [SendError ''Invalid port override'' (Some perr) ''Service'']"
    by (auto simp: own_run_def)
  with sent late show ?thesis by (auto simp: direct_message_def split: if_splits)
next
  case (Inr ports)
  with run have "direct_run E p payload cloneID own_clone_name own_cleanup_message ports v = Some v'"
    by (simp add: own_run_def)
  from direct_run_compensated [OF this sent late] show ?thesis .
qed

lemma createClusterAccess_compensated:
  assumes run: "createClusterAccess E p payload cloneID v = Some v'"
      and sent: "SendError (direct_message i) (Some err) ''Service'' \<in> set (new_events v v')"
      and late: "2 \<le> i" "i \<le> 4"
  shows "compensated (service_ns (pl_SourceService payload))
           (clone_name E (service_name (pl_SourceService payload)) cloneID)
           (service_ns (pl_TargetService payload))
           (clone_name E (service_name (pl_TargetService payload)) cloneID)
           cloneID v v' i err [SendError (direct_message i) (Some err) ''Service'']"
proof (cases "getOverridePorts E (pl_Ports payload)")
  case (Inl perr)
  with run have "new_events v v' = [SendError ''Invalid port override'' (Some perr) ''Service'']"
    by (auto simp: createClusterAccess_run)
  with sent late show ?thesis by (auto simp: direct_message_def split: if_splits)
next
  case (Inr ports)
  show ?thesis
  proof (cases "length (Split (pl_SourceService payload) CHR ''/'') \<noteq> 2 \<or>
                length (Split (pl_TargetService payload) CHR ''/'') \<noteq> 2")
    case True
    with run Inr have "\<exists>e. new_events v v' = [SendError ''Invalid service format'' e ''Service'']"
      by (auto simp: createClusterAccess_run)
    with sent late show ?thesis by (auto simp: direct_message_def split: if_splits)
  next
    case False
    with run Inr have "direct_run E p payload cloneID (clone_name E) direct_cleanup_message ports v = Some v'"
      by (simp add: createClusterAccess_run)
    from direct_run_compensated [OF this sent late] show ?thesis .
  qed
qed

lemma GetImpersonatingKubeClient_ok:
  "GetImpersonatingKubeClient t w = (None, w0) \<Longrightarrow>
     events w0 = events w \<and> calls w0 = calls w @ [(NewClientCall, None)] \<and>
     services w0 = services w \<and> accesses w0 = accesses w \<and>
     externalAccesses w0 = externalAccesses w \<and> accessRequests w0 = accessRequests w"
  by (auto simp: GetImpersonatingKubeClient_def as_error_def invoke_head
      split: option.splits sum.splits prod.splits)

lemma GetImpersonatingKubeClient_failed:
  "GetImpersonatingKubeClient t w = (Some e, w0) \<Longrightarrow> events w0 = events w"
  by (auto simp: GetImpersonatingKubeClient_def as_error_def invoke_head
      split: option.splits sum.splits prod.splits)

text \<open>A late report of the handler comes from one of the two runs of the steps.\<close>

lemma handleRequestClusterAccess_reached:
  assumes run: "handleRequestClusterAccess E p payload cloneID1 cloneID w = Some w'"
      and sent: "SendError (direct_message i) (Some err) ''Service'' \<in> set (new_events w w')"
      and late: "2 \<le> i" "i \<le> 4"
  shows "\<exists>w0 wa. GetImpersonatingKubeClient (idToken p) w = (None, w0) \<and>
           createClusterAccess E p payload cloneID1 w0 = Some wa \<and>
           own_run E p payload cloneID wa = Some w'"
proof -
  have early: "new_events w w' = [SendError m e ''Service''] \<Longrightarrow>
      m \<in> {''Invalid service format'', ''Could not verify permissions for creating access'',
             ''Permission denied. You lack the necessary permissions to create this access directly. Please use '' @
               [CHR 0x27] @ ''Submit for Review'' @ [CHR 0x27] @ '' instead.'',
             ''Could not create user-impersonating client''} \<Longrightarrow> False" for m e
    using sent late by (auto simp: direct_message_def split: if_splits)
  show ?thesis
  proof (rule ccontr)
    assume no: "\<not> ?thesis"
    with run have "\<exists>m e. new_events w w' = [SendError m e ''Service''] \<and>
      m \<in> {''Invalid service format'', ''Could not verify permissions for creating access'',
             ''Permission denied. You lack the necessary permissions to create this access directly. Please use '' @
               [CHR 0x27] @ ''Submit for Review'' @ [CHR 0x27] @ '' instead.'',
             ''Could not create user-impersonating client''}"
      unfolding handleRequestClusterAccess_runs
      by (auto split: if_splits prod.splits option.splits dest: GetImpersonatingKubeClient_failed)
    with early show False by blast
  qed
qed

lemma parse_ports_error: "parse_ports E ps = Inl e \<Longrightarrow> \<exists>m. e = ErrorNew m"
  by (induction ps arbitrary: e) (auto simp: Let_def split: if_splits option.splits sum.splits)

lemma getOverridePorts_error: "getOverridePorts E s = Inl e \<Longrightarrow> \<exists>m. e = ErrorNew m"
  by (auto simp: getOverridePorts_def split: if_splits dest: parse_ports_error)

lemma approveFullRequest_service:
  assumes "RequestType request = ''Service''"
      and "Split (SourceService request) CHR ''/'' = sNs # sN # srest"
      and "Split (TargetService request) CHR ''/'' = tNs # tN # trest"
  shows "approveFullRequest E p request w =
     (case slice_to 8 (EncodeToString (RequestID request)) of
        None \<Rightarrow> None
      | Some randSuffix \<Rightarrow>
          (case getOverridePorts E (Ports request) of
             Inl err \<Rightarrow> Some (Some err, w)
           | Inr overridePorts \<Rightarrow>
               (case grant_steps sNs sN (clone_name E sN (RequestID request))
                       tNs tN (clone_name E tN (RequestID request))
                       [(request_id_label, RequestID request)] overridePorts
                       (full_access p (RequestID request) (clone_name E sN (RequestID request)) sNs
                          (Duration request) (fst (full_directions (Direction request))))
                       (full_access p (RequestID request) (clone_name E tN (RequestID request)) tNs
                          (Duration request) (snd (full_directions (Direction request))))
                       (\<lambda>i err w. w) approve_cleanup_message w of
                  (Some (i, err), w') \<Rightarrow> Some (Some (Errorf (approve_message i) err), w')
                | (None, w4) \<Rightarrow> Some (None, w4))))"
  by (simp add: approveFullRequest_def assms grant_steps_def Let_def clone_name_def slice_to_def
        full_access_def duration_string_def approve_message_def approve_cleanup_message_def
      split: sum.splits prod.splits option.splits)

lemma approveFullRequest_defined:
  assumes "RequestType request = ''Service''" "approveFullRequest E p request w = Some x"
  shows "\<exists>sNs sN srest tNs tN trest.
           Split (SourceService request) CHR ''/'' = sNs # sN # srest \<and>
           Split (TargetService request) CHR ''/'' = tNs # tN # trest"
proof (rule ccontr)
  assume "\<not> ?thesis"
  then have "approveFullRequest E p request w = None"
    using assms(1) by (auto simp: approveFullRequest_def split: list.splits)
  with assms(2) show False by simp
qed

lemma approveFullRequest_compensated:
  assumes run: "approveFullRequest E p request v = Some (Some (Errorf (approve_message i) err), v')"
      and service: "RequestType request = ''Service''"
      and late: "2 \<le> i" "i \<le> 4"
  shows "compensated (service_ns (SourceService request))
           (clone_name E (service_name (SourceService request)) (RequestID request))
           (service_ns (TargetService request))
           (clone_name E (service_name (TargetService request)) (RequestID request))
           (RequestID request) v v' i err []"
proof -
  from approveFullRequest_defined [OF service run] obtain sNs sN srest tNs tN trest where
    parts: "Split (SourceService request) CHR ''/'' = sNs # sN # srest"
           "Split (TargetService request) CHR ''/'' = tNs # tN # trest"
    by blast
  then have names: "service_ns (SourceService request) = sNs" "service_name (SourceService request) = sN"
    "service_ns (TargetService request) = tNs" "service_name (TargetService request) = tN"
    by (simp_all add: service_ns_def service_name_def)
  note eq = approveFullRequest_service [OF service parts, of E p v]
  let ?steps = "grant_steps sNs sN (clone_name E sN (RequestID request))
                       tNs tN (clone_name E tN (RequestID request))
                       [(request_id_label, RequestID request)]"
  from run [unfolded eq] obtain ports j e where
    steps: "?steps ports
              (full_access p (RequestID request) (clone_name E sN (RequestID request)) sNs
                 (Duration request) (fst (full_directions (Direction request))))
              (full_access p (RequestID request) (clone_name E tN (RequestID request)) tNs
                 (Duration request) (snd (full_directions (Direction request))))
              (\<lambda>i err w. w) approve_cleanup_message v = (Some (j, e), v')"
    and res: "approve_message i = approve_message j" "err = e"
    by (auto split: option.splits sum.splits prod.splits dest: getOverridePorts_error)
  have told: "\<And>j e v. services v = services v \<and> accesses v = accesses v \<and>
                   externalAccesses v = externalAccesses v \<and> accessRequests v = accessRequests v \<and>
                   calls v = calls v \<and> events v = events v @ []"
    by simp
  from grant_steps_failed [where tev = "\<lambda>j e. []" and told = "\<lambda>i err w. w", OF told mk_full_access steps]
  have j: "1 \<le> j" "j \<le> 4" by auto
  with res late have ij: "i = j" by (auto dest: approve_message_inj)
  from grant_steps_compensated [where tev = "\<lambda>j e. []" and told = "\<lambda>i err w. w",
      OF told mk_full_access steps [folded ij res(2)] late(1)]
  show ?thesis unfolding names .
qed

lemma CloneService_calls: "CloneService ns n nn l ps w = (r, w1) \<Longrightarrow> \<exists>cs. calls w1 = calls w @ cs"
proof (cases r)
  case (Inl e)
  assume "CloneService ns n nn l ps w = (r, w1)"
  from CloneService_fail [OF this [unfolded Inl]] show ?thesis by (auto simp: run_failed_def)
next
  case (Inr c)
  assume "CloneService ns n nn l ps w = (r, w1)"
  from CloneService_ok [OF this [unfolded Inr]] show ?thesis by (auto simp: run_ok_def)
qed

lemma CreateAccess_calls: "CreateAccess a w = (r, w1) \<Longrightarrow> \<exists>cs. calls w1 = calls w @ cs"
proof (cases r)
  case (Some e)
  assume "CreateAccess a w = (r, w1)"
  from CreateAccess_fail [OF this [unfolded Some]] show ?thesis by (auto simp: run_failed_def)
next
  case None
  assume "CreateAccess a w = (r, w1)"
  from CreateAccess_ok [OF this [unfolded None]] show ?thesis by (auto simp: run_ok_def)
qed

lemma grant_steps_calls:
  assumes told: "\<And>j e v. calls (told j e v) = calls v"
      and run: "grant_steps sNs sName sCN tNs tName tCN label ports mkSource mkTarget told k w = (r, w')"
  shows "\<exists>cs. calls w' = calls w @ cs"
proof -
  obtain r1 w1 where c1: "CloneService sNs sName sCN label ports w = (r1, w1)"
    by (cases "CloneService sNs sName sCN label ports w")
  from CloneService_calls [OF c1] obtain cs1 where cs1: "calls w1 = calls w @ cs1" by blast
  show ?thesis
  proof (cases r1)
    case (Inl e)
    with run c1 cs1 told show ?thesis by (auto simp: grant_steps_def)
  next
    case (Inr s1)
    obtain r2 w2 where c2: "CloneService tNs tName tCN label ports w1 = (r2, w2)"
      by (cases "CloneService tNs tName tCN label ports w1")
    from CloneService_calls [OF c2] obtain cs2 where cs2: "calls w2 = calls w1 @ cs2" by blast
    show ?thesis
    proof (cases r2)
      case (Inl e)
      with run c1 Inr c2 cs1 cs2 told show ?thesis by (auto simp: grant_steps_def)
    next
      case I2: (Inr s2)
      obtain r3 w3 where c3: "CreateAccess (mkSource s2) w2 = (r3, w3)"
        by (cases "CreateAccess (mkSource s2) w2")
      from CreateAccess_calls [OF c3] obtain cs3 where cs3: "calls w3 = calls w2 @ cs3" by blast
      show ?thesis
      proof (cases r3)
        case (Some e)
        with run c1 Inr c2 I2 c3 cs1 cs2 cs3 told show ?thesis by (auto simp: grant_steps_def)
      next
        case None
        obtain r4 w4 where c4: "CreateAccess (mkTarget s1) w3 = (r4, w4)"
          by (cases "CreateAccess (mkTarget s1) w3")
        from CreateAccess_calls [OF c4] obtain cs4 where cs4: "calls w4 = calls w3 @ cs4" by blast
        from run c1 Inr c2 I2 c3 None c4 cs1 cs2 cs3 cs4 told show ?thesis
          by (cases r4) (auto simp: grant_steps_def)
      qed
    qed
  qed
qed

lemma direct_run_calls:
  "direct_run E p payload cloneID cname k ports v = Some v' \<Longrightarrow> \<exists>cs. calls v' = calls v @ cs"
proof -
  assume run: "direct_run E p payload cloneID cname k ports v = Some v'"
  let ?steps = "grant_steps
                  (service_ns (pl_SourceService payload))
                  (service_name (pl_SourceService payload))
                  (cname (service_name (pl_SourceService payload)) cloneID)
                  (service_ns (pl_TargetService payload))
                  (service_name (pl_TargetService payload))
                  (cname (service_name (pl_TargetService payload)) cloneID)
                  [(request_id_label, cloneID)] ports
                  (full_access p cloneID
                     (cname (service_name (pl_SourceService payload)) cloneID)
                     (service_ns (pl_SourceService payload)) (pl_Duration payload)
                     (fst (full_directions (pl_Direction payload))))
                  (full_access p cloneID
                     (cname (service_name (pl_TargetService payload)) cloneID)
                     (service_ns (pl_TargetService payload)) (pl_Duration payload)
                     (snd (full_directions (pl_Direction payload))))
                  (\<lambda>i err. sendError (direct_message i) (Some err) ''Service'')
                  k v"
  obtain r w1 where steps: "?steps = (r, w1)" by (cases ?steps)
  have "\<exists>cs. calls w1 = calls v @ cs"
    by (rule grant_steps_calls [OF _ steps]) simp
  moreover from run steps have "calls v' = calls w1"
    by (auto simp: direct_run_def split: option.splits)
  ultimately show ?thesis by simp
qed

lemma own_run_calls:
  "own_run E p payload cloneID v = Some v' \<Longrightarrow> \<exists>cs. calls v' = calls v @ cs"
  by (auto simp: own_run_def split: sum.splits dest: direct_run_calls)

lemma createClusterAccess_calls:
  "createClusterAccess E p payload cloneID v = Some v' \<Longrightarrow> \<exists>cs. calls v' = calls v @ cs"
  by (auto simp: createClusterAccess_run split: sum.splits if_splits dest: direct_run_calls)

text \<open>
  C1 (amended). Every run of the steps of a full grant that fails after its first clone
  was created is compensated: the error it reports (sent to the user by the direct
  creation, returned by the approval) is that of the first call that failed, never that of
  a compensating delete; every compensating delete is attempted, in order, whatever the
  others return (target-clone failure: the source clone; source-side Access failure: both
  clones; target-side Access failure: both clones and the source Access), and one that
  fails is logged; and when none fails the services and the Accesses are as the run found
  them, so that nothing of the run remains under its correlation id. This holds of
  \<open>createClusterAccess\<close>; of the operation \<open>handleRequestClusterAccess\<close>, each of whose
  late reports belongs to the run of \<open>createClusterAccess\<close> that it starts or to what its
  own body does after that run, compensated in either case; and of \<open>approveFullRequest\<close>
  on a service request.
\<close>

theorem full_grant_rollback:
  "(createClusterAccess E p payload cloneID v = Some v' \<and>
    SendError (direct_message i) (Some err) ''Service'' \<in> set (new_events v v') \<and> 2 \<le> i \<and> i \<le> 4 \<longrightarrow>
      compensated (service_ns (pl_SourceService payload))
        (clone_name E (service_name (pl_SourceService payload)) cloneID)
        (service_ns (pl_TargetService payload))
        (clone_name E (service_name (pl_TargetService payload)) cloneID)
        cloneID v v' i err [SendError (direct_message i) (Some err) ''Service''])
   \<and> (handleRequestClusterAccess E p payload helperID ownID w = Some w' \<and>
      SendError (direct_message i) (Some err) ''Service'' \<in> set (new_events w w') \<and> 2 \<le> i \<and> i \<le> 4 \<longrightarrow>
      (\<exists>w0 wa.
         GetImpersonatingKubeClient (idToken p) w = (None, w0) \<and>
         createClusterAccess E p payload helperID w0 = Some wa \<and>
         new_events w w' = new_events w0 wa @ new_events wa w' \<and>
         new_calls w w' = (NewClientCall, None) # new_calls w0 wa @ new_calls wa w' \<and>
         (SendError (direct_message i) (Some err) ''Service'' \<in> set (new_events w0 wa) \<longrightarrow>
            compensated (service_ns (pl_SourceService payload))
              (clone_name E (service_name (pl_SourceService payload)) helperID)
              (service_ns (pl_TargetService payload))
              (clone_name E (service_name (pl_TargetService payload)) helperID)
              helperID w0 wa i err [SendError (direct_message i) (Some err) ''Service'']) \<and>
         (SendError (direct_message i) (Some err) ''Service'' \<in> set (new_events wa w') \<longrightarrow>
            compensated (service_ns (pl_SourceService payload))
              (own_clone_name (service_name (pl_SourceService payload)) ownID)
              (service_ns (pl_TargetService payload))
              (own_clone_name (service_name (pl_TargetService payload)) ownID)
              ownID wa w' i err [SendError (direct_message i) (Some err) ''Service''])))
   \<and> (approveFullRequest E p request v = Some (Some (Errorf (approve_message i) err), v') \<and>
      RequestType request = ''Service'' \<and> 2 \<le> i \<and> i \<le> 4 \<longrightarrow>
      compensated (service_ns (SourceService request))
        (clone_name E (service_name (SourceService request)) (RequestID request))
        (service_ns (TargetService request))
        (clone_name E (service_name (TargetService request)) (RequestID request))
        (RequestID request) v v' i err [])"
proof (intro conjI impI)
  assume "createClusterAccess E p payload cloneID v = Some v' \<and>
    SendError (direct_message i) (Some err) ''Service'' \<in> set (new_events v v') \<and> 2 \<le> i \<and> i \<le> 4"
  then show "compensated (service_ns (pl_SourceService payload))
        (clone_name E (service_name (pl_SourceService payload)) cloneID)
        (service_ns (pl_TargetService payload))
        (clone_name E (service_name (pl_TargetService payload)) cloneID)
        cloneID v v' i err [SendError (direct_message i) (Some err) ''Service'']"
    using createClusterAccess_compensated [of E p payload cloneID v v' i err] by blast
next
  assume "approveFullRequest E p request v = Some (Some (Errorf (approve_message i) err), v') \<and>
      RequestType request = ''Service'' \<and> 2 \<le> i \<and> i \<le> 4"
  then show "compensated (service_ns (SourceService request))
        (clone_name E (service_name (SourceService request)) (RequestID request))
        (service_ns (TargetService request))
        (clone_name E (service_name (TargetService request)) (RequestID request))
        (RequestID request) v v' i err []"
    using approveFullRequest_compensated [of E p request v i err v'] by blast
next
  assume a: "handleRequestClusterAccess E p payload helperID ownID w = Some w' \<and>
      SendError (direct_message i) (Some err) ''Service'' \<in> set (new_events w w') \<and> 2 \<le> i \<and> i \<le> 4"
  then have run: "handleRequestClusterAccess E p payload helperID ownID w = Some w'"
    and sent: "SendError (direct_message i) (Some err) ''Service'' \<in> set (new_events w w')"
    and late: "2 \<le> i" "i \<le> 4"
    by simp_all
  from handleRequestClusterAccess_reached [OF run sent late] obtain w0 wa where
    r: "GetImpersonatingKubeClient (idToken p) w = (None, w0)"
       "createClusterAccess E p payload helperID w0 = Some wa"
       "own_run E p payload ownID wa = Some w'"
    by blast
  from GetImpersonatingKubeClient_ok [OF r(1)] have
    w0: "events w0 = events w" "calls w0 = calls w @ [(NewClientCall, None)]" by simp_all
  from createClusterAccess_extends [OF r(2)] obtain evs1 where evs1: "events wa = events w0 @ evs1" by blast
  from own_run_extends [OF r(3)] obtain evs2 where evs2: "events w' = events wa @ evs2" by blast
  from createClusterAccess_calls [OF r(2)] obtain cs1 where cs1: "calls wa = calls w0 @ cs1" by blast
  from own_run_calls [OF r(3)] obtain cs2 where cs2: "calls w' = calls wa @ cs2" by blast
  have ev: "new_events w w' = new_events w0 wa @ new_events wa w'"
    using w0 evs1 evs2 by (simp add: new_events_def)
  have cl: "new_calls w w' = (NewClientCall, None) # new_calls w0 wa @ new_calls wa w'"
    using w0 cs1 cs2 by (simp add: new_calls_def)
  have h: "SendError (direct_message i) (Some err) ''Service'' \<in> set (new_events w0 wa) \<longrightarrow>
            compensated (service_ns (pl_SourceService payload))
              (clone_name E (service_name (pl_SourceService payload)) helperID)
              (service_ns (pl_TargetService payload))
              (clone_name E (service_name (pl_TargetService payload)) helperID)
              helperID w0 wa i err [SendError (direct_message i) (Some err) ''Service'']"
    using createClusterAccess_compensated [OF r(2) _ late] by blast
  have o: "SendError (direct_message i) (Some err) ''Service'' \<in> set (new_events wa w') \<longrightarrow>
            compensated (service_ns (pl_SourceService payload))
              (own_clone_name (service_name (pl_SourceService payload)) ownID)
              (service_ns (pl_TargetService payload))
              (own_clone_name (service_name (pl_TargetService payload)) ownID)
              ownID wa w' i err [SendError (direct_message i) (Some err) ''Service'']"
    using own_run_compensated [OF r(3) _ late] by blast
  show "\<exists>w0 wa.
         GetImpersonatingKubeClient (idToken p) w = (None, w0) \<and>
         createClusterAccess E p payload helperID w0 = Some wa \<and>
         new_events w w' = new_events w0 wa @ new_events wa w' \<and>
         new_calls w w' = (NewClientCall, None) # new_calls w0 wa @ new_calls wa w' \<and>
         (SendError (direct_message i) (Some err) ''Service'' \<in> set (new_events w0 wa) \<longrightarrow>
            compensated (service_ns (pl_SourceService payload))
              (clone_name E (service_name (pl_SourceService payload)) helperID)
              (service_ns (pl_TargetService payload))
              (clone_name E (service_name (pl_TargetService payload)) helperID)
              helperID w0 wa i err [SendError (direct_message i) (Some err) ''Service'']) \<and>
         (SendError (direct_message i) (Some err) ''Service'' \<in> set (new_events wa w') \<longrightarrow>
            compensated (service_ns (pl_SourceService payload))
              (own_clone_name (service_name (pl_SourceService payload)) ownID)
              (service_ns (pl_TargetService payload))
              (own_clone_name (service_name (pl_TargetService payload)) ownID)
              ownID wa w' i err [SendError (direct_message i) (Some err) ''Service''])"
    apply (rule exI [of _ w0], rule exI [of _ wa])
    using r(1,2) ev cl h o by (intro conjI)
qed

theorem full_grant_rollback_witness:
  "handleRequestClusterAccess (example_env allow_all) alice (example_payload ''ingress'')
       ''1111-aaaa'' ''2222-bbbb'' twice_refused = Some twice_refused_end
   \<and> new_events twice_refused twice_refused_end =
       [SendError (direct_message 2)
          (Some (Errorf (''could not create service clone team-b/'' @
                    clone_name (example_env allow_all) ''svc2'' ''1111-aaaa'' @ '': '')
                  (ApiError (Failure ''forbidden''))))
          ''Service'',
        SendError (direct_message 3) (Some (ApiError (Failure ''quota''))) ''Service'']
   \<and> compensated ''team-a'' (clone_name (example_env allow_all) ''svc1'' ''1111-aaaa'')
         ''team-b'' (clone_name (example_env allow_all) ''svc2'' ''1111-aaaa'') ''1111-aaaa''
         twice_refused_client twice_refused_helper 2
         (Errorf (''could not create service clone team-b/'' @
                    clone_name (example_env allow_all) ''svc2'' ''1111-aaaa'' @ '': '')
                  (ApiError (Failure ''forbidden'')))
         [SendError (direct_message 2)
            (Some (Errorf (''could not create service clone team-b/'' @
                      clone_name (example_env allow_all) ''svc2'' ''1111-aaaa'' @ '': '')
                    (ApiError (Failure ''forbidden''))))
            ''Service'']
   \<and> compensated ''team-a'' (own_clone_name ''svc1'' ''2222-bbbb'')
         ''team-b'' (own_clone_name ''svc2'' ''2222-bbbb'') ''2222-bbbb''
         twice_refused_helper twice_refused_end 3 (ApiError (Failure ''quota''))
         [SendError (direct_message 3) (Some (ApiError (Failure ''quota''))) ''Service'']
   \<and> map fst (new_calls twice_refused twice_refused_end) =
       [NewClientCall,
        GetCall Services ''team-a'' ''svc1'',
        CreateCall Services ''team-a'' (clone_name (example_env allow_all) ''svc1'' ''1111-aaaa''),
        GetCall Services ''team-b'' ''svc2'',
        CreateCall Services ''team-b'' (clone_name (example_env allow_all) ''svc2'' ''1111-aaaa''),
        DeleteCall Services ''team-a'' (clone_name (example_env allow_all) ''svc1'' ''1111-aaaa''),
        GetCall Services ''team-a'' ''svc1'',
        CreateCall Services ''team-a'' (own_clone_name ''svc1'' ''2222-bbbb''),
        GetCall Services ''team-b'' ''svc2'',
        CreateCall Services ''team-b'' (own_clone_name ''svc2'' ''2222-bbbb''),
        CreateCall Accesses ''team-a'' (''access-'' @ own_clone_name ''svc1'' ''2222-bbbb''),
        DeleteCall Services ''team-a'' (own_clone_name ''svc1'' ''2222-bbbb''),
        DeleteCall Services ''team-b'' (own_clone_name ''svc2'' ''2222-bbbb'')]
   \<and> services twice_refused_end = services (example_world [])
   \<and> accesses twice_refused_end = []"
proof -
  let ?E = "example_env allow_all"
  let ?pl = "example_payload ''ingress''"
  let ?e1 = "Errorf (''could not create service clone team-b/'' @ clone_name ?E ''svc2'' ''1111-aaaa'' @ '': '')
                  (ApiError (Failure ''forbidden''))"
  let ?e2 = "ApiError (Failure ''quota'')"
  have run: "handleRequestClusterAccess ?E alice ?pl ''1111-aaaa'' ''2222-bbbb'' twice_refused
      = Some twice_refused_end"
    by code_simp
  have ev: "new_events twice_refused twice_refused_end =
      [SendError (direct_message 2) (Some ?e1) ''Service'',
       SendError (direct_message 3) (Some ?e2) ''Service'']"
    by code_simp
  have sent1: "SendError (direct_message 2) (Some ?e1) ''Service'' \<in> set (new_events twice_refused twice_refused_end)"
    and sent2: "SendError (direct_message 3) (Some ?e2) ''Service'' \<in> set (new_events twice_refused twice_refused_end)"
    unfolding ev by simp_all
  have client: "GetImpersonatingKubeClient (idToken alice) twice_refused = (None, twice_refused_client)"
    by code_simp
  have helper: "createClusterAccess ?E alice ?pl ''1111-aaaa'' twice_refused_client = Some twice_refused_helper"
    by code_simp
  have in1: "SendError (direct_message 2) (Some ?e1) ''Service''
      \<in> set (new_events twice_refused_client twice_refused_helper)"
    by code_simp
  have in2: "SendError (direct_message 3) (Some ?e2) ''Service''
      \<in> set (new_events twice_refused_helper twice_refused_end)"
    by code_simp
  have names: "service_ns (pl_SourceService ?pl) = ''team-a''" "service_name (pl_SourceService ?pl) = ''svc1''"
    "service_ns (pl_TargetService ?pl) = ''team-b''" "service_name (pl_TargetService ?pl) = ''svc2''"
    by code_simp+
  have c1: "compensated ''team-a'' (clone_name ?E ''svc1'' ''1111-aaaa'')
         ''team-b'' (clone_name ?E ''svc2'' ''1111-aaaa'') ''1111-aaaa''
         twice_refused_client twice_refused_helper 2 ?e1
         [SendError (direct_message 2) (Some ?e1) ''Service'']"
    using full_grant_rollback [where E = ?E and p = alice and payload = ?pl
        and helperID = "''1111-aaaa''" and ownID = "''2222-bbbb''" and w = twice_refused
        and w' = twice_refused_end and i = 2 and err = ?e1, THEN conjunct2, THEN conjunct1]
      run sent1 client helper in1
    unfolding names by auto
  have c2: "compensated ''team-a'' (own_clone_name ''svc1'' ''2222-bbbb'')
         ''team-b'' (own_clone_name ''svc2'' ''2222-bbbb'') ''2222-bbbb''
         twice_refused_helper twice_refused_end 3 ?e2
         [SendError (direct_message 3) (Some ?e2) ''Service'']"
    using full_grant_rollback [where E = ?E and p = alice and payload = ?pl
        and helperID = "''1111-aaaa''" and ownID = "''2222-bbbb''" and w = twice_refused
        and w' = twice_refused_end and i = 3 and err = ?e2, THEN conjunct2, THEN conjunct1]
      run sent2 client helper in2
    unfolding names by auto
  have calls: "map fst (new_calls twice_refused twice_refused_end) =
       [NewClientCall,
        GetCall Services ''team-a'' ''svc1'',
        CreateCall Services ''team-a'' (clone_name ?E ''svc1'' ''1111-aaaa''),
        GetCall Services ''team-b'' ''svc2'',
        CreateCall Services ''team-b'' (clone_name ?E ''svc2'' ''1111-aaaa''),
        DeleteCall Services ''team-a'' (clone_name ?E ''svc1'' ''1111-aaaa''),
        GetCall Services ''team-a'' ''svc1'',
        CreateCall Services ''team-a'' (own_clone_name ''svc1'' ''2222-bbbb''),
        GetCall Services ''team-b'' ''svc2'',
        CreateCall Services ''team-b'' (own_clone_name ''svc2'' ''2222-bbbb''),
        CreateCall Accesses ''team-a'' (''access-'' @ own_clone_name ''svc1'' ''2222-bbbb''),
        DeleteCall Services ''team-a'' (own_clone_name ''svc1'' ''2222-bbbb''),
        DeleteCall Services ''team-b'' (own_clone_name ''svc2'' ''2222-bbbb'')]"
    by code_simp
  have stores: "services twice_refused_end = services (example_world [])" "accesses twice_refused_end = []"
    by code_simp+
  from run ev c1 c2 calls stores show ?thesis by blast
qed

text \<open>
  The sentence of C1 as it stands fails when a compensating delete fails too: in this run
  of \<open>handleRequestClusterAccess\<close> the target clone is refused, the delete of the source
  clone is refused as well, the original failure is what is sent, and the source clone
  stays under the correlation id.
\<close>

theorem full_grant_rollback_refused:
  "handleRequestClusterAccess (example_env allow_all) alice (example_payload ''ingress'')
       ''1111-aaaa'' ''2222-bbbb''
       (example_world [None, None, None, None, Some ''forbidden'', Some ''unavailable'',
                       Some ''forbidden'']) = Some rollback_refused
   \<and> events rollback_refused =
       [SendError ''Could not clone target service (check your permissions)''
         (Some (Errorf (''could not create service clone team-b/'' @
                   clone_name (example_env allow_all) ''svc2'' ''1111-aaaa'' @ '': '')
                 (ApiError (Failure ''forbidden''))))
         ''Service'',
        LoggerError ''Failed to cleanup partial service clone on approval''
         (Some (ApiError (Failure ''unavailable''))),
        SendError ''Could not clone source service (check your permissions)''
         (Some (Errorf ''could not get original service team-a/svc1: '' (ApiError (Failure ''forbidden''))))
         ''Service'']
   \<and> calls rollback_refused =
       [(NewClientCall, None),
        (GetCall Services ''team-a'' ''svc1'', None),
        (CreateCall Services ''team-a'' (clone_name (example_env allow_all) ''svc1'' ''1111-aaaa''), None),
        (GetCall Services ''team-b'' ''svc2'', None),
        (CreateCall Services ''team-b'' (clone_name (example_env allow_all) ''svc2'' ''1111-aaaa''),
         Some (Failure ''forbidden'')),
        (DeleteCall Services ''team-a'' (clone_name (example_env allow_all) ''svc1'' ''1111-aaaa''),
         Some (Failure ''unavailable'')),
        (GetCall Services ''team-a'' ''svc1'', Some (Failure ''forbidden''))]
   \<and> map Name (filter (has_request_id ''1111-aaaa'') (services rollback_refused)) =
       [clone_name (example_env allow_all) ''svc1'' ''1111-aaaa'']
   \<and> count_request_id ''1111-aaaa'' (services rollback_refused) = 1"
  by code_simp

subsection \<open>Finalizer cleanup\<close>

lemma delete_one:
  "\<exists>out. calls (snd (client_Delete_Service ns n w)) = calls w @ [(DeleteCall Services ns n, out)] \<and>
     accesses (snd (client_Delete_Service ns n w)) = accesses w \<and>
     externalAccesses (snd (client_Delete_Service ns n w)) = externalAccesses w \<and>
     accessRequests (snd (client_Delete_Service ns n w)) = accessRequests w \<and>
     events (snd (client_Delete_Service ns n w)) = events w \<and>
     faults (snd (client_Delete_Service ns n w)) = tl (faults w) \<and>
     (out \<noteq> None \<longrightarrow> services (snd (client_Delete_Service ns n w)) = services w)"
  by (simp add: client_Delete_Service_def invoke_head split: option.splits sum.splits)

lemma delete_clones_effect:
  "\<exists>outs logs. length outs = length cs \<and>
     calls (delete_clones cs w) = calls w @ zip (map delete_call cs) outs \<and>
     accesses (delete_clones cs w) = accesses w \<and>
     externalAccesses (delete_clones cs w) = externalAccesses w \<and>
     accessRequests (delete_clones cs w) = accessRequests w \<and>
     events (delete_clones cs w) = events w @ logs \<and> list_all is_logger_error logs \<and>
     faults (delete_clones cs w) = drop (length cs) (faults w) \<and>
     ((\<forall>out\<in>set outs. out \<noteq> None) \<longrightarrow> services (delete_clones cs w) = services w)"
proof (induction cs arbitrary: w)
  case Nil
  show ?case by simp
next
  case (Cons s cs)
  let ?r = "client_Delete_Service (Namespace s) (Name s) w"
  let ?w1 = "case ?r of
          (Inl err, w1) \<Rightarrow>
            if \<not> IsNotFound (ApiError err)
            then emit (LoggerError ''failed to delete service clone'' (Some (ApiError err))) w1
            else w1
        | (Inr x, w1) \<Rightarrow> w1"
  from delete_one [of "Namespace s" "Name s" w] obtain out where
    one: "calls (snd ?r) = calls w @ [(delete_call s, out)]"
      "accesses (snd ?r) = accesses w" "externalAccesses (snd ?r) = externalAccesses w"
      "accessRequests (snd ?r) = accessRequests w" "events (snd ?r) = events w"
      "faults (snd ?r) = tl (faults w)" "out \<noteq> None \<longrightarrow> services (snd ?r) = services w"
    unfolding delete_call_def by blast
  have w1: "calls ?w1 = calls w @ [(delete_call s, out)]"
      "accesses ?w1 = accesses w" "externalAccesses ?w1 = externalAccesses w"
      "accessRequests ?w1 = accessRequests w" "faults ?w1 = tl (faults w)"
      "\<exists>l. events ?w1 = events w @ l \<and> list_all is_logger_error l"
      "out \<noteq> None \<longrightarrow> services ?w1 = services w"
    using one by (auto simp: emit_def is_logger_error_def split: prod.splits sum.splits)
  from w1(6) obtain l where l: "events ?w1 = events w @ l" "list_all is_logger_error l" by blast
  from Cons.IH [of ?w1] obtain outs logs where
    ih: "length outs = length cs"
      "calls (delete_clones cs ?w1) = calls ?w1 @ zip (map delete_call cs) outs"
      "accesses (delete_clones cs ?w1) = accesses ?w1"
      "externalAccesses (delete_clones cs ?w1) = externalAccesses ?w1"
      "accessRequests (delete_clones cs ?w1) = accessRequests ?w1"
      "events (delete_clones cs ?w1) = events ?w1 @ logs" "list_all is_logger_error logs"
      "faults (delete_clones cs ?w1) = drop (length cs) (faults ?w1)"
      "(\<forall>out\<in>set outs. out \<noteq> None) \<longrightarrow> services (delete_clones cs ?w1) = services ?w1"
    by blast
  have step: "delete_clones (s # cs) w = delete_clones cs ?w1" by simp
  show ?case
    apply (rule exI [of _ "out # outs"])
    apply (rule exI [of _ "l @ logs"])
    unfolding step using ih w1(1-5) w1(7) l by (simp add: drop_Suc)
qed

lemma store_get_map_at:
  assumes "store_get objs ns n = Some old" "is_at ns n new"
  shows "store_get (map (\<lambda>x. if is_at ns n x then new else x) objs) ns n = Some new"
  using assms unfolding store_get_def by (induction objs) (auto split: if_splits)

lemma store_get_filter_at: "store_get (filter (\<lambda>x. \<not> is_at ns n x) objs) ns n = None"
  unfolding store_get_def by (induction objs) auto

lemma store_update_result:
  assumes "store_update objs obj = Inr objs'"
  shows "map_option Finalizers (store_get objs' (Namespace obj) (Name obj)) =
         (if (case store_get objs (Namespace obj) (Name obj) of
                None \<Rightarrow> False | Some old \<Rightarrow> DeletionTimestamp old) \<and> Finalizers obj = []
          then None else Some (Finalizers obj))"
proof (cases "store_get objs (Namespace obj) (Name obj)")
  case None
  with assms show ?thesis by (simp add: store_update_def)
next
  case (Some old)
  show ?thesis
  proof (cases "DeletionTimestamp old \<and> Finalizers obj = []")
    case True
    with Some assms have "objs' = filter (\<lambda>x. \<not> is_at (Namespace obj) (Name obj) x) objs"
      by (auto simp: store_update_def)
    with True Some show ?thesis by (simp add: store_get_filter_at)
  next
    case False
    with Some assms have "objs' = map (\<lambda>x. if is_at (Namespace obj) (Name obj) x
        then obj\<lparr>DeletionTimestamp := DeletionTimestamp old\<rparr> else x) objs"
      by (auto simp: store_update_def)
    moreover have "is_at (Namespace obj) (Name obj) (obj\<lparr>DeletionTimestamp := DeletionTimestamp old\<rparr>)"
      by (simp add: is_at_def)
    ultimately show ?thesis using store_get_map_at [OF Some] False Some by auto
  qed
qed

lemma store_update_refused:
  "store_update objs obj = Inl e \<Longrightarrow> e = NotFound \<and> store_get objs (Namespace obj) (Name obj) = None"
  by (auto simp: store_update_def split: option.splits if_splits)

lemma client_Update_effect:
  "\<exists>upd. calls (snd (client_Update obj w)) = calls w @ [(update_call obj, upd)] \<and>
     (case fst (client_Update obj w) of Inl e \<Rightarrow> upd = Some e | Inr x \<Rightarrow> upd = None) \<and>
     events (snd (client_Update obj w)) = events w \<and>
     services (snd (client_Update obj w)) = services w \<and>
     (upd = None \<longrightarrow>
        stored_finalizers obj (snd (client_Update obj w)) =
          (if stored_deleting obj w \<and> GetFinalizers obj = [] then None
           else Some (GetFinalizers obj))) \<and>
     (upd \<noteq> None \<longrightarrow>
        accesses (snd (client_Update obj w)) = accesses w \<and>
        externalAccesses (snd (client_Update obj w)) = externalAccesses w) \<and>
     (upd = Some NotFound \<longrightarrow> stored_finalizers obj w = None)"
proof (cases obj)
  case (AccessObject a)
  show ?thesis
    unfolding AccessObject
    using store_update_result [of "accesses w" a] store_update_refused [of "accesses w" a]
    by (auto simp: client_Update_Access_def invoke_head split: option.splits sum.splits)
next
  case (ExternalAccessObject a)
  show ?thesis
    unfolding ExternalAccessObject
    using store_update_result [of "externalAccesses w" a]
      store_update_refused [of "externalAccesses w" a]
    by (auto simp: client_Update_ExternalAccess_def invoke_head split: option.splits sum.splits)
qed

lemma SetFinalizers_simps [simp]:
  "update_call (SetFinalizers obj fs) = update_call obj"
  "stored_finalizers (SetFinalizers obj fs) w = stored_finalizers obj w"
  "stored_deleting (SetFinalizers obj fs) w = stored_deleting obj w"
  "GetFinalizers (SetFinalizers obj fs) = fs"
  by (cases obj; simp)+

lemma stored_same:
  "accesses w' = accesses w \<Longrightarrow> externalAccesses w' = externalAccesses w \<Longrightarrow>
   stored_finalizers obj w' = stored_finalizers obj w \<and> stored_deleting obj w' = stored_deleting obj w"
  by (cases obj) simp_all

lemma remove_finalizer_effect:
  "\<exists>upd. calls (snd (client_Update (SetFinalizers obj fs) w)) = calls w @ [(update_call obj, upd)] \<and>
     (case fst (client_Update (SetFinalizers obj fs) w) of Inl e \<Rightarrow> upd = Some e | Inr x \<Rightarrow> upd = None) \<and>
     events (snd (client_Update (SetFinalizers obj fs) w)) = events w \<and>
     services (snd (client_Update (SetFinalizers obj fs) w)) = services w \<and>
     (upd = None \<longrightarrow>
        stored_finalizers obj (snd (client_Update (SetFinalizers obj fs) w)) =
          (if stored_deleting obj w \<and> fs = [] then None else Some fs)) \<and>
     (upd \<noteq> None \<longrightarrow>
        accesses (snd (client_Update (SetFinalizers obj fs) w)) = accesses w \<and>
        externalAccesses (snd (client_Update (SetFinalizers obj fs) w)) = externalAccesses w) \<and>
     (upd = Some NotFound \<longrightarrow> stored_finalizers obj w = None)"
  by (rule client_Update_effect [of "SetFinalizers obj fs" w, unfolded SetFinalizers_simps])

lemma client_List_Services_ok:
  "head_fault (faults w) = None \<Longrightarrow>
   client_List_Services rid w =
     (Inr (filter (has_request_id rid) (services w)),
      w\<lparr>faults := tl (faults w), calls := calls w @ [(ListCall Services request_id_label rid, None)]\<rparr>)"
  by (simp add: client_List_Services_def invoke_head)

lemma client_List_Services_failed:
  "head_fault (faults w) = Some m \<Longrightarrow> fst (client_List_Services rid w) = Inl (Failure m)"
  by (simp add: client_List_Services_def invoke_head)

text \<open>
  C10 (amended). While an Access or ExternalAccess that is being deleted still carries the
  cleanup finalizer and a correlation id, \<open>deleteClonedServices\<close> returns an error
  exactly when the listing of the clones fails. When the listing succeeds, every listed
  clone gets one delete call, and whatever these calls return (a failure is logged, and a
  pass all of whose deletes fail leaves every clone in place) the update that removes the
  finalizer is attempted, and it alone decides the pass. When the update succeeds, the pass
  succeeds and the stored declaration no longer carries the finalizer: it is gone if it was
  marked for deletion and no other finalizer is left, and otherwise keeps the other
  finalizers. When the update answers NotFound, the pass succeeds and the declaration is
  not stored. When the update fails otherwise, the pass fails; and whenever the update does
  not succeed the declarations are as they were, finalizer included.
\<close>

theorem reconcileAccessFinalizer_swallows_delete_failures:
  assumes deleting: "GetDeletionTimestamp obj"
      and fin: "accessFinalizerName \<in> set (GetFinalizers obj)"
      and label: "map_of (GetLabels obj) request_id_label = Some reqID"
  shows "(fst (deleteClonedServices reqID w) \<noteq> None \<longleftrightarrow> head_fault (faults w) \<noteq> None) \<and>
    (head_fault (faults w) = None \<longrightarrow>
      (\<exists>outs upd logs.
         length outs = count_request_id reqID (services w) \<and>
         new_calls w (snd (reconcileAccessFinalizer obj w)) =
           (ListCall Services request_id_label reqID, None) #
           zip (map delete_call (filter (has_request_id reqID) (services w))) outs @
           [(update_call obj, upd)] \<and>
         (fst (reconcileAccessFinalizer obj w) = None \<longleftrightarrow> upd = None \<or> upd = Some NotFound) \<and>
         (upd = None \<longrightarrow>
            stored_finalizers obj (snd (reconcileAccessFinalizer obj w)) =
              (if stored_deleting obj w \<and>
                  filter (\<lambda>x. x \<noteq> accessFinalizerName) (GetFinalizers obj) = []
               then None
               else Some (filter (\<lambda>x. x \<noteq> accessFinalizerName) (GetFinalizers obj)))) \<and>
         (upd \<noteq> None \<longrightarrow>
            accesses (snd (reconcileAccessFinalizer obj w)) = accesses w \<and>
            externalAccesses (snd (reconcileAccessFinalizer obj w)) = externalAccesses w) \<and>
         (upd = Some NotFound \<longrightarrow>
            stored_finalizers obj (snd (reconcileAccessFinalizer obj w)) = None) \<and>
         new_events w (snd (reconcileAccessFinalizer obj w)) = logs \<and>
         list_all is_logger_error logs \<and>
         ((\<forall>out\<in>set outs. out \<noteq> None) \<longrightarrow>
            services (snd (reconcileAccessFinalizer obj w)) = services w)))"
proof (intro conjI impI)
  show "fst (deleteClonedServices reqID w) \<noteq> None \<longleftrightarrow> head_fault (faults w) \<noteq> None"
  proof (cases "head_fault (faults w)")
    case None
    then show ?thesis by (simp add: deleteClonedServices_def client_List_Services_ok)
  next
    case (Some m)
    from client_List_Services_failed [OF Some, of reqID]
    show ?thesis using Some by (auto simp: deleteClonedServices_def split: prod.splits sum.splits)
  qed
next
  assume ok: "head_fault (faults w) = None"
  let ?rest = "filter (\<lambda>x. x \<noteq> accessFinalizerName) (GetFinalizers obj)"
  let ?clones = "filter (has_request_id reqID) (services w)"
  let ?w1 = "w\<lparr>faults := tl (faults w), calls := calls w @ [(ListCall Services request_id_label reqID, None)]\<rparr>"
  let ?w2 = "delete_clones ?clones ?w1"
  let ?obj = "SetFinalizers obj ?rest"
  let ?r = "client_Update ?obj ?w2"
  let ?res = "reconcileAccessFinalizer obj w"
  from delete_clones_effect [of ?clones ?w1] obtain outs logs where
    d: "length outs = length ?clones"
       "calls ?w2 = calls ?w1 @ zip (map delete_call ?clones) outs"
       "events ?w2 = events ?w1 @ logs" "list_all is_logger_error logs"
       "(\<forall>out\<in>set outs. out \<noteq> None) \<longrightarrow> services ?w2 = services ?w1"
       "accesses ?w2 = accesses ?w1" "externalAccesses ?w2 = externalAccesses ?w1"
    by blast
  from d(6,7) have same: "stored_finalizers obj ?w2 = stored_finalizers obj w"
      "stored_deleting obj ?w2 = stored_deleting obj w"
    using stored_same [of ?w2 w obj] by simp_all
  from remove_finalizer_effect [of obj ?rest ?w2]
  obtain upd where
    u: "calls (snd ?r) = calls ?w2 @ [(update_call obj, upd)]"
       "case fst ?r of Inl e \<Rightarrow> upd = Some e | Inr x \<Rightarrow> upd = None"
       "events (snd ?r) = events ?w2" "services (snd ?r) = services ?w2"
       "upd = None \<longrightarrow> stored_finalizers obj (snd ?r) =
          (if stored_deleting obj ?w2 \<and> ?rest = [] then None else Some ?rest)"
       "upd \<noteq> None \<longrightarrow> accesses (snd ?r) = accesses ?w2 \<and>
          externalAccesses (snd ?r) = externalAccesses ?w2"
       "upd = Some NotFound \<longrightarrow> stored_finalizers obj ?w2 = None"
    by (elim exE conjE)
  have res: "?res =
      (case ?r of
         (Inl err, w2) \<Rightarrow>
            if IsNotFound (ApiError err) then (None, w2)
            else (Some (ApiError err),
                  emit (LoggerError ''Failed to remove finalizer, will retry.'' (Some (ApiError err))) w2)
       | (Inr x, w2) \<Rightarrow> (None, w2))"
    using deleting fin label ok
    by (simp add: reconcileAccessFinalizer_def deleteClonedServices_def client_List_Services_ok)
  have fields: "calls (snd ?res) = calls (snd ?r)" "services (snd ?res) = services (snd ?r)"
    "accesses (snd ?res) = accesses (snd ?r)" "externalAccesses (snd ?res) = externalAccesses (snd ?r)"
    "\<exists>l. events (snd ?res) = events (snd ?r) @ l \<and> list_all is_logger_error l"
    "fst ?res = None \<longleftrightarrow> upd = None \<or> upd = Some NotFound"
    unfolding res using u(2)
    by (auto simp: emit_def is_logger_error_def split: prod.splits sum.splits)
  from fields(3,4) have stored: "stored_finalizers obj (snd ?res) = stored_finalizers obj (snd ?r)"
    using stored_same [of "snd ?res" "snd ?r" obj] by simp
  from fields(5) obtain l where l: "events (snd ?res) = events (snd ?r) @ l" "list_all is_logger_error l"
    by blast
  have nf: "upd = Some NotFound \<longrightarrow> stored_finalizers obj (snd ?res) = None"
  proof
    assume n: "upd = Some NotFound"
    with u(6) have "accesses (snd ?r) = accesses ?w2" "externalAccesses (snd ?r) = externalAccesses ?w2"
      by simp_all
    then have "stored_finalizers obj (snd ?r) = stored_finalizers obj ?w2"
      using stored_same [of "snd ?r" ?w2 obj] by simp
    with n u(7) stored show "stored_finalizers obj (snd ?res) = None" by simp
  qed
  show "\<exists>outs upd logs.
         length outs = count_request_id reqID (services w) \<and>
         new_calls w (snd ?res) =
           (ListCall Services request_id_label reqID, None) #
           zip (map delete_call ?clones) outs @ [(update_call obj, upd)] \<and>
         (fst ?res = None \<longleftrightarrow> upd = None \<or> upd = Some NotFound) \<and>
         (upd = None \<longrightarrow>
            stored_finalizers obj (snd ?res) =
              (if stored_deleting obj w \<and> ?rest = [] then None else Some ?rest)) \<and>
         (upd \<noteq> None \<longrightarrow>
            accesses (snd ?res) = accesses w \<and> externalAccesses (snd ?res) = externalAccesses w) \<and>
         (upd = Some NotFound \<longrightarrow> stored_finalizers obj (snd ?res) = None) \<and>
         new_events w (snd ?res) = logs \<and>
         list_all is_logger_error logs \<and>
         ((\<forall>out\<in>set outs. out \<noteq> None) \<longrightarrow> services (snd ?res) = services w)"
    apply (rule exI [of _ outs])
    apply (rule exI [of _ upd])
    apply (rule exI [of _ "logs @ l"])
    using d u(1,3,4,5,6) fields(1-4,6) l same stored nf
    by (simp add: new_calls_def new_events_def count_request_id_def)
qed

theorem reconcileAccessFinalizer_swallows_delete_failures_witness:
  "GetDeletionTimestamp (AccessObject expiring_access)
   \<and> accessFinalizerName \<in> set (GetFinalizers (AccessObject expiring_access))
   \<and> map_of (GetLabels (AccessObject expiring_access)) request_id_label = Some ''1111-aaaa''
   \<and> head_fault (faults (cleanup_world [None, Some ''forbidden''])) = None
   \<and> fst (deleteClonedServices ''1111-aaaa'' (cleanup_world [None, Some ''forbidden''])) = None
   \<and> reconcileAccessFinalizer (AccessObject expiring_access) (cleanup_world [None, Some ''forbidden'']) =
       (None,
        (cleanup_world [])
          \<lparr>services := [example_service ''team-a'' ''svc1'',
                        example_clone ''team-a'' ''nc-svc1-31313131'' ''1111-aaaa'',
                        example_clone ''team-a'' ''nc-svc1-32323232'' ''2222-bbbb''],
           accesses := [],
           calls := [(ListCall Services request_id_label ''1111-aaaa'', None),
                     (DeleteCall Services ''team-a'' ''nc-svc1-31313131'', Some (Failure ''forbidden'')),
                     (DeleteCall Services ''team-b'' ''nc-svc2-31313131'', None),
                     (UpdateCall Accesses ''team-a'' ''access-nc-svc1-31313131'', None)],
           events := [LoggerError ''failed to delete service clone''
                        (Some (ApiError (Failure ''forbidden'')))]\<rparr>)
   \<and> GetDeletionTimestamp (ExternalAccessObject expiring_external)
   \<and> accessFinalizerName \<in> set (GetFinalizers (ExternalAccessObject expiring_external))
   \<and> map_of (GetLabels (ExternalAccessObject expiring_external)) request_id_label = Some ''2222-bbbb''
   \<and> fst (deleteClonedServices ''2222-bbbb'' (cleanup_world [None, Some ''forbidden''])) = None
   \<and> reconcileAccessFinalizer (ExternalAccessObject expiring_external)
         (cleanup_world [None, Some ''forbidden'']) =
       (None,
        (cleanup_world [])
          \<lparr>externalAccesses := [expiring_external\<lparr>Finalizers := [''example.org/keep'']\<rparr>],
           calls := [(ListCall Services request_id_label ''2222-bbbb'', None),
                     (DeleteCall Services ''team-a'' ''nc-svc1-32323232'', Some (Failure ''forbidden'')),
                     (UpdateCall ExternalAccesses ''team-a'' ''ea-nc-svc1-32323232'', None)],
           events := [LoggerError ''failed to delete service clone''
                        (Some (ApiError (Failure ''forbidden'')))]\<rparr>)"
proof -
  let ?w = "cleanup_world [None, Some ''forbidden'']"
  have a: "GetDeletionTimestamp (AccessObject expiring_access)" by code_simp
  have b: "accessFinalizerName \<in> set (GetFinalizers (AccessObject expiring_access))" by code_simp
  have c: "map_of (GetLabels (AccessObject expiring_access)) request_id_label = Some ''1111-aaaa''"
    by code_simp
  have h: "head_fault (faults ?w) = None" by code_simp
  from reconcileAccessFinalizer_swallows_delete_failures [OF a b c, of ?w] h
  have d: "fst (deleteClonedServices ''1111-aaaa'' ?w) = None" by simp
  have r: "reconcileAccessFinalizer (AccessObject expiring_access) ?w =
       (None,
        (cleanup_world [])
          \<lparr>services := [example_service ''team-a'' ''svc1'',
                        example_clone ''team-a'' ''nc-svc1-31313131'' ''1111-aaaa'',
                        example_clone ''team-a'' ''nc-svc1-32323232'' ''2222-bbbb''],
           accesses := [],
           calls := [(ListCall Services request_id_label ''1111-aaaa'', None),
                     (DeleteCall Services ''team-a'' ''nc-svc1-31313131'', Some (Failure ''forbidden'')),
                     (DeleteCall Services ''team-b'' ''nc-svc2-31313131'', None),
                     (UpdateCall Accesses ''team-a'' ''access-nc-svc1-31313131'', None)],
           events := [LoggerError ''failed to delete service clone''
                        (Some (ApiError (Failure ''forbidden'')))]\<rparr>)"
    by code_simp
  have a': "GetDeletionTimestamp (ExternalAccessObject expiring_external)" by code_simp
  have b': "accessFinalizerName \<in> set (GetFinalizers (ExternalAccessObject expiring_external))"
    by code_simp
  have c': "map_of (GetLabels (ExternalAccessObject expiring_external)) request_id_label = Some ''2222-bbbb''"
    by code_simp
  from reconcileAccessFinalizer_swallows_delete_failures [OF a' b' c', of ?w] h
  have d': "fst (deleteClonedServices ''2222-bbbb'' ?w) = None" by simp
  have r': "reconcileAccessFinalizer (ExternalAccessObject expiring_external) ?w =
       (None,
        (cleanup_world [])
          \<lparr>externalAccesses := [expiring_external\<lparr>Finalizers := [''example.org/keep'']\<rparr>],
           calls := [(ListCall Services request_id_label ''2222-bbbb'', None),
                     (DeleteCall Services ''team-a'' ''nc-svc1-32323232'', Some (Failure ''forbidden'')),
                     (UpdateCall ExternalAccesses ''team-a'' ''ea-nc-svc1-32323232'', None)],
           events := [LoggerError ''failed to delete service clone''
                        (Some (ApiError (Failure ''forbidden'')))]\<rparr>)"
    by code_simp
  from a b c h d r a' b' c' d' r' show ?thesis by blast
qed

text \<open>
  The sentence of C10 as it stands fails when the update that removes the finalizer is
  refused: a clone could not be deleted and stays, and the finalizer stays too; the
  declaration is still stored, marked for deletion, and the pass returns the error.
\<close>

theorem reconcileAccessFinalizer_update_refused:
  "GetDeletionTimestamp (AccessObject expiring_access)
   \<and> accessFinalizerName \<in> set (GetFinalizers (AccessObject expiring_access))
   \<and> map_of (GetLabels (AccessObject expiring_access)) request_id_label = Some ''1111-aaaa''
   \<and> reconcileAccessFinalizer (AccessObject expiring_access)
         (cleanup_world [None, Some ''forbidden'', None, Some ''conflict'']) =
       (Some (ApiError (Failure ''conflict'')),
        (cleanup_world [])
          \<lparr>services := [example_service ''team-a'' ''svc1'',
                        example_clone ''team-a'' ''nc-svc1-31313131'' ''1111-aaaa'',
                        example_clone ''team-a'' ''nc-svc1-32323232'' ''2222-bbbb''],
           calls := [(ListCall Services request_id_label ''1111-aaaa'', None),
                     (DeleteCall Services ''team-a'' ''nc-svc1-31313131'', Some (Failure ''forbidden'')),
                     (DeleteCall Services ''team-b'' ''nc-svc2-31313131'', None),
                     (UpdateCall Accesses ''team-a'' ''access-nc-svc1-31313131'', Some (Failure ''conflict''))],
           events := [LoggerError ''failed to delete service clone''
                        (Some (ApiError (Failure ''forbidden''))),
                      LoggerError ''Failed to remove finalizer, will retry.''
                        (Some (ApiError (Failure ''conflict'')))]\<rparr>)
   \<and> accesses (snd (reconcileAccessFinalizer (AccessObject expiring_access)
         (cleanup_world [None, Some ''forbidden'', None, Some ''conflict'']))) = [expiring_access]
   \<and> Finalizers expiring_access = [accessFinalizerName]"
  by code_simp

subsection \<open>Orphan check of the reconciler\<close>

lemma AddFinalizer_fields [simp]:
  "Status (AddFinalizer r f) = Status r" "Name (AddFinalizer r f) = Name r"
  "Namespace (AddFinalizer r f) = Namespace r"
  "SourceService (AddFinalizer r f) = SourceService r"
  "TargetService (AddFinalizer r f) = TargetService r"
  "SourceCloneName (AddFinalizer r f) = SourceCloneName r"
  "TargetCloneName (AddFinalizer r f) = TargetCloneName r"
  by (simp_all add: AddFinalizer_def)

lemma orphan_check_AddFinalizer [simp]: "orphan_check (AddFinalizer r f) w = orphan_check r w"
  by (simp add: orphan_check_def is_partial_def expected_namespace_def expected_access_def
        split: prod.splits sum.splits)

lemma reconcileAccessRequest_live:
  "\<not> DeletionTimestamp request \<Longrightarrow>
   reconcileAccessRequest request w =
     (case ensure_finalizer request w of
        (Inl err, w1) \<Rightarrow> (Some (ApiError err), w1)
      | (Inr x, w1) \<Rightarrow> orphan_check request w1)"
  unfolding orphan_check_AddFinalizer [of request accessRequestFinalizerName, symmetric]
  by (simp add: reconcileAccessRequest_def ensure_finalizer_def orphan_check_def is_partial_def
        expected_namespace_def expected_access_def Let_def split: prod.splits sum.splits)

lemma store_get_marked:
  "store_get (map (\<lambda>x. if is_at ns n x then x\<lparr>DeletionTimestamp := True\<rparr> else x) objs) ns n =
     map_option (\<lambda>x. x\<lparr>DeletionTimestamp := True\<rparr>) (store_get objs ns n)"
  unfolding store_get_def by (induction objs) (auto simp: is_at_def)

lemma store_get_removed: "store_get (filter (\<lambda>x. \<not> is_at ns n x) objs) ns n = None"
  unfolding store_get_def by (induction objs) auto

lemma store_delete_result:
  "store_delete objs ns n = Inr objs' \<Longrightarrow>
     (case store_get objs' ns n of None \<Rightarrow> True | Some r \<Rightarrow> DeletionTimestamp r)"
  by (auto simp: store_delete_def store_get_marked store_get_removed
      split: option.splits if_splits)

lemma ensure_finalizer_calls:
  "\<exists>cs. calls (snd (ensure_finalizer r w)) = calls w @ cs \<and>
        filter (\<lambda>c. is_orphan_check_call (fst c)) cs = []"
  by (simp add: ensure_finalizer_def client_Update_AccessRequest_def invoke_head
      split: option.splits sum.splits)

lemma orphan_check_found:
  assumes "is_partial r" "expected_lookup r w \<noteq> Some NotFound"
  shows "fst (orphan_check r w) = map_option ApiError (expected_lookup r w) \<and>
         calls (snd (orphan_check r w)) =
           calls w @ [(GetCall Accesses (expected_namespace r) (expected_access r), expected_lookup r w)] \<and>
         accessRequests (snd (orphan_check r w)) = accessRequests w"
  using assms
  by (auto simp: orphan_check_def expected_lookup_def client_Get_Access_def invoke_head emit_def
        store_get_None [symmetric] split: option.splits sum.splits if_splits)

lemma orphan_check_missing:
  assumes "is_partial r" "expected_lookup r w = Some NotFound"
  shows "\<exists>deleted.
         calls (snd (orphan_check r w)) =
           calls w @ [(GetCall Accesses (expected_namespace r) (expected_access r), Some NotFound),
                      (DeleteCall AccessRequests (Namespace r) (Name r), deleted)] \<and>
         (fst (orphan_check r w) = None \<longleftrightarrow> deleted = None) \<and>
         (deleted = None \<longrightarrow>
            (case store_get (accessRequests (snd (orphan_check r w))) (Namespace r) (Name r) of
               None \<Rightarrow> True | Some r' \<Rightarrow> DeletionTimestamp r'))"
proof -
  let ?w1 = "w\<lparr>faults := tl (faults w),
       calls := calls w @ [(GetCall Accesses (expected_namespace r) (expected_access r), Some NotFound)]\<rparr>"
  from assms(2) have get: "client_Get_Access (expected_namespace r) (expected_access r) w = (Inl NotFound, ?w1)"
    by (auto simp: expected_lookup_def client_Get_Access_def invoke_head store_get_None [symmetric]
        split: option.splits if_splits)
  have oc: "orphan_check r w =
      (case client_Delete_AccessRequest (Namespace r) (Name r) ?w1 of
         (Inl err2, w2) \<Rightarrow>
           (Some (ApiError err2),
            emit (LoggerError ''Failed to delete orphaned AccessRequest'' (Some (ApiError err2))) w2)
       | (Inr x, w2) \<Rightarrow> (None, w2))"
    using assms(1) by (simp add: orphan_check_def get)
  show ?thesis
    unfolding oc
    using store_delete_result [of "accessRequests w" "Namespace r" "Name r"]
    by (auto simp: client_Delete_AccessRequest_def invoke_head emit_def
        split: option.splits sum.splits)
qed

lemma cleanupPartialAccess_calls:
  "\<exists>cs. calls (snd (cleanupPartialAccess r w)) = calls w @ cs \<and>
        filter (\<lambda>c. is_orphan_check_call (fst c)) cs = []"
  by (simp add: cleanupPartialAccess_def client_Delete_Access_def invoke_head emit_def Let_def
      split: option.splits sum.splits)

lemma client_Update_AccessRequest_calls:
  "\<exists>cs. calls (snd (client_Update_AccessRequest r w)) = calls w @ cs \<and>
        filter (\<lambda>c. is_orphan_check_call (fst c)) cs = []"
  by (simp add: client_Update_AccessRequest_def invoke_head split: option.splits sum.splits)

lemma deleting_calls:
  assumes "DeletionTimestamp r"
  shows "\<exists>cs. calls (snd (reconcileAccessRequest r w)) = calls w @ cs \<and>
        filter (\<lambda>c. is_orphan_check_call (fst c)) cs = []"
proof (cases "ContainsFinalizer r accessRequestFinalizerName")
  case False
  with assms show ?thesis by (simp add: reconcileAccessRequest_def)
next
  case True
  obtain e w1 where c: "cleanupPartialAccess r w = (e, w1)" by (cases "cleanupPartialAccess r w")
  from cleanupPartialAccess_calls [of r w] c obtain cs1 where
    cs1: "calls w1 = calls w @ cs1" "filter (\<lambda>c. is_orphan_check_call (fst c)) cs1 = []"
    by auto
  show ?thesis
  proof (cases e)
    case (Some err)
    with assms True c cs1 show ?thesis
      by (simp add: reconcileAccessRequest_def emit_def)
  next
    case None
    let ?u = "client_Update_AccessRequest (RemoveFinalizer r accessRequestFinalizerName) w1"
    from client_Update_AccessRequest_calls [of "RemoveFinalizer r accessRequestFinalizerName" w1]
    obtain cs2 where
      cs2: "calls (snd ?u) = calls w1 @ cs2" "filter (\<lambda>c. is_orphan_check_call (fst c)) cs2 = []"
      by auto
    have "calls (snd (reconcileAccessRequest r w)) = calls (snd ?u)"
      using assms True c None
      by (simp add: reconcileAccessRequest_def split: prod.splits sum.splits)
    with cs1 cs2 show ?thesis by simp
  qed
qed

lemma orphan_check_calls_append:
  "calls w1 = calls w @ cs \<Longrightarrow> calls w2 = calls w1 @ cs' \<Longrightarrow>
   orphan_check_calls w w2 =
     filter (\<lambda>c. is_orphan_check_call (fst c)) cs @ filter (\<lambda>c. is_orphan_check_call (fst c)) cs'"
  by (simp add: orphan_check_calls_def new_calls_def)

lemma orphan_check_calls_one:
  "calls w1 = calls w @ cs \<Longrightarrow> orphan_check_calls w w1 = filter (\<lambda>c. is_orphan_check_call (fst c)) cs"
  by (simp add: orphan_check_calls_def new_calls_def)

text \<open>
  C6 (amended). In one pass over an Access-Request in a partial status that is not being
  deleted, once the request carries the reconciler's finalizer (it did, or the update that
  adds it succeeded), the reconciler gets the expected Access Declaration (named after the
  stored clone name, in the namespace of that side); if the answer is NotFound it deletes
  the Access-Request with an explicit delete call, whose success leaves the request gone or
  marked for deletion, and the pass succeeds exactly when that delete does; on any other
  answer it deletes nothing, and the pass fails exactly when the Get failed. If the update
  that adds the finalizer fails, the pass returns that error without the check. For a
  request in any other status, or being deleted, the check is not performed.
\<close>

theorem reconcileAccessRequest_orphan_check:
  "(\<not> DeletionTimestamp request \<and> is_partial request \<longrightarrow>
      (case ensure_finalizer request w of
         (Inl err, w1) \<Rightarrow>
            reconcileAccessRequest request w = (Some (ApiError err), w1) \<and>
            orphan_check_calls w w1 = []
       | (Inr x, w1) \<Rightarrow>
            if expected_lookup request w1 = Some NotFound
            then (\<exists>deleted.
                   orphan_check_calls w (snd (reconcileAccessRequest request w)) =
                     [(GetCall Accesses (expected_namespace request) (expected_access request),
                       Some NotFound),
                      (DeleteCall AccessRequests (Namespace request) (Name request), deleted)] \<and>
                   (fst (reconcileAccessRequest request w) = None \<longleftrightarrow> deleted = None) \<and>
                   (deleted = None \<longrightarrow>
                      (case store_get (accessRequests (snd (reconcileAccessRequest request w)))
                              (Namespace request) (Name request) of
                         None \<Rightarrow> True
                       | Some r \<Rightarrow> DeletionTimestamp r)))
            else orphan_check_calls w (snd (reconcileAccessRequest request w)) =
                   [(GetCall Accesses (expected_namespace request) (expected_access request),
                     expected_lookup request w1)] \<and>
                 accessRequests (snd (reconcileAccessRequest request w)) = accessRequests w1 \<and>
                 fst (reconcileAccessRequest request w) =
                   map_option ApiError (expected_lookup request w1)))
   \<and> (DeletionTimestamp request \<or> \<not> is_partial request \<longrightarrow>
        orphan_check_calls w (snd (reconcileAccessRequest request w)) = [])"
proof (intro conjI impI)
  assume a: "\<not> DeletionTimestamp request \<and> is_partial request"
  then have live: "\<not> DeletionTimestamp request" and partial: "is_partial request" by simp_all
  obtain res w1 where e: "ensure_finalizer request w = (res, w1)" by (cases "ensure_finalizer request w")
  from ensure_finalizer_calls [of request w] e obtain cs where
    cs: "calls w1 = calls w @ cs" "filter (\<lambda>c. is_orphan_check_call (fst c)) cs = []"
    by auto
  show "case ensure_finalizer request w of
         (Inl err, w1) \<Rightarrow>
            reconcileAccessRequest request w = (Some (ApiError err), w1) \<and>
            orphan_check_calls w w1 = []
       | (Inr x, w1) \<Rightarrow>
            if expected_lookup request w1 = Some NotFound
            then (\<exists>deleted.
                   orphan_check_calls w (snd (reconcileAccessRequest request w)) =
                     [(GetCall Accesses (expected_namespace request) (expected_access request),
                       Some NotFound),
                      (DeleteCall AccessRequests (Namespace request) (Name request), deleted)] \<and>
                   (fst (reconcileAccessRequest request w) = None \<longleftrightarrow> deleted = None) \<and>
                   (deleted = None \<longrightarrow>
                      (case store_get (accessRequests (snd (reconcileAccessRequest request w)))
                              (Namespace request) (Name request) of
                         None \<Rightarrow> True
                       | Some r \<Rightarrow> DeletionTimestamp r)))
            else orphan_check_calls w (snd (reconcileAccessRequest request w)) =
                   [(GetCall Accesses (expected_namespace request) (expected_access request),
                     expected_lookup request w1)] \<and>
                 accessRequests (snd (reconcileAccessRequest request w)) = accessRequests w1 \<and>
                 fst (reconcileAccessRequest request w) =
                   map_option ApiError (expected_lookup request w1)"
  proof (cases res)
    case (Inl err)
    with e cs show ?thesis
      by (simp add: reconcileAccessRequest_live [OF live] orphan_check_calls_one [OF cs(1)])
  next
    case (Inr x)
    with e have r: "reconcileAccessRequest request w = orphan_check request w1"
      by (simp add: reconcileAccessRequest_live [OF live])
    show ?thesis
    proof (cases "expected_lookup request w1 = Some NotFound")
      case True
      from orphan_check_missing [OF partial True] obtain deleted where
        d: "calls (snd (orphan_check request w1)) =
           calls w1 @ [(GetCall Accesses (expected_namespace request) (expected_access request), Some NotFound),
                      (DeleteCall AccessRequests (Namespace request) (Name request), deleted)]"
         "fst (orphan_check request w1) = None \<longleftrightarrow> deleted = None"
         "deleted = None \<longrightarrow>
            (case store_get (accessRequests (snd (orphan_check request w1))) (Namespace request) (Name request) of
               None \<Rightarrow> True | Some r' \<Rightarrow> DeletionTimestamp r')"
        by (elim exE conjE)
      show ?thesis
        unfolding e Inr r using True d(2,3)
        by (simp add: orphan_check_calls_append [OF cs(1) d(1)] cs(2))
    next
      case False
      from orphan_check_found [OF partial False]
      show ?thesis
        unfolding e Inr r using False cs
        by (simp add: orphan_check_calls_append [of w1 w cs])
    qed
  qed
next
  assume b: "DeletionTimestamp request \<or> \<not> is_partial request"
  show "orphan_check_calls w (snd (reconcileAccessRequest request w)) = []"
  proof (cases "DeletionTimestamp request")
    case True
    from deleting_calls [OF True, of w] show ?thesis
      by (auto simp: orphan_check_calls_one)
  next
    case False
    with b have np: "\<not> is_partial request" by simp
    from ensure_finalizer_calls [of request w] obtain cs where
      cs: "calls (snd (ensure_finalizer request w)) = calls w @ cs"
          "filter (\<lambda>c. is_orphan_check_call (fst c)) cs = []"
      by auto
    have "calls (snd (reconcileAccessRequest request w)) = calls (snd (ensure_finalizer request w))"
      using np by (simp add: reconcileAccessRequest_live [OF False] orphan_check_def
          split: prod.splits sum.splits)
    with cs show ?thesis by (simp add: orphan_check_calls_one)
  qed
qed

theorem reconcileAccessRequest_orphan_check_witness:
  "\<not> DeletionTimestamp (pending_request [])
   \<and> is_partial (pending_request [])
   \<and> fst (ensure_finalizer (pending_request []) (orphan_world [])) = Inr ()
   \<and> expected_lookup (pending_request []) (snd (ensure_finalizer (pending_request []) (orphan_world [])))
       = Some NotFound
   \<and> fst (reconcileAccessRequest (pending_request []) (orphan_world [])) = None
   \<and> orphan_check_calls (orphan_world []) (snd (reconcileAccessRequest (pending_request []) (orphan_world []))) =
       [(GetCall Accesses ''team-a'' ''access-nc-svc1-31313131'', Some NotFound),
        (DeleteCall AccessRequests [] ''ar-alice-example-com-1111-aaa'', None)]
   \<and> accessRequests (snd (reconcileAccessRequest (pending_request []) (orphan_world []))) =
       [(pending_request [accessRequestFinalizerName])\<lparr>DeletionTimestamp := True\<rparr>]"
proof -
  let ?r = "pending_request []"
  let ?w = "orphan_world []"
  have a: "\<not> DeletionTimestamp ?r" "is_partial ?r" by code_simp+
  have e: "ensure_finalizer ?r ?w = (Inr (), snd (ensure_finalizer ?r ?w))" by code_simp
  have l: "expected_lookup ?r (snd (ensure_finalizer ?r ?w)) = Some NotFound" by code_simp
  have n: "fst (reconcileAccessRequest ?r ?w) = None" by code_simp
  have names: "expected_namespace ?r = ''team-a''" "expected_access ?r = ''access-nc-svc1-31313131''"
    "Namespace ?r = []" "Name ?r = ''ar-alice-example-com-1111-aaa''"
    by code_simp+
  have s: "accessRequests (snd (reconcileAccessRequest ?r ?w)) =
       [(pending_request [accessRequestFinalizerName])\<lparr>DeletionTimestamp := True\<rparr>]"
    by code_simp
  have "case ensure_finalizer ?r ?w of
         (Inl err, w1) \<Rightarrow>
            reconcileAccessRequest ?r ?w = (Some (ApiError err), w1) \<and>
            orphan_check_calls ?w w1 = []
       | (Inr x, w1) \<Rightarrow>
            if expected_lookup ?r w1 = Some NotFound
            then (\<exists>deleted.
                   orphan_check_calls ?w (snd (reconcileAccessRequest ?r ?w)) =
                     [(GetCall Accesses (expected_namespace ?r) (expected_access ?r), Some NotFound),
                      (DeleteCall AccessRequests (Namespace ?r) (Name ?r), deleted)] \<and>
                   (fst (reconcileAccessRequest ?r ?w) = None \<longleftrightarrow> deleted = None) \<and>
                   (deleted = None \<longrightarrow>
                      (case store_get (accessRequests (snd (reconcileAccessRequest ?r ?w)))
                              (Namespace ?r) (Name ?r) of
                         None \<Rightarrow> True
                       | Some r \<Rightarrow> DeletionTimestamp r)))
            else orphan_check_calls ?w (snd (reconcileAccessRequest ?r ?w)) =
                   [(GetCall Accesses (expected_namespace ?r) (expected_access ?r),
                     expected_lookup ?r w1)] \<and>
                 accessRequests (snd (reconcileAccessRequest ?r ?w)) = accessRequests w1 \<and>
                 fst (reconcileAccessRequest ?r ?w) = map_option ApiError (expected_lookup ?r w1)"
    by (rule reconcileAccessRequest_orphan_check [of ?r ?w, THEN conjunct1, THEN mp, OF conjI [OF a]])
  then have "\<exists>deleted.
       orphan_check_calls ?w (snd (reconcileAccessRequest ?r ?w)) =
         [(GetCall Accesses (expected_namespace ?r) (expected_access ?r), Some NotFound),
          (DeleteCall AccessRequests (Namespace ?r) (Name ?r), deleted)] \<and>
       (fst (reconcileAccessRequest ?r ?w) = None \<longleftrightarrow> deleted = None)"
    by (subst (asm) e) (auto simp: l)
  with n have "orphan_check_calls ?w (snd (reconcileAccessRequest ?r ?w)) =
         [(GetCall Accesses (expected_namespace ?r) (expected_access ?r), Some NotFound),
          (DeleteCall AccessRequests (Namespace ?r) (Name ?r), None)]"
    by auto
  then have c: "orphan_check_calls ?w (snd (reconcileAccessRequest ?r ?w)) =
       [(GetCall Accesses ''team-a'' ''access-nc-svc1-31313131'', Some NotFound),
        (DeleteCall AccessRequests [] ''ar-alice-example-com-1111-aaa'', None)]"
    unfolding names .
  have f: "fst (ensure_finalizer ?r ?w) = Inr ()" by (subst e) simp
  from a f l n c s show ?thesis by blast
qed

text \<open>
  The sentence of C6 as it stands fails when the update that adds the finalizer fails: the
  request is in a partial status and not being deleted, its Access does not exist, and the
  pass returns the error of the update without a Get and without a Delete.
\<close>

theorem reconcileAccessRequest_no_check_after_failed_update:
  "\<not> DeletionTimestamp (pending_request [])
   \<and> Status (pending_request []) = ''PendingTarget''
   \<and> accesses (orphan_world [Some ''conflict'']) = []
   \<and> reconcileAccessRequest (pending_request []) (orphan_world [Some ''conflict'']) =
       (Some (ApiError (Failure ''conflict'')),
        (orphan_world [])\<lparr>calls := [(UpdateCall AccessRequests [] ''ar-alice-example-com-1111-aaa'',
                                     Some (Failure ''conflict''))]\<rparr>)"
  by code_simp

subsection \<open>One request, two grants\<close>

text \<open>
  C2 (the code departs from it). One successful \<open>requestClusterAccess\<close> runs the grant
  twice: \<open>createClusterAccess\<close> creates two clones and two Accesses under a first
  correlation id, and the handler's own body then creates two more clones and two more
  Accesses under a second one. Afterwards four clones and four Access Declarations exist,
  under two correlation ids, and the user is told of success twice. Within each pair the
  directions are reciprocal.
\<close>

theorem handleRequestClusterAccess_grants_twice:
  "handleRequestClusterAccess (example_env allow_all) alice (example_payload ''ingress'')
       ''1111-aaaa'' ''2222-bbbb'' (example_world []) = Some granted_twice
   \<and> map (\<lambda>s. (Namespace s, Name s, map_of (Labels s) request_id_label)) (services granted_twice) =
       [(''team-a'', ''svc1'', None),
        (''team-b'', ''svc2'', None),
        (''team-a'', clone_name (example_env allow_all) ''svc1'' ''1111-aaaa'', Some ''1111-aaaa''),
        (''team-b'', clone_name (example_env allow_all) ''svc2'' ''1111-aaaa'', Some ''1111-aaaa''),
        (''team-a'', ''netwatch-clone-svc1-32323232'', Some ''2222-bbbb''),
        (''team-b'', ''netwatch-clone-svc2-32323232'', Some ''2222-bbbb'')]
   \<and> map (\<lambda>a. (Namespace a, Name a, acc_Direction a, map_of (Labels a) request_id_label))
         (accesses granted_twice) =
       [(''team-a'', ''access-'' @ clone_name (example_env allow_all) ''svc1'' ''1111-aaaa'',
         ''ingress'', Some ''1111-aaaa''),
        (''team-b'', ''access-'' @ clone_name (example_env allow_all) ''svc2'' ''1111-aaaa'',
         ''egress'', Some ''1111-aaaa''),
        (''team-a'', ''access-netwatch-clone-svc1-32323232'', ''ingress'', Some ''2222-bbbb''),
        (''team-b'', ''access-netwatch-clone-svc2-32323232'', ''egress'', Some ''2222-bbbb'')]
   \<and> count_request_id ''1111-aaaa'' (services granted_twice) = 2
   \<and> count_request_id ''2222-bbbb'' (services granted_twice) = 2
   \<and> count_request_id ''1111-aaaa'' (accesses granted_twice) = 2
   \<and> count_request_id ''2222-bbbb'' (accesses granted_twice) = 2
   \<and> length (services granted_twice) = length (services (example_world [])) + 4
   \<and> length (accesses granted_twice) = 4
   \<and> events granted_twice =
       [LogAndBroadcast ''SUCCESS: Temporary access policies created for 600s.'' ''log-success''
          ''Service'' ''applyResult'',
        LogAndBroadcast ''--- Request complete ---'' ''log-success'' ''Service'' ''applyComplete'',
        LogAndBroadcast ''SUCCESS: Temporary access policies created for 600s.'' ''log-success''
          ''Service'' ''applyResult'',
        LogAndBroadcast ''--- Request complete ---'' ''log-success'' ''Service'' ''applyComplete'']
   \<and> all_ok (calls granted_twice)"
  by code_simp

theorem handleRequestClusterAccess_grants_twice_witness:
  "length (services granted_twice) = 6
   \<and> length (accesses granted_twice) = 4
   \<and> count_request_id ''1111-aaaa'' (services granted_twice) +
       count_request_id ''2222-bbbb'' (services granted_twice) = 4"
proof -
  have "length (services (example_world [])) = 2" by code_simp
  with handleRequestClusterAccess_grants_twice show ?thesis by simp
qed

subsection \<open>Names of a partial grant\<close>

text \<open>
  C3 (the code departs from it). The Access that the submission creates on the source
  side records the remote clone as \<^verbatim>\<open>netwatch-clone-svc2-31313131\<close>; the clone that the
  approval creates on the remote side is named \<^verbatim>\<open>nc-svc2-31313131\<close>. After the approval
  two clones and two Accesses carry the request id and the request is gone, but the
  source-side Access still names a service that does not exist.
\<close>

theorem partial_approval_names_do_not_round_trip:
  "handleSubmitAccessRequest (example_env (allow_only ''team-a'')) alice
       (example_payload ''ingress'') ''1111-aaaa'' (example_world []) = Some submitted
   \<and> map (\<lambda>r. (Name r, Status r, SourceCloneName r, RequestID r)) (accessRequests submitted) =
       [(''ar-alice-example-com-1111-aaa'', ''PendingTarget'', ''nc-svc1-31313131'', ''1111-aaaa'')]
   \<and> map (\<lambda>a. (Namespace a, Name a, acc_Targets a)) (accesses submitted) =
       [(''team-a'', ''access-nc-svc1-31313131'',
         [\<lparr>ServiceName = ''netwatch-clone-svc2-31313131'', ap_Namespace = ''team-b''\<rparr>])]
   \<and> handleApproveAccessRequest (example_env allow_all) bob
         \<lparr>pl_Command = [], pl_RequestID = ''ar-alice-example-com-1111-aaa'',
          pl_SourceService = [], pl_TargetService = [], pl_Direction = [], pl_Ports = [],
          pl_Cidr = [], pl_Service = [], pl_Duration = 0, pl_Name = [], pl_Namespace = [],
          pl_Description = []\<rparr>
         submitted = Some approved
   \<and> map (\<lambda>s. (Namespace s, Name s)) (filter (has_request_id ''1111-aaaa'') (services approved)) =
       [(''team-a'', ''nc-svc1-31313131''), (''team-b'', ''nc-svc2-31313131'')]
   \<and> map (\<lambda>a. (Namespace a, Name a, acc_Targets a, acc_Direction a))
         (filter (has_request_id ''1111-aaaa'') (accesses approved)) =
       [(''team-a'', ''access-nc-svc1-31313131'',
         [\<lparr>ServiceName = ''netwatch-clone-svc2-31313131'', ap_Namespace = ''team-b''\<rparr>], ''ingress''),
        (''team-b'', ''access-nc-svc2-31313131'',
         [\<lparr>ServiceName = ''nc-svc1-31313131'', ap_Namespace = ''team-a''\<rparr>], ''egress'')]
   \<and> accessRequests approved = []
   \<and> store_get (services approved) ''team-b'' ''netwatch-clone-svc2-31313131'' = None
   \<and> all_ok (calls approved)"
  by code_simp

theorem partial_approval_names_do_not_round_trip_witness:
  "map ServiceName (concat (map acc_Targets (filter (has_request_id ''1111-aaaa'') (accesses approved)))) =
     [''netwatch-clone-svc2-31313131'', ''nc-svc1-31313131'']
   \<and> map Name (filter (has_request_id ''1111-aaaa'') (services approved)) =
     [''nc-svc1-31313131'', ''nc-svc2-31313131'']"
proof -
  from partial_approval_names_do_not_round_trip
  have a: "map (\<lambda>a. (Namespace a, Name a, acc_Targets a, acc_Direction a))
         (filter (has_request_id ''1111-aaaa'') (accesses approved)) =
       [(''team-a'', ''access-nc-svc1-31313131'',
         [\<lparr>ServiceName = ''netwatch-clone-svc2-31313131'', ap_Namespace = ''team-b''\<rparr>], ''ingress''),
        (''team-b'', ''access-nc-svc2-31313131'',
         [\<lparr>ServiceName = ''nc-svc1-31313131'', ap_Namespace = ''team-a''\<rparr>], ''egress'')]"
    and s: "map (\<lambda>s. (Namespace s, Name s)) (filter (has_request_id ''1111-aaaa'') (services approved)) =
       [(''team-a'', ''nc-svc1-31313131''), (''team-b'', ''nc-svc2-31313131'')]"
    by blast+
  from arg_cong [OF a, of "\<lambda>xs. map ServiceName (concat (map (\<lambda>x. fst (snd (snd x))) xs))"]
  have "map ServiceName (concat (map acc_Targets (filter (has_request_id ''1111-aaaa'') (accesses approved)))) =
     [''netwatch-clone-svc2-31313131'', ''nc-svc1-31313131'']"
    by (simp add: comp_def)
  moreover from arg_cong [OF s, of "map snd"]
  have "map Name (filter (has_request_id ''1111-aaaa'') (services approved)) =
     [''nc-svc1-31313131'', ''nc-svc2-31313131'']"
    by (simp add: comp_def)
  ultimately show ?thesis by simp
qed

subsection \<open>Deny and abort after a failed cleanup\<close>

text \<open>
  C4 (the code departs from it). Alice aborts her request in status PendingTarget and the
  delete of the source-side Access is refused: \<open>handleDenyAccessRequest\<close> sends the error
  and goes on, the delete of the Access-Request is attempted and goes through, and the
  abort is announced; the Access survives without its tracking request. On the same
  failure the reconciler's \<open>cleanupPartialAccess\<close> returns the error instead.
\<close>

theorem handleDenyAccessRequest_deletes_request_after_failed_cleanup:
  "handleDenyAccessRequest (example_env allow_all) alice review_payload
       (pending_world [None, None, Some ''forbidden'']) =
     (pending_world [])
       \<lparr>accessRequests := [],
        calls := [(GetCall AccessRequests [] ''ar-alice-example-com-1111-aaa'', None),
                  (NewClientCall, None),
                  (DeleteCall Accesses ''team-a'' ''access-nc-svc1-31313131'', Some (Failure ''forbidden'')),
                  (DeleteCall AccessRequests [] ''ar-alice-example-com-1111-aaa'', None)],
        events := [SendError ''Failed to clean up orphaned Access object. Manual cleanup may be required.''
                     (Some (ApiError (Failure ''forbidden''))) ''Request'',
                   LogAndBroadcast ''Request from alice@example.com was aborted by the owner.''
                     ''log-warning'' ''Request'' ''applyResult'']\<rparr>
   \<and> Status (pending_request []) = ''PendingTarget''
   \<and> accesses (handleDenyAccessRequest (example_env allow_all) alice review_payload
                  (pending_world [None, None, Some ''forbidden''])) = [pending_access]
   \<and> cleanupPartialAccess (pending_request []) (pending_world [Some ''forbidden'']) =
       (Some (Errorf ''failed to delete partial access object: '' (ApiError (Failure ''forbidden''))),
        (pending_world [])
          \<lparr>calls := [(DeleteCall Accesses ''team-a'' ''access-nc-svc1-31313131'',
                      Some (Failure ''forbidden''))]\<rparr>)"
  by code_simp

subsection \<open>Single-sided steps\<close>

lemma side_direction_code:
  "(if (d = ''egress'' \<and> isSource) \<or> (d = ''ingress'' \<and> \<not> isSource) then ''egress''
    else if (d = ''ingress'' \<and> isSource) \<or> (d = ''egress'' \<and> \<not> isSource) then ''ingress''
    else ''all'') = side_direction d isSource"
  by (simp add: side_direction_def)

lemma partial_steps_effect:
  assumes "partial_steps ns n cn label ports access k w = (r, w')"
  shows "(case r of
            Some failure \<Rightarrow> accesses w' = accesses w
          | None \<Rightarrow>
              (\<exists>clone. services w' = services w @ [clone] \<and> Name clone = cn \<and> Namespace clone = ns \<and>
                 Labels clone = label) \<and>
              accesses w' = accesses w @ [access]) \<and>
         externalAccesses w' = externalAccesses w \<and> accessRequests w' = accessRequests w"
proof (cases "CloneService ns n cn label ports w")
  case (Pair r1 w1)
  show ?thesis
  proof (cases r1)
    case (Inl e)
    from CloneService_fail [OF Pair [unfolded Inl]] assms Pair Inl show ?thesis
      by (auto simp: partial_steps_def same_others_def)
  next
    case (Inr clone)
    note c = CloneService_ok [OF Pair [unfolded Inr]]
    show ?thesis
    proof (cases "CreateAccess access w1")
      case P2: (Pair r2 w2)
      show ?thesis
      proof (cases r2)
        case (Some e)
        from CreateAccess_fail [OF P2 [unfolded Some]] c assms Pair Inr P2 Some show ?thesis
          by (auto simp: partial_steps_def same_others_def)
      next
        case None
        from CreateAccess_ok [OF P2 [unfolded None]] c assms Pair Inr P2 None show ?thesis
          by (auto simp: partial_steps_def same_others_def)
      qed
    qed
  qed
qed

lemma createPartialAccess_steps:
  "createPartialAccess E p localNs localName remoteNs remoteName reqID payload isSource w =
     (case getOverridePorts E (pl_Ports payload) of
        Inl err \<Rightarrow> Some (Inl err, w)
      | Inr overridePorts \<Rightarrow>
          (case slice_to 8 (EncodeToString reqID) of
             None \<Rightarrow> None
           | Some randSuffix \<Rightarrow>
               (case partial_steps localNs localName (''nc-'' @ localName @ ''-'' @ randSuffix)
                       [(request_id_label, reqID)] overridePorts
                       (new_Access (''access-'' @ ''nc-'' @ localName @ ''-'' @ randSuffix) localNs
                          (commonAccessLabels p reqID) (Itoa (pl_Duration payload) @ ''s'')
                          [(request_id_label, reqID)]
                          [\<lparr>ServiceName = ''netwatch-clone-'' @ remoteName @ ''-'' @ randSuffix,
                            ap_Namespace = remoteNs\<rparr>]
                          (side_direction (pl_Direction payload) isSource))
                       ''Failed to cleanup partial service clone'' w of
                  (Some (i, err), w') \<Rightarrow>
                     Some (Inl (Errorf (if i = 1 then ''could not clone local service: ''
                                        else ''could not create partial access policy: '') err), w')
                | (None, w') \<Rightarrow> Some (Inr (''nc-'' @ localName @ ''-'' @ randSuffix), w'))))"
  unfolding side_direction_code [symmetric]
  by (simp add: createPartialAccess_def partial_steps_def Let_def
      split: sum.splits prod.splits option.splits)

lemma approvePartialRequest_steps:
  assumes "(if approvingSourceSide then Split (SourceService request) CHR ''/''
            else Split (TargetService request) CHR ''/'') = localNs # localName # rest"
  shows "approvePartialRequest E p request approvingSourceSide w =
     (case getOverridePorts E (Ports request) of
        Inl err \<Rightarrow> Some (Some err, w)
      | Inr overridePorts \<Rightarrow>
          (case slice_to 8 (EncodeToString (RequestID request)) of
             None \<Rightarrow> None
           | Some randSuffix \<Rightarrow>
               (case partial_steps localNs localName (''nc-'' @ localName @ ''-'' @ randSuffix)
                       [(request_id_label, RequestID request)] overridePorts
                       (new_Access (''access-'' @ ''nc-'' @ localName @ ''-'' @ randSuffix) localNs
                          (commonAccessLabels p (RequestID request)) (Itoa (Duration request) @ ''s'')
                          [(request_id_label, RequestID request)]
                          [\<lparr>ServiceName = (if approvingSourceSide then TargetCloneName request
                                           else SourceCloneName request),
                            ap_Namespace = (if approvingSourceSide
                                            then Split (TargetService request) CHR ''/''
                                            else Split (SourceService request) CHR ''/'') ! 0\<rparr>]
                          (side_direction (Direction request) (Status request = ''PendingSource'')))
                       ''Failed to cleanup partial service clone on approval'' w of
                  (Some (i, err), w') \<Rightarrow>
                     Some (Some (Errorf (if i = 1 then ''could not clone missing service: ''
                                         else ''could not create missing access policy: '') err), w')
                | (None, w') \<Rightarrow> Some (None, w'))))"
proof (cases approvingSourceSide)
  case True
  with assms have "Split (SourceService request) CHR ''/'' = localNs # localName # rest" by simp
  with True show ?thesis
    unfolding side_direction_code [symmetric]
    by (simp add: approvePartialRequest_def partial_steps_def Let_def
        split: sum.splits prod.splits option.splits)
next
  case False
  with assms have "Split (TargetService request) CHR ''/'' = localNs # localName # rest" by simp
  with False show ?thesis
    unfolding side_direction_code [symmetric]
    by (simp add: approvePartialRequest_def partial_steps_def Let_def
        split: sum.splits prod.splits option.splits)
qed

lemma approvePartialRequest_defined:
  assumes "approvePartialRequest E p request approvingSourceSide w = Some x"
  shows "\<exists>localNs localName rest.
           (if approvingSourceSide then Split (SourceService request) CHR ''/''
            else Split (TargetService request) CHR ''/'') = localNs # localName # rest"
proof (rule ccontr)
  assume "\<not> ?thesis"
  then have "approvePartialRequest E p request approvingSourceSide w = None"
    by (auto simp: approvePartialRequest_def Let_def split: list.splits)
  with assms show False by simp
qed

subsection \<open>Direction of a single-sided declaration\<close>

text \<open>
  C8. Every Access that \<open>createPartialAccess\<close> creates has the direction that the
  requested direction and the local side give: requested egress on the source side, or
  ingress on the target side, gives egress; requested ingress on the source side, or egress
  on the target side, gives ingress; any other request gives all. The same holds of every
  Access that \<open>approvePartialRequest\<close> creates, with the side read from the status of the
  request (source exactly when the status is PendingSource). A run that returns an error
  leaves the Accesses as they were.
\<close>

theorem partial_access_direction:
  "(createPartialAccess E p localNs localName remoteNs remoteName reqID payload isSource w =
      Some (created, w') \<longrightarrow>
      (case created of
         Inl err \<Rightarrow> accesses w' = accesses w
       | Inr cloneName \<Rightarrow>
           (\<exists>access. accesses w' = accesses w @ [access] \<and>
              Name access = ''access-'' @ cloneName \<and> Namespace access = localNs \<and>
              acc_Direction access = side_direction (pl_Direction payload) isSource)))
   \<and> (approvePartialRequest E p request approvingSourceSide v = Some (failed, v') \<longrightarrow>
      (case failed of
         Some err \<Rightarrow> accesses v' = accesses v
       | None \<Rightarrow>
           (\<exists>access. accesses v' = accesses v @ [access] \<and>
              acc_Direction access =
                side_direction (Direction request) (Status request = ''PendingSource''))))
   \<and> side_direction ''egress'' True = ''egress'' \<and> side_direction ''ingress'' False = ''egress''
   \<and> side_direction ''ingress'' True = ''ingress'' \<and> side_direction ''egress'' False = ''ingress''
   \<and> (requested \<noteq> ''egress'' \<and> requested \<noteq> ''ingress'' \<longrightarrow> side_direction requested side = ''all'')"
proof (intro conjI impI)
  assume run: "createPartialAccess E p localNs localName remoteNs remoteName reqID payload isSource w =
      Some (created, w')"
  show "case created of
         Inl err \<Rightarrow> accesses w' = accesses w
       | Inr cloneName \<Rightarrow>
           (\<exists>access. accesses w' = accesses w @ [access] \<and>
              Name access = ''access-'' @ cloneName \<and> Namespace access = localNs \<and>
              acc_Direction access = side_direction (pl_Direction payload) isSource)"
  proof (cases "getOverridePorts E (pl_Ports payload)")
    case (Inl e)
    with run show ?thesis by (auto simp: createPartialAccess_steps)
  next
    case (Inr ports)
    with run obtain sfx where sfx: "slice_to 8 (EncodeToString reqID) = Some sfx"
      by (auto simp: createPartialAccess_steps split: option.splits)
    let ?access = "new_Access (''access-'' @ ''nc-'' @ localName @ ''-'' @ sfx) localNs
                          (commonAccessLabels p reqID) (Itoa (pl_Duration payload) @ ''s'')
                          [(request_id_label, reqID)]
                          [\<lparr>ServiceName = ''netwatch-clone-'' @ remoteName @ ''-'' @ sfx,
                            ap_Namespace = remoteNs\<rparr>]
                          (side_direction (pl_Direction payload) isSource)"
    let ?steps = "partial_steps localNs localName (''nc-'' @ localName @ ''-'' @ sfx)
                       [(request_id_label, reqID)] ports ?access
                       ''Failed to cleanup partial service clone'' w"
    obtain r w1 where steps: "?steps = (r, w1)" by (cases ?steps)
    from partial_steps_effect [OF steps] run Inr sfx steps show ?thesis
      by (auto simp: createPartialAccess_steps new_Access_def split: option.splits)
  qed
next
  assume run: "approvePartialRequest E p request approvingSourceSide v = Some (failed, v')"
  from approvePartialRequest_defined [OF run] obtain localNs localName rest where
    parts: "(if approvingSourceSide then Split (SourceService request) CHR ''/''
            else Split (TargetService request) CHR ''/'') = localNs # localName # rest"
    by blast
  note eq = approvePartialRequest_steps [OF parts, of E p v]
  show "case failed of
         Some err \<Rightarrow> accesses v' = accesses v
       | None \<Rightarrow>
           (\<exists>access. accesses v' = accesses v @ [access] \<and>
              acc_Direction access =
                side_direction (Direction request) (Status request = ''PendingSource''))"
  proof (cases "getOverridePorts E (Ports request)")
    case (Inl e)
    with run show ?thesis by (auto simp: eq)
  next
    case (Inr ports)
    with run obtain sfx where sfx: "slice_to 8 (EncodeToString (RequestID request)) = Some sfx"
      by (auto simp: eq split: option.splits)
    let ?access = "new_Access (''access-'' @ ''nc-'' @ localName @ ''-'' @ sfx) localNs
                          (commonAccessLabels p (RequestID request)) (Itoa (Duration request) @ ''s'')
                          [(request_id_label, RequestID request)]
                          [\<lparr>ServiceName = (if approvingSourceSide then TargetCloneName request
                                           else SourceCloneName request),
                            ap_Namespace = (if approvingSourceSide
                                            then Split (TargetService request) CHR ''/''
                                            else Split (SourceService request) CHR ''/'') ! 0\<rparr>]
                          (side_direction (Direction request) (Status request = ''PendingSource''))"
    let ?steps = "partial_steps localNs localName (''nc-'' @ localName @ ''-'' @ sfx)
                       [(request_id_label, RequestID request)] ports ?access
                       ''Failed to cleanup partial service clone on approval'' v"
    obtain r w1 where steps: "?steps = (r, w1)" by (cases ?steps)
    from partial_steps_effect [OF steps] run Inr sfx steps show ?thesis
      by (auto simp: eq new_Access_def split: option.splits)
  qed
qed (simp_all add: side_direction_def)

theorem partial_access_direction_witness:
  "createPartialAccess (example_env allow_all) alice ''team-a'' ''svc1'' ''team-b'' ''svc2''
       ''1111-aaaa'' (example_payload ''ingress'') True (example_world []) =
     Some (Inr ''nc-svc1-31313131'', source_side_created)
   \<and> map (\<lambda>a. (Name a, acc_Direction a)) (accesses source_side_created) =
       [(''access-nc-svc1-31313131'', ''ingress'')]
   \<and> approvePartialRequest (example_env allow_all) bob (pending_request []) False (pending_world []) =
       Some (None, target_side_approved)
   \<and> Status (pending_request []) = ''PendingTarget''
   \<and> map (\<lambda>a. (Name a, acc_Direction a)) (accesses target_side_approved) =
       [(''access-nc-svc1-31313131'', ''ingress''), (''access-nc-svc2-31313131'', ''egress'')]"
proof -
  let ?E = "example_env allow_all"
  have r1: "createPartialAccess ?E alice ''team-a'' ''svc1'' ''team-b'' ''svc2''
       ''1111-aaaa'' (example_payload ''ingress'') True (example_world []) =
     Some (Inr ''nc-svc1-31313131'', source_side_created)"
    by code_simp
  have r2: "approvePartialRequest ?E bob (pending_request []) False (pending_world []) =
       Some (None, target_side_approved)"
    by code_simp
  have facts: "accesses (example_world []) = []" "pl_Direction (example_payload ''ingress'') = ''ingress''"
    "Direction (pending_request []) = ''ingress''" "Status (pending_request []) = ''PendingTarget''"
    "map (\<lambda>a. (Name a, acc_Direction a)) (accesses (pending_world [])) =
       [(''access-nc-svc1-31313131'', ''ingress'')]"
    by code_simp+
  note t = partial_access_direction [where E = ?E and p = alice and localNs = "''team-a''"
      and localName = "''svc1''" and remoteNs = "''team-b''" and remoteName = "''svc2''"
      and reqID = "''1111-aaaa''" and payload = "example_payload ''ingress''" and isSource = True
      and w = "example_world []" and created = "Inr ''nc-svc1-31313131''" and w' = source_side_created
      and request = "pending_request []" and approvingSourceSide = False and v = "pending_world []"
      and failed = None and v' = target_side_approved]
  note t' = partial_access_direction [where E = ?E and p = bob
      and request = "pending_request []" and approvingSourceSide = False and v = "pending_world []"
      and failed = None and v' = target_side_approved]
  have e1: "\<exists>access. accesses source_side_created = accesses (example_world []) @ [access] \<and>
      Name access = ''access-'' @ ''nc-svc1-31313131'' \<and> Namespace access = ''team-a'' \<and>
      acc_Direction access = side_direction (pl_Direction (example_payload ''ingress'')) True"
    using t [THEN conjunct1, THEN mp, OF r1] by simp
  then obtain a where a: "accesses source_side_created = accesses (example_world []) @ [a]"
    "Name a = ''access-'' @ ''nc-svc1-31313131''"
    "acc_Direction a = side_direction (pl_Direction (example_payload ''ingress'')) True"
    by blast
  have a1: "map (\<lambda>a. (Name a, acc_Direction a)) (accesses source_side_created) =
       [(''access-nc-svc1-31313131'', ''ingress'')]"
    unfolding a(1) facts(1) using a(2,3) by (simp add: facts(2) side_direction_def)
  have n2: "map Name (accesses target_side_approved) =
       [''access-nc-svc1-31313131'', ''access-nc-svc2-31313131'']"
    by code_simp
  have e2: "\<exists>access. accesses target_side_approved = accesses (pending_world []) @ [access] \<and>
      acc_Direction access = side_direction (Direction (pending_request []))
        (Status (pending_request []) = ''PendingSource'')"
    using t' [THEN conjunct2, THEN conjunct1, THEN mp, OF r2] by simp
  then obtain b where b: "accesses target_side_approved = accesses (pending_world []) @ [b]"
    "acc_Direction b = side_direction (Direction (pending_request []))
        (Status (pending_request []) = ''PendingSource'')"
    by blast
  from n2 [unfolded b(1)] facts(5) have nb: "Name b = ''access-nc-svc2-31313131''"
    by simp
  have a2: "map (\<lambda>a. (Name a, acc_Direction a)) (accesses target_side_approved) =
       [(''access-nc-svc1-31313131'', ''ingress''), (''access-nc-svc2-31313131'', ''egress'')]"
    unfolding b(1) using facts(5) nb b(2) by (simp add: facts(3,4) side_direction_def)
  from r1 a1 r2 facts(4) a2 show ?thesis by blast
qed

subsection \<open>Status of a submitted request\<close>









end
